(* ===== verification/Prelude.thy ===== *)
theory Prelude
  imports Main "HOL-Library.Word" "HOL-Library.Sublist"
begin

text \<open>
  Shared vocabulary of the development. A JavaScript string is a sequence of UTF-16
  code units, so it is modelled as a list of 16-bit words (\<open>js_string\<close>); string
  literals of the TypeScript source are written \<open>js ''...''\<close>, which maps each ASCII
  character to its code unit. A code unit beyond ASCII (the Portuguese messages of the
  source) is written as a numeral. The collection \<open>eval_simps\<close> gathers the
  definitions that are unfolded when a model operation is evaluated on a concrete input;
  the list lemmas below are the generic facts the component theories share.
\<close>

named_theorems eval_simps "definitions unfolded to evaluate the model on concrete inputs"

type_synonym code_unit = "16 word"
type_synonym js_string = "code_unit list"

definition js :: "string \<Rightarrow> js_string" where
  "js s = map (\<lambda>c. of_nat (of_char c)) s"

declare js_def [eval_simps]

text \<open>A select of the UI library shows the label of the item whose value it holds; its
  items are a list of (value, label) pairs.\<close>

definition select_label :: "(js_string \<times> js_string) list \<Rightarrow> js_string \<Rightarrow> js_string" where
  "select_label items v = (case map_of items v of Some l \<Rightarrow> l | None \<Rightarrow> [])"

declare select_label_def [eval_simps]

subsection \<open>JavaScript string literals\<close>

lemma js_Nil [simp]: "js [] = []"
  by (simp add: js_def)

lemma js_Cons [simp]: "js (c # s) = of_nat (of_char c) # js s"
  by (simp add: js_def)

lemma js_append [simp]: "js (s @ t) = js s @ js t"
  by (simp add: js_def)

lemma length_js [simp]: "length (js s) = length s"
  by (simp add: js_def)

lemma js_eq_Nil_iff [simp]: "js s = [] \<longleftrightarrow> s = []"
  by (simp add: js_def)

lemma unat_of_char_unit [simp]: "unat (of_nat (of_char c) :: code_unit) = of_char c"
proof -
  have "of_char c < (256::nat)" by (rule nat_of_char_less_256)
  also have "(256::nat) \<le> 2 ^ LENGTH(16)" by simp
  finally have "of_char c < (2::nat) ^ LENGTH(16)" .
  then show ?thesis by (simp add: unat_of_nat)
qed

lemma of_char_unit_inject [simp]:
  "(of_nat (of_char c) :: code_unit) = of_nat (of_char d) \<longleftrightarrow> c = d"
proof
  assume "(of_nat (of_char c) :: code_unit) = of_nat (of_char d)"
  then have "unat (of_nat (of_char c) :: code_unit) = unat (of_nat (of_char d) :: code_unit)"
    by (rule arg_cong)
  then have "(of_char c :: nat) = of_char d" by (simp only: unat_of_char_unit)
  then show "c = d" by simp
qed simp

lemma js_inject [simp]: "js s = js t \<longleftrightarrow> s = t"
  by (simp add: js_def inj_on_def inj_map_eq_map)

subsection \<open>Generic list facts\<close>

lemma select_label_mem:
  "v \<in> fst ` set items \<Longrightarrow> select_label items v \<in> snd ` set items"
  by (induction items) (auto simp: select_label_def)

lemma suffix_iff_drop:
  "suffix t s \<longleftrightarrow> length t \<le> length s \<and> drop (length s - length t) s = t"
proof
  assume "suffix t s"
  then obtain u where "s = u @ t" by (auto simp: suffix_def)
  then show "length t \<le> length s \<and> drop (length s - length t) s = t" by simp
next
  assume "length t \<le> length s \<and> drop (length s - length t) s = t"
  then have "s = take (length s - length t) s @ t"
    by (metis append_take_drop_id)
  then show "suffix t s" by (rule suffixI)
qed

lemma prefix_iff_take: "prefix t s \<longleftrightarrow> take (length t) s = t"
proof
  assume "prefix t s"
  then obtain u where "s = t @ u" by (auto simp: prefix_def)
  then show "take (length t) s = t" by simp
next
  assume "take (length t) s = t"
  then have "s = t @ drop (length t) s" by (metis append_take_drop_id)
  then show "prefix t s" by (rule prefixI)
qed

lemma those_map_Some [simp]: "those (map (\<lambda>x. Some (f x)) xs) = Some (map f xs)"
  by (induction xs) auto

lemma length_filter_update:
  "i < length xs \<Longrightarrow> P x = P (xs ! i) \<Longrightarrow>
     length (filter P (xs[i := x])) = length (filter P xs)"
proof (induction xs arbitrary: i)
  case Nil
  then show ?case by simp
next
  case (Cons y ys)
  then show ?case by (cases i) auto
qed

end
