(* ===== verification/JsString.thy ===== *)
theory JsString
  imports Prelude
begin

text \<open>
  The JavaScript string built-ins that \<open>src/src/services/auth-service.ts\<close> and the
  components call,
  modelled from the ECMAScript specification on code-unit lists:
  \<open>String.prototype.split\<close> with a one-unit separator (\<open>js_split\<close>),
  \<open>Array.prototype.join\<close> (\<open>js_join\<close>), \<open>endsWith\<close>, \<open>startsWith\<close> and
  \<open>replace\<close> with a global one-character pattern (\<open>replace_all\<close>) and \<open>includes\<close>
  (\<open>js_includes\<close>). The lemmas relate them to the list library (\<open>suffix\<close>,
  \<open>prefix\<close>, \<open>sublist\<close>, \<open>takeWhile\<close>) and prove the
  split/join round trip in both directions.
\<close>

subsection \<open>Definitions\<close>

text \<open>
  \<open>s.split(sep)\<close> for a separator of one code unit: the pieces between consecutive
  occurrences; the empty string splits into one empty piece.
\<close>

fun js_split :: "code_unit \<Rightarrow> js_string \<Rightarrow> js_string list" where
  "js_split sep [] = [[]]"
| "js_split sep (c # s) =
     (if c = sep then [] # js_split sep s
      else (case js_split sep s of [] \<Rightarrow> [[c]] | p # ps \<Rightarrow> (c # p) # ps))"

fun js_join :: "code_unit \<Rightarrow> js_string list \<Rightarrow> js_string" where
  "js_join sep [] = []"
| "js_join sep [p] = p"
| "js_join sep (p # ps) = p @ sep # js_join sep ps"

definition js_endsWith :: "js_string \<Rightarrow> js_string \<Rightarrow> bool" where
  "js_endsWith s t \<longleftrightarrow> length t \<le> length s \<and> drop (length s - length t) s = t"

definition js_startsWith :: "js_string \<Rightarrow> js_string \<Rightarrow> bool" where
  "js_startsWith s t \<longleftrightarrow> take (length t) s = t"

definition replace_all :: "code_unit \<Rightarrow> code_unit \<Rightarrow> js_string \<Rightarrow> js_string" where
  "replace_all a b s = map (\<lambda>c. if c = a then b else c) s"

text \<open>\<open>String.prototype.includes\<close>: the search string occurs at some position.\<close>

fun js_includes :: "js_string \<Rightarrow> js_string \<Rightarrow> bool" where
  "js_includes [] t = (t = [])"
| "js_includes (c # s) t = (js_startsWith (c # s) t \<or> js_includes s t)"

declare js_endsWith_def [eval_simps] js_startsWith_def [eval_simps] replace_all_def [eval_simps]

subsection \<open>Split and join\<close>

lemma js_split_not_Nil [simp]: "js_split sep s \<noteq> []"
  by (induction s) (auto split: list.split)

text \<open>The second equation in the form the proofs use: \<open>hd\<close> and \<open>tl\<close> of a
  non-empty list instead of the case distinction.\<close>

lemma js_split_Cons [simp]:
  "js_split sep (c # s) =
     (if c = sep then [] # js_split sep s
      else (c # hd (js_split sep s)) # tl (js_split sep s))"
  by (cases "js_split sep s") auto

declare js_split.simps(2) [simp del]

lemma length_js_split [simp]: "length (js_split sep s) = Suc (count_list s sep)"
proof (induction s)
  case Nil
  then show ?case by simp
next
  case (Cons c s)
  then show ?case
    by (cases "js_split sep s") simp_all
qed

lemma js_split_no_sep: "p \<in> set (js_split sep s) \<Longrightarrow> sep \<notin> set p"
proof (induction s arbitrary: p)
  case Nil
  then show ?case by simp
next
  case (Cons c s)
  show ?case
  proof (cases "c = sep")
    case True
    with Cons show ?thesis by auto
  next
    case False
    obtain q qs where q: "js_split sep s = q # qs"
      using js_split_not_Nil by (cases "js_split sep s") blast+
    with Cons.prems False have "p = c # q \<or> p \<in> set qs" by simp
    with Cons.IH q False show ?thesis by auto
  qed
qed

lemma js_join_Cons_hd:
  "ps \<noteq> [] \<Longrightarrow> js_join sep ((c # hd ps) # tl ps) = c # js_join sep ps"
  by (cases ps; cases "tl ps") auto

text \<open>Joining the pieces of a split gives the string back.\<close>

lemma js_join_split: "js_join sep (js_split sep s) = s"
proof (induction s)
  case Nil
  then show ?case by simp
next
  case (Cons c s)
  show ?case
  proof (cases "c = sep")
    case True
    with Cons show ?thesis by (cases "js_split sep s") auto
  next
    case False
    with Cons show ?thesis by (simp add: js_join_Cons_hd)
  qed
qed

lemma js_split_append_sep:
  "sep \<notin> set p \<Longrightarrow> js_split sep (p @ sep # s) = p # js_split sep s"
  by (induction p) auto

lemma js_split_no_sep_single: "sep \<notin> set p \<Longrightarrow> js_split sep p = [p]"
  by (induction p) auto

text \<open>Splitting a join of separator-free pieces gives the pieces back.\<close>

lemma js_split_join:
  "ps \<noteq> [] \<Longrightarrow> (\<forall>p \<in> set ps. sep \<notin> set p) \<Longrightarrow> js_split sep (js_join sep ps) = ps"
proof (induction sep ps rule: js_join.induct)
  case (1 sep)
  then show ?case by simp
next
  case (2 sep p)
  then show ?case by (simp add: js_split_no_sep_single)
next
  case (3 sep p q qs)
  then show ?case by (simp add: js_split_append_sep)
qed

text \<open>\<open>s.split(sep)[0]\<close> is the longest prefix free of the separator.\<close>

lemma hd_js_split: "hd (js_split sep s) = takeWhile (\<lambda>c. c \<noteq> sep) s"
  by (induction s) auto

subsection \<open>endsWith and startsWith\<close>

lemma js_endsWith_suffix: "js_endsWith s t \<longleftrightarrow> suffix t s"
  by (simp add: js_endsWith_def suffix_iff_drop)

lemma js_startsWith_prefix: "js_startsWith s t \<longleftrightarrow> prefix t s"
  by (simp add: js_startsWith_def prefix_iff_take)

lemma js_endsWith_append [simp]: "js_endsWith (u @ t) t"
  by (auto simp: js_endsWith_suffix intro: suffixI)

lemma js_endsWith_decomp: "js_endsWith s t \<Longrightarrow> \<exists>u. s = u @ t"
  by (auto simp: js_endsWith_suffix suffix_def)

lemma length_replace_all [simp]: "length (replace_all a b s) = length s"
  by (simp add: replace_all_def)


subsection \<open>includes\<close>

lemma js_includes_sublist: "js_includes s t \<longleftrightarrow> sublist t s"
  by (induction s) (auto simp: js_startsWith_prefix sublist_Cons_right)

lemma js_includes_Nil [simp]: "js_includes s []"
  by (simp add: js_includes_sublist)

end
