(* ===== verification/Base64.thy ===== *)
theory Base64
  imports JsString
begin

text \<open>
  \<open>atob\<close>, the browser built-in that \<open>decodeJwt\<close> in
  \<open>src/src/services/auth-service.ts\<close> applies to the payload segment, modelled from
  the WHATWG ``forgiving-base64 decode'' algorithm: ASCII whitespace is removed, one or
  two trailing \<open>=\<close> are dropped when the length is a multiple of four, a length of
  \<open>1 mod 4\<close> or a unit outside the standard alphabet fails (\<open>None\<close>, the
  \<open>InvalidCharacterError\<close> that \<open>atob\<close> throws), and each group of four 6-bit
  values gives three bytes, a trailing group of three or two values two bytes or one.
  The result is a string whose code units are the decoded bytes.

  The theory also holds the encoder of the token issuer (\<open>b64_encode\<close>, and
  \<open>base64url_encode\<close> for the URL-safe alphabet of RFC 4648 without padding); it is not
  part of the repository and serves the round-trip theorem and the concrete tokens of the
  witnesses.
\<close>

type_synonym byte = "8 word"

subsection \<open>Decoding\<close>

definition is_ascii_whitespace :: "code_unit \<Rightarrow> bool" where
  "is_ascii_whitespace c \<longleftrightarrow> c = 9 \<or> c = 10 \<or> c = 12 \<or> c = 13 \<or> c = 32"

definition base64_value :: "code_unit \<Rightarrow> nat option" where
  "base64_value c =
     (let n = unat c in
      if 65 \<le> n \<and> n \<le> 90 then Some (n - 65)
      else if 97 \<le> n \<and> n \<le> 122 then Some (n - 71)
      else if 48 \<le> n \<and> n \<le> 57 then Some (n + 4)
      else if n = 43 then Some 62
      else if n = 47 then Some 63
      else None)"

definition strip_padding :: "js_string \<Rightarrow> js_string" where
  "strip_padding s =
     (if length s mod 4 = 0 then
        (if js_endsWith s [61, 61] then take (length s - 2) s
         else if js_endsWith s [61] then take (length s - 1) s
         else s)
      else s)"

text \<open>The 24-bit buffer of the algorithm, read as three big-endian bytes.\<close>

fun sextets_to_bytes :: "nat list \<Rightarrow> byte list" where
  "sextets_to_bytes (a # b # c # d # r) =
     of_nat (a * 4 + b div 16) # of_nat ((b mod 16) * 16 + c div 4) #
     of_nat ((c mod 4) * 64 + d) # sextets_to_bytes r"
| "sextets_to_bytes [a, b, c] = [of_nat (a * 4 + b div 16), of_nat ((b mod 16) * 16 + c div 4)]"
| "sextets_to_bytes [a, b] = [of_nat (a * 4 + b div 16)]"
| "sextets_to_bytes _ = []"

definition atob :: "js_string \<Rightarrow> js_string option" where
  "atob s =
     (let d = strip_padding (filter (\<lambda>c. \<not> is_ascii_whitespace c) s) in
      if length d mod 4 = 1 then None
      else case those (map base64_value d) of
             None \<Rightarrow> None
           | Some xs \<Rightarrow> Some (map ucast (sextets_to_bytes xs)))"

declare is_ascii_whitespace_def [eval_simps] base64_value_def [eval_simps]
  strip_padding_def [eval_simps] atob_def [eval_simps]

subsection \<open>Encoding (the token issuer's side)\<close>

definition b64_digit :: "nat \<Rightarrow> code_unit" where
  "b64_digit n =
     of_nat (if n < 26 then n + 65 else if n < 52 then n + 71 else if n < 62 then n - 4
             else if n = 62 then 43 else 47)"

fun b64_sextets :: "byte list \<Rightarrow> nat list" where
  "b64_sextets (x # y # z # r) =
     [unat x div 4, (unat x mod 4) * 16 + unat y div 16,
      (unat y mod 16) * 4 + unat z div 64, unat z mod 64] @ b64_sextets r"
| "b64_sextets [x, y] =
     [unat x div 4, (unat x mod 4) * 16 + unat y div 16, (unat y mod 16) * 4]"
| "b64_sextets [x] = [unat x div 4, (unat x mod 4) * 16]"
| "b64_sextets [] = []"

definition b64_encode :: "byte list \<Rightarrow> js_string" where
  "b64_encode bs = map b64_digit (b64_sextets bs)"

definition base64url_encode :: "byte list \<Rightarrow> js_string" where
  "base64url_encode bs = replace_all 47 95 (replace_all 43 45 (b64_encode bs))"

declare b64_digit_def [eval_simps] b64_encode_def [eval_simps] base64url_encode_def [eval_simps]

subsection \<open>Arithmetic of the byte regrouping\<close>

lemma unat_byte_less: "unat (x :: byte) < 256"
  using unsigned_less [of x] by simp

lemma regroup_first:
  "(y::nat) < 256 \<Longrightarrow> x div 4 * 4 + ((x mod 4) * 16 + y div 16) div 16 = x"
proof -
  assume "y < 256"
  then have "y div 16 < 16" by simp
  then have "((x mod 4) * 16 + y div 16) div 16 = x mod 4" by simp
  then show ?thesis by simp
qed

lemma regroup_second:
  "(z::nat) < 256 \<Longrightarrow> y < 256 \<Longrightarrow>
     ((x mod 4) * 16 + y div 16) mod 16 * 16 + ((y mod 16) * 4 + z div 64) div 4 = y"
proof -
  assume "z < 256" "y < 256"
  then have "y div 16 < 16" "z div 64 < 4" by simp_all
  then have "((x mod 4) * 16 + y div 16) mod 16 = y div 16"
    and "((y mod 16) * 4 + z div 64) div 4 = y mod 16" by simp_all
  then show ?thesis by simp
qed

lemma regroup_third:
  "(z::nat) < 256 \<Longrightarrow> ((y mod 16) * 4 + z div 64) mod 4 * 64 + z mod 64 = z"
proof -
  assume "z < 256"
  then have "z div 64 < 4" by simp
  then have "((y mod 16) * 4 + z div 64) mod 4 = z div 64" by simp
  then show ?thesis by simp
qed

lemma regroup_second_last:
  "(y::nat) < 256 \<Longrightarrow> ((x mod 4) * 16 + y div 16) mod 16 * 16 + (y mod 16) * 4 div 4 = y"
proof -
  assume "y < 256"
  then have "y div 16 < 16" by simp
  then have "((x mod 4) * 16 + y div 16) mod 16 = y div 16" by simp
  then show ?thesis by simp
qed

lemma regroup_first_last: "(x::nat) div 4 * 4 + (x mod 4) * 16 div 16 = x"
  by simp

lemma sextets_to_bytes_b64_sextets: "sextets_to_bytes (b64_sextets bs) = bs"
proof (induction bs rule: b64_sextets.induct)
  case (1 x y z r)
  then show ?case
    using unat_byte_less [of y] unat_byte_less [of z]
    by (simp add: regroup_first regroup_second regroup_third)
next
  case (2 x y)
  then show ?case
    using unat_byte_less [of y] by (simp add: regroup_first regroup_second_last)
next
  case (3 x)
  then show ?case by (simp add: regroup_first_last)
qed simp

lemma b64_sextets_less: "n \<in> set (b64_sextets bs) \<Longrightarrow> n < 64"
proof (induction bs rule: b64_sextets.induct)
  case (1 x y z r)
  then show ?case
    using unat_byte_less [of x] unat_byte_less [of y] unat_byte_less [of z] by auto
next
  case (2 x y)
  then show ?case using unat_byte_less [of x] unat_byte_less [of y] by auto
next
  case (3 x)
  then show ?case using unat_byte_less [of x] by auto
qed simp

lemma length_b64_sextets_mod4: "length (b64_sextets bs) mod 4 \<noteq> 1"
  by (induction bs rule: b64_sextets.induct) simp_all

subsection \<open>The alphabet\<close>

lemma unat_b64_digit:
  "n < 64 \<Longrightarrow> unat (b64_digit n) =
     (if n < 26 then n + 65 else if n < 52 then n + 71 else if n < 62 then n - 4
      else if n = 62 then 43 else 47)"
  unfolding b64_digit_def unat_of_nat by simp

lemma base64_value_b64_digit: "n < 64 \<Longrightarrow> base64_value (b64_digit n) = Some n"
proof -
  assume n: "n < 64"
  consider "n < 26" | "26 \<le> n" "n < 52" | "52 \<le> n" "n < 62" | "n = 62" | "n = 63"
    using n by linarith
  then show ?thesis
    by cases (auto simp: base64_value_def unat_b64_digit n Let_def)
qed

lemma unat_whitespace: "is_ascii_whitespace c \<Longrightarrow> unat c \<le> 32"
  by (auto simp: is_ascii_whitespace_def)

lemma b64_digit_not_whitespace: "n < 64 \<Longrightarrow> \<not> is_ascii_whitespace (b64_digit n)"
  using unat_whitespace [of "b64_digit n"] by (auto simp: unat_b64_digit split: if_splits)

lemma b64_digit_not_pad: "n < 64 \<Longrightarrow> b64_digit n \<noteq> 61"
proof
  assume "n < 64" "b64_digit n = 61"
  then have "unat (b64_digit n) = 61" by simp
  with \<open>n < 64\<close> show False by (simp add: unat_b64_digit split: if_splits)
qed


subsection \<open>Round trip\<close>

lemma strip_padding_no_pad: "61 \<notin> set s \<Longrightarrow> strip_padding s = s"
proof -
  assume no: "61 \<notin> set s"
  have "\<not> js_endsWith s [61]" and "\<not> js_endsWith s [61, 61]"
    using no by (auto dest!: js_endsWith_decomp)
  then show ?thesis by (simp add: strip_padding_def)
qed

lemma those_base64_value_digits:
  "\<forall>n \<in> set xs. n < 64 \<Longrightarrow> those (map base64_value (map b64_digit xs)) = Some xs"
  by (induction xs) (auto simp: base64_value_b64_digit)

text \<open>\<open>atob\<close> inverts the standard encoder: decoding the Base64 text of a byte
  sequence gives back exactly those bytes, one code unit per byte.\<close>

theorem atob_b64_encode: "atob (b64_encode bs) = Some (map ucast bs)"
proof -
  let ?s = "b64_encode bs"
  have digits: "\<forall>n \<in> set (b64_sextets bs). n < 64"
    using b64_sextets_less by blast
  then have "filter (\<lambda>c. \<not> is_ascii_whitespace c) ?s = ?s"
    by (auto simp: b64_encode_def b64_digit_not_whitespace)
  moreover have "strip_padding ?s = ?s"
  proof (rule strip_padding_no_pad)
    show "61 \<notin> set ?s"
      using digits b64_digit_not_pad by (auto simp: b64_encode_def)
  qed
  moreover have "length ?s mod 4 \<noteq> 1"
    using length_b64_sextets_mod4 [of bs] by (simp add: b64_encode_def)
  moreover have "those (map base64_value ?s) = Some (b64_sextets bs)"
    using those_base64_value_digits [OF digits] by (simp only: b64_encode_def)
  ultimately show ?thesis
    by (simp add: atob_def sextets_to_bytes_b64_sextets)
qed


subsection \<open>The URL-safe alphabet\<close>

lemma b64_digit_not_url:
  "n < 64 \<Longrightarrow> b64_digit n \<noteq> 45 \<and> b64_digit n \<noteq> 46 \<and> b64_digit n \<noteq> 95"
proof -
  assume n: "n < 64"
  have "unat (b64_digit n) \<noteq> 45 \<and> unat (b64_digit n) \<noteq> 46 \<and> unat (b64_digit n) \<noteq> 95"
    using n by (auto simp: unat_b64_digit)
  then show ?thesis by auto
qed

lemma b64_encode_no_url_units:
  "45 \<notin> set (b64_encode bs) \<and> 46 \<notin> set (b64_encode bs) \<and> 95 \<notin> set (b64_encode bs)"
  using b64_sextets_less b64_digit_not_url by (fastforce simp: b64_encode_def)

lemma replace_all_url_back:
  "45 \<notin> set x \<Longrightarrow> 95 \<notin> set x \<Longrightarrow>
     replace_all 95 47 (replace_all 45 43 (replace_all 47 95 (replace_all 43 45 x))) = x"
  by (induction x) (auto simp: replace_all_def)

text \<open>Undoing the URL-safe alphabet, as \<open>decodeJwt\<close> does, gives the standard text.\<close>

lemma base64url_decode_alphabet:
  "replace_all 95 47 (replace_all 45 43 (base64url_encode bs)) = b64_encode bs"
  using b64_encode_no_url_units [of bs]
  by (simp add: base64url_encode_def replace_all_url_back)

lemma base64url_encode_no_dot: "46 \<notin> set (base64url_encode bs)"
  using b64_encode_no_url_units [of bs] by (auto simp: base64url_encode_def replace_all_def)

end
