(* ===== verification/Json.thy ===== *)
theory Json
  imports JsString
begin

text \<open>
  \<open>JSON.parse\<close>, the built-in that \<open>decodeJwt\<close> applies to the decoded payload, and
  the two JavaScript operations the validator performs on its result: reading a property
  (\<open>payload.email\<close>) and testing truthiness (\<open>!payload.email_verified\<close>).
  The parser follows the JSON grammar of RFC 8259 / ECMA-404 on code units: whitespace is
  space, tab, line feed and carriage return; strings reject unescaped units below 0x20 and
  decode the escapes \<open>\" \\ \/ \b \f \n \r \t \uXXXX\<close>; numbers are
  \<open>-?(0|[1-9][0-9]*)(.[0-9]+)?([eE][+-]?[0-9]+)?\<close>. A number is kept exactly as
  mantissa and decimal exponent (\<open>JNum m e\<close> is \<open>m * 10^e\<close>); the rounding to
  an IEEE double is not modelled. An object keeps its members in order, duplicates
  included; a property read returns the last member with that key, as the object built
  by \<open>JSON.parse\<close> does. The recursive descent carries fuel: a nesting level spends two
  units (the value and its element or member loop) for at least one code unit of input, so
  fuel \<open>2 * length s + 1\<close> is enough (\<open>parse_fuel_enough\<close>), and more fuel never
  changes an answer (\<open>parse_fuel_mono\<close>): \<open>JSON_parse\<close> is the unbounded parser.
\<close>

datatype json =
    JNull
  | JBool bool
  | JNum int int
  | JStr js_string
  | JArr "json list"
  | JObj "(js_string \<times> json) list"

datatype json_result = Parsed json js_string | ParseError | NoFuel

subsection \<open>Lexical parts\<close>

definition is_json_ws :: "code_unit \<Rightarrow> bool" where
  "is_json_ws c \<longleftrightarrow> c = 32 \<or> c = 9 \<or> c = 10 \<or> c = 13"

definition skip_ws :: "js_string \<Rightarrow> js_string" where
  "skip_ws s = dropWhile is_json_ws s"

definition is_digit :: "code_unit \<Rightarrow> bool" where
  "is_digit c \<longleftrightarrow> 48 \<le> unat c \<and> unat c \<le> 57"

definition digits_value :: "js_string \<Rightarrow> nat" where
  "digits_value ds = foldl (\<lambda>acc c. acc * 10 + (unat c - 48)) 0 ds"

definition hex_value :: "code_unit \<Rightarrow> nat option" where
  "hex_value c =
     (let n = unat c in
      if 48 \<le> n \<and> n \<le> 57 then Some (n - 48)
      else if 65 \<le> n \<and> n \<le> 70 then Some (n - 55)
      else if 97 \<le> n \<and> n \<le> 102 then Some (n - 87)
      else None)"

definition hex4 :: "js_string \<Rightarrow> code_unit option" where
  "hex4 hs =
     (case those (map hex_value hs) of
        Some [a, b, c, d] \<Rightarrow> Some (of_nat (a * 4096 + b * 256 + c * 16 + d))
      | _ \<Rightarrow> None)"

definition simple_escape :: "code_unit \<Rightarrow> code_unit option" where
  "simple_escape e =
     (if e = 34 then Some 34 else if e = 92 then Some 92 else if e = 47 then Some 47
      else if e = 98 then Some 8 else if e = 102 then Some 12 else if e = 110 then Some 10
      else if e = 114 then Some 13 else if e = 116 then Some 9 else None)"

text \<open>The characters of a string literal after its opening quote, up to the closing one.\<close>

fun parse_string_chars :: "js_string \<Rightarrow> (js_string \<times> js_string) option" where
  "parse_string_chars [] = None"
| "parse_string_chars (c # s) =
     (if c = 34 then Some ([], s)
      else if c = 92 then
        (case s of
           [] \<Rightarrow> None
         | e # s' \<Rightarrow>
             if e = 117 then
               (case hex4 (take 4 s') of
                  None \<Rightarrow> None
                | Some u \<Rightarrow> map_option (\<lambda>(t, r). (u # t, r)) (parse_string_chars (drop 4 s')))
             else
               (case simple_escape e of
                  None \<Rightarrow> None
                | Some u \<Rightarrow> map_option (\<lambda>(t, r). (u # t, r)) (parse_string_chars s')))
      else if unat c < 32 then None
      else map_option (\<lambda>(t, r). (c # t, r)) (parse_string_chars s))"

text \<open>Digits of a fraction or an exponent: at least one.\<close>

definition parse_digits1 :: "js_string \<Rightarrow> (js_string \<times> js_string) option" where
  "parse_digits1 s =
     (let ds = takeWhile is_digit s in
      if ds = [] then None else Some (ds, dropWhile is_digit s))"

definition parse_int_part :: "js_string \<Rightarrow> (js_string \<times> js_string) option" where
  "parse_int_part s =
     (case s of
        [] \<Rightarrow> None
      | c # r \<Rightarrow> if c = 48 then Some ([c], r)
                 else if is_digit c then Some (c # takeWhile is_digit r, dropWhile is_digit r)
                 else None)"

definition parse_frac :: "js_string \<Rightarrow> (js_string \<times> js_string) option" where
  "parse_frac s =
     (case s of
        c # r \<Rightarrow> if c = 46 then parse_digits1 r else Some ([], s)
      | [] \<Rightarrow> Some ([], s))"

definition parse_exp :: "js_string \<Rightarrow> (int \<times> js_string) option" where
  "parse_exp s =
     (case s of
        c # r \<Rightarrow>
          if c = 101 \<or> c = 69 then
            (case r of
               d # r' \<Rightarrow>
                 if d = 43 then map_option (\<lambda>(ds, t). (int (digits_value ds), t)) (parse_digits1 r')
                 else if d = 45 then map_option (\<lambda>(ds, t). (- int (digits_value ds), t)) (parse_digits1 r')
                 else map_option (\<lambda>(ds, t). (int (digits_value ds), t)) (parse_digits1 r)
             | [] \<Rightarrow> None)
          else Some (0, s)
      | [] \<Rightarrow> Some (0, s))"

definition parse_number :: "js_string \<Rightarrow> (json \<times> js_string) option" where
  "parse_number s =
     (let neg = (s \<noteq> [] \<and> hd s = 45); s1 = (if neg then tl s else s) in
      case parse_int_part s1 of
        None \<Rightarrow> None
      | Some (ip, s2) \<Rightarrow>
          (case parse_frac s2 of
             None \<Rightarrow> None
           | Some (fp, s3) \<Rightarrow>
               (case parse_exp s3 of
                  None \<Rightarrow> None
                | Some (ex, s4) \<Rightarrow>
                    let m = int (digits_value (ip @ fp)) in
                    Some (JNum (if neg then - m else m) (ex - int (length fp)), s4))))"

subsection \<open>Values, arrays and objects\<close>

fun parse_value :: "nat \<Rightarrow> js_string \<Rightarrow> json_result"
and parse_elems :: "nat \<Rightarrow> js_string \<Rightarrow> json list \<Rightarrow> json_result"
and parse_members :: "nat \<Rightarrow> js_string \<Rightarrow> (js_string \<times> json) list \<Rightarrow> json_result" where
  "parse_value 0 s = NoFuel"
| "parse_value (Suc n) s =
     (case skip_ws s of
        [] \<Rightarrow> ParseError
      | c # r \<Rightarrow>
          if c = 123 then
            (case skip_ws r of
               d # r' \<Rightarrow> if d = 125 then Parsed (JObj []) r' else parse_members n (d # r') []
             | [] \<Rightarrow> ParseError)
          else if c = 91 then
            (case skip_ws r of
               d # r' \<Rightarrow> if d = 93 then Parsed (JArr []) r' else parse_elems n (d # r') []
             | [] \<Rightarrow> ParseError)
          else if c = 34 then
            (case parse_string_chars r of
               None \<Rightarrow> ParseError
             | Some (t, r') \<Rightarrow> Parsed (JStr t) r')
          else if c = 45 \<or> is_digit c then
            (case parse_number (c # r) of
               None \<Rightarrow> ParseError
             | Some (v, r') \<Rightarrow> Parsed v r')
          else if js_startsWith (c # r) (js ''true'') then Parsed (JBool True) (drop 3 r)
          else if js_startsWith (c # r) (js ''false'') then Parsed (JBool False) (drop 4 r)
          else if js_startsWith (c # r) (js ''null'') then Parsed JNull (drop 3 r)
          else ParseError)"
| "parse_elems 0 s acc = NoFuel"
| "parse_elems (Suc n) s acc =
     (case parse_value n s of
        Parsed v r \<Rightarrow>
          (case skip_ws r of
             c # r' \<Rightarrow>
               if c = 44 then parse_elems n r' (acc @ [v])
               else if c = 93 then Parsed (JArr (acc @ [v])) r'
               else ParseError
           | [] \<Rightarrow> ParseError)
      | ParseError \<Rightarrow> ParseError
      | NoFuel \<Rightarrow> NoFuel)"
| "parse_members 0 s acc = NoFuel"
| "parse_members (Suc n) s acc =
     (case skip_ws s of
        c # r \<Rightarrow>
          if c = 34 then
            (case parse_string_chars r of
               None \<Rightarrow> ParseError
             | Some (k, r1) \<Rightarrow>
                 (case skip_ws r1 of
                    d # r2 \<Rightarrow>
                      if d = 58 then
                        (case parse_value n r2 of
                           Parsed v r3 \<Rightarrow>
                             (case skip_ws r3 of
                                e # r4 \<Rightarrow>
                                  if e = 44 then parse_members n r4 (acc @ [(k, v)])
                                  else if e = 125 then Parsed (JObj (acc @ [(k, v)])) r4
                                  else ParseError
                              | [] \<Rightarrow> ParseError)
                         | ParseError \<Rightarrow> ParseError
                         | NoFuel \<Rightarrow> NoFuel)
                      else ParseError
                  | [] \<Rightarrow> ParseError))
          else ParseError
      | [] \<Rightarrow> ParseError)"

definition JSON_parse :: "js_string \<Rightarrow> json option" where
  "JSON_parse s =
     (case parse_value (Suc (2 * length s)) s of
        Parsed v r \<Rightarrow> if skip_ws r = [] then Some v else None
      | _ \<Rightarrow> None)"

subsection \<open>Property access and truthiness\<close>

text \<open>
  \<open>v.key\<close> on a parsed value: an own member of an object (the last one with that key);
  \<open>undefined\<close> (\<open>None\<close>) on every other value, since none of the keys the validator
  reads is a property of the string, number, boolean or array prototypes.
\<close>

fun get_prop :: "json \<Rightarrow> js_string \<Rightarrow> json option" where
  "get_prop (JObj kvs) k = map_of (rev kvs) k"
| "get_prop _ k = None"

text \<open>ToBoolean: \<open>null\<close>, \<open>false\<close>, zero and the empty string are falsy.\<close>

fun js_truthy :: "json \<Rightarrow> bool" where
  "js_truthy JNull = False"
| "js_truthy (JBool b) = b"
| "js_truthy (JNum m e) = (m \<noteq> 0)"
| "js_truthy (JStr s) = (s \<noteq> [])"
| "js_truthy (JArr vs) = True"
| "js_truthy (JObj kvs) = True"

definition truthy_opt :: "json option \<Rightarrow> bool" where
  "truthy_opt v = (case v of None \<Rightarrow> False | Some x \<Rightarrow> js_truthy x)"

declare is_json_ws_def [eval_simps] skip_ws_def [eval_simps] is_digit_def [eval_simps]
  digits_value_def [eval_simps] hex_value_def [eval_simps] hex4_def [eval_simps]
  simple_escape_def [eval_simps] parse_digits1_def [eval_simps] parse_int_part_def [eval_simps]
  parse_frac_def [eval_simps] parse_exp_def [eval_simps] parse_number_def [eval_simps]
  JSON_parse_def [eval_simps] truthy_opt_def [eval_simps]


section \<open>Termination of the parser\<close>

text \<open>Every successful parse consumes input. The lengths are those of the rest.\<close>

lemma length_skip_ws: "length (skip_ws s) \<le> length s"
  by (simp add: skip_ws_def length_dropWhile_le)

lemma skip_ws_Cons_length: "skip_ws s = c # r \<Longrightarrow> length r < length s"
  using length_skip_ws [of s] by simp

lemma parse_string_chars_length: "parse_string_chars s = Some (t, r) \<Longrightarrow> length r < length s"
proof (induction s arbitrary: t r rule: parse_string_chars.induct)
  case (2 c s)
  then show ?case
    by (fastforce split: if_splits list.splits option.splits prod.splits)
qed simp

lemma parse_digits1_length: "parse_digits1 s = Some (ds, r) \<Longrightarrow> length r < length s"
proof -
  assume a: "parse_digits1 s = Some (ds, r)"
  then have "takeWhile is_digit s \<noteq> []" and r: "r = dropWhile is_digit s"
    by (auto simp: parse_digits1_def Let_def split: if_splits)
  moreover have "length s = length (takeWhile is_digit s) + length (dropWhile is_digit s)"
    by (metis length_append takeWhile_dropWhile_id)
  ultimately show ?thesis by simp
qed

lemma parse_int_part_length: "parse_int_part s = Some (ip, r) \<Longrightarrow> length r < length s"
  by (auto simp: parse_int_part_def le_imp_less_Suc length_dropWhile_le split: list.splits if_splits)

lemma parse_frac_length: "parse_frac s = Some (fp, r) \<Longrightarrow> length r \<le> length s"
  by (auto simp: parse_frac_def dest!: parse_digits1_length split: list.splits if_splits)

lemma parse_exp_length: "parse_exp s = Some (ex, r) \<Longrightarrow> length r \<le> length s"
  by (auto simp: parse_exp_def dest!: parse_digits1_length split: list.splits if_splits)

lemma parse_number_length: "parse_number s = Some (v, r) \<Longrightarrow> length r < length s"
proof -
  assume a: "parse_number s = Some (v, r)"
  define s1 where "s1 = (if s \<noteq> [] \<and> hd s = 45 then tl s else s)"
  have l1: "length s1 \<le> length s" by (simp add: s1_def)
  from a obtain ip s2 fp s3 ex where
    p1: "parse_int_part s1 = Some (ip, s2)" and p2: "parse_frac s2 = Some (fp, s3)"
    and p3: "parse_exp s3 = Some (ex, r)"
    by (auto simp: parse_number_def s1_def Let_def split: option.splits prod.splits)
  show ?thesis
    using parse_int_part_length [OF p1] parse_frac_length [OF p2] parse_exp_length [OF p3] l1
    by simp
qed


lemma parse_consumes:
  "parse_value n s = Parsed v r \<Longrightarrow> length r < length s"
  "parse_elems n s acc = Parsed v r \<Longrightarrow> length r < length s"
  "parse_members n s kvs = Parsed v r \<Longrightarrow> length r < length s"
proof (induction n s and n s acc and n s kvs arbitrary: v r and v r and v r
       rule: parse_value_parse_elems_parse_members.induct)
  case (2 n s)
  then show ?case
    by (fastforce dest!: skip_ws_Cons_length parse_string_chars_length parse_number_length
                  split: list.splits if_splits option.splits prod.splits)
next
  case (4 n s acc)
  then show ?case
    by (fastforce dest!: skip_ws_Cons_length split: json_result.splits list.splits if_splits)
next
  case (6 n s kvs)
  then show ?case
    by (fastforce dest!: skip_ws_Cons_length parse_string_chars_length
                  split: json_result.splits list.splits if_splits option.splits prod.splits)
qed simp_all


text \<open>Fuel \<open>2 * length s + 1\<close> is enough: an array or object level spends two units (the
  value and the element or member loop) for at least one code unit of input.\<close>

lemma parse_fuel_enough:
  "2 * length s < n \<Longrightarrow> parse_value n s \<noteq> NoFuel"
  "2 * length s + 1 < n \<Longrightarrow> parse_elems n s acc \<noteq> NoFuel"
  "2 * length s + 1 < n \<Longrightarrow> parse_members n s kvs \<noteq> NoFuel"
proof (induction n s and n s acc and n s kvs rule: parse_value_parse_elems_parse_members.induct)
  case (2 n s)
  then show ?case
    by (fastforce dest!: skip_ws_Cons_length split: list.splits if_splits option.splits prod.splits)
next
  case (4 n s acc)
  then show ?case
    by (fastforce dest!: skip_ws_Cons_length parse_consumes(1) split: json_result.splits list.splits if_splits)
next
  case (6 n s kvs)
  then show ?case
    by (fastforce dest!: skip_ws_Cons_length parse_string_chars_length parse_consumes(1)
                  split: json_result.splits list.splits if_splits option.splits prod.splits)
qed simp_all


text \<open>More fuel never changes an answer that did not run out.\<close>

lemma parse_fuel_mono:
  "parse_value n s \<noteq> NoFuel \<Longrightarrow> parse_value (Suc n) s = parse_value n s"
  "parse_elems n s acc \<noteq> NoFuel \<Longrightarrow> parse_elems (Suc n) s acc = parse_elems n s acc"
  "parse_members n s kvs \<noteq> NoFuel \<Longrightarrow> parse_members (Suc n) s kvs = parse_members n s kvs"
proof (induction n s and n s acc and n s kvs rule: parse_value_parse_elems_parse_members.induct)
  case (2 n s)
  show ?case
  proof (cases "skip_ws s")
    case (Cons c r)
    consider (obj) "c = 123" | (arr) "c \<noteq> 123" "c = 91" | (other) "c \<noteq> 123" "c \<noteq> 91" by blast
    then show ?thesis
    proof cases
      case obj
      show ?thesis
      proof (cases "skip_ws r")
        case (Cons d r')
        show ?thesis
        proof (cases "d = 125")
          case False
          have "parse_members n (d # r') [] \<noteq> NoFuel"
            using "2.prems" \<open>skip_ws s = c # r\<close> obj Cons False by simp
          from "2.IH"(1) [OF \<open>skip_ws s = c # r\<close> obj Cons False this]
          show ?thesis using \<open>skip_ws s = c # r\<close> obj Cons False by simp
        qed (use \<open>skip_ws s = c # r\<close> obj Cons in simp)
      qed (use \<open>skip_ws s = c # r\<close> obj in simp)
    next
      case arr
      show ?thesis
      proof (cases "skip_ws r")
        case (Cons d r')
        show ?thesis
        proof (cases "d = 93")
          case False
          have "parse_elems n (d # r') [] \<noteq> NoFuel"
            using "2.prems" \<open>skip_ws s = c # r\<close> arr Cons False by simp
          from "2.IH"(2) [OF \<open>skip_ws s = c # r\<close> arr Cons False this]
          show ?thesis using \<open>skip_ws s = c # r\<close> arr Cons False by simp
        qed (use \<open>skip_ws s = c # r\<close> arr Cons in simp)
      qed (use \<open>skip_ws s = c # r\<close> arr in simp)
    next
      case other
      then show ?thesis using \<open>skip_ws s = c # r\<close> by simp
    qed
  qed simp
next
  case (4 n s acc)
  have ne: "parse_value n s \<noteq> NoFuel"
    using "4.prems" by (cases "parse_value n s") (simp_all del: parse_value.simps)
  have pv: "parse_value (Suc n) s = parse_value n s" by (rule "4.IH"(1) [OF ne])
  show ?case
  proof (cases "parse_value n s")
    case (Parsed v r)
    show ?thesis
    proof (cases "skip_ws r")
      case (Cons c r')
      show ?thesis
      proof (cases "c = 44")
        case True
        have "parse_elems n r' (acc @ [v]) \<noteq> NoFuel"
          using "4.prems" Parsed Cons True by (simp del: parse_value.simps)
        from "4.IH"(2) [OF Parsed Cons True this]
        show ?thesis using pv Parsed Cons True by (simp del: parse_value.simps)
      qed (use pv Parsed Cons in \<open>simp del: parse_value.simps\<close>)
    qed (use pv Parsed in \<open>simp del: parse_value.simps\<close>)
  qed (use pv in \<open>simp_all del: parse_value.simps\<close>)
next
  case (6 n s kvs)
  show ?case
  proof (cases "\<exists>r k r1 r2. skip_ws s = 34 # r \<and> parse_string_chars r = Some (k, r1) \<and>
                             skip_ws r1 = 58 # r2")
    case False
    then show ?thesis
      by (auto simp del: parse_value.simps split: list.splits option.splits if_splits)
  next
    case True
    then obtain r k r1 r2 where sk: "skip_ws s = 34 # r" and ps: "parse_string_chars r = Some (k, r1)"
      and sk1: "skip_ws r1 = 58 # r2" by blast
    let ?k = "\<lambda>m v r3. case skip_ws r3 of
                 e # r4 \<Rightarrow> if e = 44 then parse_members m r4 (kvs @ [(k, v)])
                          else if e = 125 then Parsed (JObj (kvs @ [(k, v)])) r4 else ParseError
               | [] \<Rightarrow> ParseError"
    have pre: "parse_members (Suc n) s kvs =
                 (case parse_value n r2 of Parsed v r3 \<Rightarrow> ?k n v r3 | ParseError \<Rightarrow> ParseError | NoFuel \<Rightarrow> NoFuel)"
      by (subst parse_members.simps(2)) (simp del: parse_members.simps parse_value.simps add: sk ps sk1)
    have post: "parse_members (Suc (Suc n)) s kvs =
                 (case parse_value (Suc n) r2 of Parsed v r3 \<Rightarrow> ?k (Suc n) v r3
                  | ParseError \<Rightarrow> ParseError | NoFuel \<Rightarrow> NoFuel)"
      by (subst parse_members.simps(2)) (simp del: parse_members.simps parse_value.simps add: sk ps sk1)
    have ne: "parse_value n r2 \<noteq> NoFuel"
      using "6.prems" pre by (auto simp del: parse_members.simps parse_value.simps)
    have pv: "parse_value (Suc n) r2 = parse_value n r2"
      by (rule "6.IH"(1) [OF sk refl ps refl sk1 refl ne])
    show ?thesis
    proof (cases "parse_value n r2")
      case (Parsed v r3)
      show ?thesis
      proof (cases "skip_ws r3")
        case (Cons e r4)
        show ?thesis
        proof (cases "e = 44")
          case True
          have "parse_members n r4 (kvs @ [(k, v)]) \<noteq> NoFuel"
            using "6.prems" pre Parsed Cons True by (simp del: parse_members.simps parse_value.simps)
          from "6.IH"(2) [OF sk refl ps refl sk1 refl Parsed Cons True this]
          show ?thesis using pre post pv Parsed Cons True by (simp del: parse_members.simps parse_value.simps)
        qed (use pre post pv Parsed Cons in \<open>simp del: parse_members.simps parse_value.simps\<close>)
      qed (use pre post pv Parsed in \<open>simp del: parse_members.simps parse_value.simps\<close>)
    qed (use pre post pv in \<open>simp_all del: parse_members.simps parse_value.simps\<close>)
  qed
qed simp_all


lemma parse_value_fuel_le:
  assumes "parse_value m s \<noteq> NoFuel" and "m \<le> n"
  shows "parse_value n s = parse_value m s"
  using assms(2)
proof (induction n)
  case (Suc n)
  show ?case
  proof (cases "m = Suc n")
    case False
    with Suc have "parse_value n s = parse_value m s" by simp
    with assms(1) show ?thesis using parse_fuel_mono(1) [of n s] by simp
  qed simp
qed simp

lemma JSON_parse_unbounded:
  assumes "Suc (2 * length s) \<le> n"
  shows "parse_value n s \<noteq> NoFuel \<and>
         JSON_parse s = (case parse_value n s of
                           Parsed v r \<Rightarrow> if skip_ws r = [] then Some v else None
                         | _ \<Rightarrow> None)"
proof -
  have ne: "parse_value (Suc (2 * length s)) s \<noteq> NoFuel" by (rule parse_fuel_enough(1)) simp
  have eq: "parse_value n s = parse_value (Suc (2 * length s)) s"
    by (rule parse_value_fuel_le [OF ne assms])
  show ?thesis using ne by (simp add: eq JSON_parse_def)
qed

end
