(* ===== verification/Config.thy ===== *)
theory Config
  imports JsString
begin

text \<open>
  The configuration of \<open>src/src/services/auth-service.ts\<close>, read once from the Vite
  environment at module load (lines 14--18): \<open>GOOGLE_CLIENT_ID\<close> and
  \<open>GOOGLE_WORKSPACE_DOMAIN\<close> with their \<open>||\<close> defaults, \<open>ALLOWED_DOMAIN\<close> with a
  leading \<open>@\<close> ensured, the check \<open>AuthService.validateEnvironment\<close> and the debug
  snapshot \<open>getConfig\<close>. An environment variable is a string or \<open>undefined\<close>
  (\<open>None\<close>). The lemmas show that the allowed domain always starts with \<open>@\<close>, that
  the second check of \<open>validateEnvironment\<close> can never fire, and that the snapshot does
  not reveal the client identifier.
\<close>

record vite_env =
  VITE_GOOGLE_CLIENT_ID :: "js_string option"
  VITE_GOOGLE_WORKSPACE_DOMAIN :: "js_string option"
  MODE :: js_string

text \<open>\<open>x || d\<close> for \<open>x\<close> a string or \<open>undefined\<close>: the empty string is falsy.\<close>

definition js_or_default :: "js_string option \<Rightarrow> js_string \<Rightarrow> js_string" where
  "js_or_default x d = (case x of None \<Rightarrow> d | Some s \<Rightarrow> if s = [] then d else s)"

definition GOOGLE_CLIENT_ID :: "vite_env \<Rightarrow> js_string" where
  "GOOGLE_CLIENT_ID env = js_or_default (VITE_GOOGLE_CLIENT_ID env) []"

definition GOOGLE_WORKSPACE_DOMAIN :: "vite_env \<Rightarrow> js_string" where
  "GOOGLE_WORKSPACE_DOMAIN env =
     js_or_default (VITE_GOOGLE_WORKSPACE_DOMAIN env) (js ''@grupolgh.com.br'')"

definition ALLOWED_DOMAIN :: "vite_env \<Rightarrow> js_string" where
  "ALLOWED_DOMAIN env =
     (let d = GOOGLE_WORKSPACE_DOMAIN env in
      if js_startsWith d (js ''@'') then d else js ''@'' @ d)"

text \<open>
  \<open>validateEnvironment\<close> returns \<open>{valid: true}\<close> (\<open>None\<close>) or the first failing
  check; the messages are those of the source (\<open>0xE3\<close> is the code unit of the
  Portuguese \<open>a\<close> with tilde).
\<close>

datatype env_error = ClientIdNotConfigured | DomainNotConfigured

definition validateEnvironment :: "vite_env \<Rightarrow> env_error option" where
  "validateEnvironment env =
     (if GOOGLE_CLIENT_ID env = [] then Some ClientIdNotConfigured
      else if ALLOWED_DOMAIN env = [] then Some DomainNotConfigured
      else None)"

fun env_error_message :: "env_error \<Rightarrow> js_string" where
  "env_error_message ClientIdNotConfigured =
     js ''VITE_GOOGLE_CLIENT_ID n'' @ [227] @ js ''o configurado em .env''"
| "env_error_message DomainNotConfigured =
     js ''VITE_GOOGLE_WORKSPACE_DOMAIN n'' @ [227] @ js ''o configurado em .env''"

record config_snapshot =
  cfg_clientId :: js_string
  cfg_domain :: js_string
  cfg_domainEnv :: js_string
  cfg_environment :: js_string

definition getConfig :: "vite_env \<Rightarrow> config_snapshot" where
  "getConfig env =
     \<lparr>cfg_clientId =
        (if GOOGLE_CLIENT_ID env \<noteq> [] then js ''***configurado***''
         else js ''N'' @ [195] @ js ''O CONFIGURADO''),
      cfg_domain = ALLOWED_DOMAIN env,
      cfg_domainEnv = GOOGLE_WORKSPACE_DOMAIN env,
      cfg_environment = MODE env\<rparr>"

declare js_or_default_def [eval_simps] GOOGLE_CLIENT_ID_def [eval_simps]
  GOOGLE_WORKSPACE_DOMAIN_def [eval_simps] ALLOWED_DOMAIN_def [eval_simps]
  validateEnvironment_def [eval_simps] getConfig_def [eval_simps]

subsection \<open>The allowed domain\<close>

lemma GOOGLE_WORKSPACE_DOMAIN_not_Nil: "GOOGLE_WORKSPACE_DOMAIN env \<noteq> []"
  by (simp add: GOOGLE_WORKSPACE_DOMAIN_def js_or_default_def split: option.split)

text \<open>Whatever the environment holds, the domain the validator compares against
  starts with \<open>@\<close> (and so is never empty).\<close>

theorem ALLOWED_DOMAIN_starts_with_at: "js_startsWith (ALLOWED_DOMAIN env) (js ''@'')"
  by (simp add: ALLOWED_DOMAIN_def Let_def js_startsWith_def)

lemma ALLOWED_DOMAIN_not_Nil [simp]: "ALLOWED_DOMAIN env \<noteq> []"
  by (simp add: ALLOWED_DOMAIN_def Let_def GOOGLE_WORKSPACE_DOMAIN_not_Nil)

lemma ALLOWED_DOMAIN_Cons: "\<exists>rest. ALLOWED_DOMAIN env = 64 # rest"
proof -
  have "take 1 (ALLOWED_DOMAIN env) = [64]"
    using ALLOWED_DOMAIN_starts_with_at [of env] by (simp add: js_startsWith_def)
  then show ?thesis
    by (cases "ALLOWED_DOMAIN env") auto
qed

subsection \<open>validateEnvironment\<close>

text \<open>\<open>validateEnvironment\<close> fails exactly when no client identifier is
  configured; its domain check is dead code, because an empty or missing domain variable
  falls back to \<open>@grupolgh.com.br\<close>.\<close>

theorem validateEnvironment_eq:
  "validateEnvironment env = (if GOOGLE_CLIENT_ID env = [] then Some ClientIdNotConfigured else None)"
  by (simp add: validateEnvironment_def)

subsection \<open>The debug snapshot\<close>

text \<open>The client identifier is redacted: two environments that agree on whether
  a client identifier is set give the same \<open>clientId\<close> field, whatever the
  identifiers are.\<close>

theorem getConfig_redacts_client_id:
  assumes "(GOOGLE_CLIENT_ID e1 = []) \<longleftrightarrow> (GOOGLE_CLIENT_ID e2 = [])"
  shows "cfg_clientId (getConfig e1) = cfg_clientId (getConfig e2)"
  using assms by (simp add: getConfig_def)

theorem getConfig_redacts_client_id_witness:
  "cfg_clientId (getConfig \<lparr>VITE_GOOGLE_CLIENT_ID = Some (js ''secret-1''),
       VITE_GOOGLE_WORKSPACE_DOMAIN = None, MODE = js ''development''\<rparr>) =
   cfg_clientId (getConfig \<lparr>VITE_GOOGLE_CLIENT_ID = Some (js ''other-2''),
       VITE_GOOGLE_WORKSPACE_DOMAIN = None, MODE = js ''development''\<rparr>)"
  by (rule getConfig_redacts_client_id) (simp add: GOOGLE_CLIENT_ID_def js_or_default_def)

end
