(* ===== verification/Validator.thy ===== *)
theory Validator
  imports Base64 Json Config
begin

text \<open>
  The token validator of \<open>src/src/services/auth-service.ts\<close>: \<open>decodeJwt\<close>
  (lines 275--298), \<open>validateToken\<close> (lines 216--266) and the wrapper
  \<open>validateToken\<close> of the \<open>useAuth\<close> hook (lines 392--416). Every \<open>throw\<close> of the
  source is a value of \<open>auth_error\<close>; the \<open>catch\<close> of \<open>validateToken\<close>, which logs
  the message with \<open>console.error\<close> and rethrows it, is \<open>reject\<close>. The console output
  is returned beside the outcome. The user record is the one the code builds, so its
  \<open>name\<close> and \<open>picture\<close> are whatever JSON values the payload held when they are
  truthy.
\<close>

subsection \<open>Errors and results\<close>

datatype decode_error =
    TokenFormatInvalid   \<comment> \<open>\<open>parts.length !== 3\<close>\<close>
  | AtobFailed           \<comment> \<open>\<open>atob\<close> throws \<open>InvalidCharacterError\<close>\<close>
  | JsonSyntaxError      \<comment> \<open>\<open>JSON.parse\<close> throws \<open>SyntaxError\<close>\<close>

datatype auth_error =
    TokenMissing                         \<comment> \<open>\<open>!token\<close>\<close>
  | TokenInvalid decode_error            \<comment> \<open>thrown by \<open>decodeJwt\<close>\<close>
  | PayloadInvalid                       \<comment> \<open>\<open>!payload\<close>\<close>
  | EmailMissing                         \<comment> \<open>\<open>!payload.email\<close>\<close>
  | EmailNotString                       \<comment> \<open>\<open>payload.email.endsWith\<close> is not a function\<close>
  | DomainNotAllowed js_string js_string \<comment> \<open>allowed domain, received email\<close>
  | EmailNotVerified                     \<comment> \<open>\<open>!payload.email_verified\<close>\<close>

datatype console_entry = ConsoleWarnIssuer | ConsoleError auth_error

record user =
  email :: js_string
  name :: json
  picture :: "json option"

type_synonym validation = "(auth_error + user) \<times> console_entry list"

subsection \<open>decodeJwt\<close>

definition decodeJwt :: "js_string \<Rightarrow> decode_error + json" where
  "decodeJwt token =
     (let parts = js_split 46 token in
      if length parts \<noteq> 3 then Inl TokenFormatInvalid
      else case atob (replace_all 95 47 (replace_all 45 43 (parts ! 1))) of
             None \<Rightarrow> Inl AtobFailed
           | Some decoded \<Rightarrow>
               (case JSON_parse decoded of
                  None \<Rightarrow> Inl JsonSyntaxError
                | Some parsed \<Rightarrow> Inr parsed))"

subsection \<open>validateToken\<close>

definition reject :: "auth_error \<Rightarrow> validation" where
  "reject e = (Inl e, [ConsoleError e])"

definition validIssuers :: "js_string list" where
  "validIssuers = [js ''https://accounts.google.com'', js ''accounts.google.com'']"

text \<open>\<open>payload.iss && !validIssuers.includes(payload.iss)\<close>: a warning only.\<close>

definition issuer_warning :: "json \<Rightarrow> console_entry list" where
  "issuer_warning payload =
     (let iss = get_prop payload (js ''iss'') in
      if truthy_opt iss \<and> iss \<notin> set (map (\<lambda>i. Some (JStr i)) validIssuers)
      then [ConsoleWarnIssuer] else [])"

text \<open>The returned record: \<open>name || email.split('@')[0]\<close>, \<open>picture || undefined\<close>.\<close>

definition user_of_claims :: "json \<Rightarrow> js_string \<Rightarrow> user" where
  "user_of_claims payload em =
     \<lparr>email = em,
      name = (case get_prop payload (js ''name'') of
                Some v \<Rightarrow> if js_truthy v then v else JStr (hd (js_split 64 em))
              | None \<Rightarrow> JStr (hd (js_split 64 em))),
      picture = (case get_prop payload (js ''picture'') of
                   Some v \<Rightarrow> if js_truthy v then Some v else None
                 | None \<Rightarrow> None)\<rparr>"

text \<open>The checks on the decoded payload, in the order of the source.\<close>

definition check_payload :: "vite_env \<Rightarrow> json \<Rightarrow> validation" where
  "check_payload env payload =
     (if \<not> js_truthy payload then reject PayloadInvalid
      else if \<not> truthy_opt (get_prop payload (js ''email'')) then reject EmailMissing
      else case get_prop payload (js ''email'') of
             Some (JStr em) \<Rightarrow>
               if \<not> js_endsWith em (ALLOWED_DOMAIN env)
               then reject (DomainNotAllowed (ALLOWED_DOMAIN env) em)
               else if \<not> truthy_opt (get_prop payload (js ''email_verified''))
               then reject EmailNotVerified
               else (Inr (user_of_claims payload em), issuer_warning payload)
           | _ \<Rightarrow> reject EmailNotString)"

definition validateToken :: "vite_env \<Rightarrow> js_string \<Rightarrow> validation" where
  "validateToken env token =
     (if token = [] then reject TokenMissing
      else case decodeJwt token of
             Inl e \<Rightarrow> reject (TokenInvalid e)
           | Inr payload \<Rightarrow> check_payload env payload)"

subsection \<open>The useAuth wrapper\<close>

text \<open>
  The hook turns the outcome into an \<open>AuthResponse\<close>; \<open>resp_message\<close> holds the
  error whose message the source copies into the field. The branch for a \<open>null\<close>
  user (\<open>'N\<tilde>o foi poss\<acute>ivel validar o token'\<close>) is not modelled: the service never
  returns \<open>null\<close>, it returns a user object or throws.
\<close>

record AuthResponse =
  success :: bool
  resp_user :: "user option"
  resp_error :: "js_string option"
  resp_message :: "auth_error option"

definition validation_failed :: js_string where
  "validation_failed = js ''Valida'' @ [231, 227] @ js ''o falhou''"

definition hook_validateToken :: "vite_env \<Rightarrow> js_string \<Rightarrow> AuthResponse" where
  "hook_validateToken env token =
     (case fst (validateToken env token) of
        Inr u \<Rightarrow> \<lparr>success = True, resp_user = Some u, resp_error = None, resp_message = None\<rparr>
      | Inl e \<Rightarrow> \<lparr>success = False, resp_user = None, resp_error = Some validation_failed,
                  resp_message = Some e\<rparr>)"

declare decodeJwt_def [eval_simps] reject_def [eval_simps] validIssuers_def [eval_simps]
  issuer_warning_def [eval_simps] user_of_claims_def [eval_simps] check_payload_def [eval_simps]
  validateToken_def [eval_simps] hook_validateToken_def [eval_simps]


subsection \<open>Facts the properties share\<close>

lemma get_prop_Some_truthy: "get_prop p k = Some v \<Longrightarrow> js_truthy p"
  by (cases p) auto

lemma truthy_opt_simps [simp]:
  "truthy_opt None = False" "truthy_opt (Some v) = js_truthy v"
  by (simp_all add: truthy_opt_def)

lemma endsWith_allowed_not_Nil: "js_endsWith em (ALLOWED_DOMAIN env) \<Longrightarrow> em \<noteq> []"
  using ALLOWED_DOMAIN_not_Nil [of env] by (auto simp: js_endsWith_def)

lemma decodeJwt_Inr_not_Nil: "decodeJwt token = Inr p \<Longrightarrow> token \<noteq> []"
  by (auto simp: decodeJwt_def)

lemma validateToken_decoded:
  "decodeJwt token = Inr p \<Longrightarrow> validateToken env token = check_payload env p"
  by (simp add: validateToken_def decodeJwt_Inr_not_Nil)

lemma fst_reject [simp]: "fst (reject e) = Inl e"
  by (simp add: reject_def)

lemmas check_payload_unfold = check_payload_def reject_def Let_def

subsection \<open>Malformed tokens\<close>

text \<open>C1: a non-empty token that does not split on \<open>.\<close> into exactly three segments
  is rejected as malformed (\<open>Token inv\<acute>alido: Formato de token inv\<acute>alido\<close>), whatever
  its segments hold.\<close>

theorem validateToken_segment_count:
  assumes "token \<noteq> []" and "length (js_split 46 token) \<noteq> 3"
  shows "fst (validateToken env token) = Inl (TokenInvalid TokenFormatInvalid)"
  using assms by (simp add: validateToken_def decodeJwt_def)

subsection \<open>The business rules\<close>

text \<open>C2: a well-formed token whose email does not end with the allowed domain is
  rejected with \<open>DomainNotAllowed\<close>, whatever the other claims hold.\<close>

theorem validateToken_domain_not_allowed:
  assumes "decodeJwt token = Inr p"
    and "get_prop p (js ''email'') = Some (JStr em)" and "em \<noteq> []"
    and "\<not> js_endsWith em (ALLOWED_DOMAIN env)"
  shows "fst (validateToken env token) = Inl (DomainNotAllowed (ALLOWED_DOMAIN env) em)"
  using assms get_prop_Some_truthy [OF assms(2)]
  by (simp add: validateToken_decoded check_payload_unfold)

text \<open>C3: a well-formed token whose payload is a truthy value without a truthy
  \<open>email\<close> property (an object lacking it, or holding \<open>null\<close>, \<open>false\<close>, \<open>0\<close>
  or \<open>""\<close>; or a non-empty string, a number or an array) is rejected with
  \<open>EmailMissing\<close>.\<close>

theorem validateToken_email_missing:
  assumes "decodeJwt token = Inr p" and "js_truthy p"
    and "\<not> truthy_opt (get_prop p (js ''email''))"
  shows "fst (validateToken env token) = Inl EmailMissing"
  using assms by (simp add: validateToken_decoded check_payload_unfold)

text \<open>C4: a well-formed token from the allowed domain whose \<open>email_verified\<close> claim is
  missing or falsy is rejected with \<open>EmailNotVerified\<close>.\<close>

theorem validateToken_not_verified:
  assumes "decodeJwt token = Inr p"
    and "get_prop p (js ''email'') = Some (JStr em)"
    and "js_endsWith em (ALLOWED_DOMAIN env)"
    and "\<not> truthy_opt (get_prop p (js ''email_verified''))"
  shows "fst (validateToken env token) = Inl EmailNotVerified"
  using assms get_prop_Some_truthy [OF assms(2)] endsWith_allowed_not_Nil [OF assms(3)]
  by (simp add: validateToken_decoded check_payload_unfold)

lemma check_payload_Inr:
  "fst (check_payload env p) = Inr u \<longleftrightarrow>
     (\<exists>em. get_prop p (js ''email'') = Some (JStr em) \<and> js_endsWith em (ALLOWED_DOMAIN env) \<and>
           truthy_opt (get_prop p (js ''email_verified'')) \<and> u = user_of_claims p em)"
proof
  assume "fst (check_payload env p) = Inr u"
  then show "\<exists>em. get_prop p (js ''email'') = Some (JStr em) \<and> js_endsWith em (ALLOWED_DOMAIN env) \<and>
           truthy_opt (get_prop p (js ''email_verified'')) \<and> u = user_of_claims p em"
    by (auto simp: check_payload_unfold split: if_splits option.splits json.splits)
next
  assume "\<exists>em. get_prop p (js ''email'') = Some (JStr em) \<and> js_endsWith em (ALLOWED_DOMAIN env) \<and>
           truthy_opt (get_prop p (js ''email_verified'')) \<and> u = user_of_claims p em"
  then obtain em where em: "get_prop p (js ''email'') = Some (JStr em)"
    and ok: "js_endsWith em (ALLOWED_DOMAIN env)" "truthy_opt (get_prop p (js ''email_verified''))"
    and u: "u = user_of_claims p em" by blast
  from em ok u show "fst (check_payload env p) = Inr u"
    using get_prop_Some_truthy [OF em] endsWith_allowed_not_Nil [OF ok(1)]
    by (simp add: check_payload_unfold)
qed

lemma validateToken_Inr_domain:
  assumes "fst (validateToken env tok) = Inr u"
  shows "js_endsWith (email u) (ALLOWED_DOMAIN env)"
proof (cases "decodeJwt tok")
  case (Inl e)
  with assms show ?thesis by (auto simp: validateToken_def split: if_splits)
next
  case (Inr p)
  then have "fst (check_payload env p) = Inr u"
    using assms validateToken_decoded by metis
  then show ?thesis by (auto simp: check_payload_Inr user_of_claims_def)
qed

lemma hook_validateToken_user:
  "success (hook_validateToken env c) \<and> resp_user (hook_validateToken env c) = Some u \<longleftrightarrow>
   fst (validateToken env c) = Inr u"
  by (auto simp: hook_validateToken_def split: sum.splits)


text \<open>C5: the functional specification of \<open>validateToken\<close>: it returns a user exactly
  when the token decodes to a payload with a string email that ends with the allowed
  domain and a truthy \<open>email_verified\<close>, and the user is the one built from those
  claims.\<close>

theorem validateToken_success_iff:
  "fst (validateToken env token) = Inr u \<longleftrightarrow>
     (\<exists>p em. decodeJwt token = Inr p \<and> get_prop p (js ''email'') = Some (JStr em) \<and>
             js_endsWith em (ALLOWED_DOMAIN env) \<and>
             truthy_opt (get_prop p (js ''email_verified'')) \<and> u = user_of_claims p em)"
proof (cases "decodeJwt token")
  case (Inl e)
  then show ?thesis by (auto simp: validateToken_def reject_def)
next
  case (Inr p)
  then show ?thesis by (simp add: validateToken_decoded check_payload_Inr)
qed

text \<open>C6: the display name of an accepted user defaults to the part of the email before
  its first \<open>@\<close> when the \<open>name\<close> claim is missing or falsy (the source uses
  \<open>||\<close>, so an empty name is replaced too).\<close>

theorem validateToken_name_default:
  assumes "fst (validateToken env token) = Inr u"
    and "decodeJwt token = Inr p"
    and "\<not> truthy_opt (get_prop p (js ''name''))"
  shows "name u = JStr (takeWhile (\<lambda>c. c \<noteq> 64) (email u))"
proof -
  from assms(1,2) obtain em where "u = user_of_claims p em"
    by (auto simp: validateToken_success_iff)
  with assms(3) show ?thesis
    by (auto simp: user_of_claims_def hd_js_split split: option.splits)
qed

text \<open>C8: a truthy email claim that is not a string (a number, \<open>true\<close>, an array or an
  object) makes \<open>payload.email.endsWith\<close> throw a \<open>TypeError\<close>, which the validator
  reports like any other failure.\<close>

theorem validateToken_email_not_string:
  assumes "decodeJwt token = Inr p"
    and "get_prop p (js ''email'') = Some v" and "js_truthy v" and "\<forall>s. v \<noteq> JStr s"
  shows "fst (validateToken env token) = Inl EmailNotString"
  using assms get_prop_Some_truthy [OF assms(2)]
  by (cases v) (simp_all add: validateToken_decoded check_payload_unfold)


subsection \<open>Decoding a token built by a JWT issuer\<close>

lemma js_split_three:
  "46 \<notin> set a \<Longrightarrow> 46 \<notin> set b \<Longrightarrow> 46 \<notin> set c \<Longrightarrow>
     js_split 46 (a @ 46 # b @ 46 # c) = [a, b, c]"
  by (simp add: js_split_append_sep js_split_no_sep_single)

text \<open>C7: \<open>decodeJwt\<close> inverts the issuer's encoding: for a token
  \<open>header.payload.signature\<close> whose middle segment is the base64url text of a byte
  sequence, it returns what \<open>JSON.parse\<close> makes of those bytes read one code unit per
  byte, whatever the header and the signature are.\<close>

theorem decodeJwt_base64url:
  assumes "46 \<notin> set header" and "46 \<notin> set signature"
  shows "decodeJwt (header @ 46 # base64url_encode bs @ 46 # signature) =
           (case JSON_parse (map ucast bs) of None \<Rightarrow> Inl JsonSyntaxError | Some v \<Rightarrow> Inr v)"
proof -
  have "js_split 46 (header @ 46 # base64url_encode bs @ 46 # signature) =
          [header, base64url_encode bs, signature]"
    using assms base64url_encode_no_dot by (simp add: js_split_three)
  then show ?thesis
    by (simp add: decodeJwt_def base64url_decode_alphabet atob_b64_encode)
qed

subsection \<open>The signature is never checked\<close>

text \<open>C10: \<open>validateToken\<close> reads only the middle segment of a token: two tokens with the
  same payload segment and any headers and signatures are accepted or rejected alike, with
  the same user and the same console output, so a token whose signature was forged or
  stripped is accepted exactly when the genuine one is (the limitation the specification
  documents in its section 7).\<close>

theorem validateToken_signature_ignored:
  assumes "46 \<notin> set h1" and "46 \<notin> set h2" and "46 \<notin> set p"
    and "46 \<notin> set s1" and "46 \<notin> set s2"
  shows "validateToken env (h1 @ 46 # p @ 46 # s1) = validateToken env (h2 @ 46 # p @ 46 # s2)"
  using assms by (simp add: validateToken_def decodeJwt_def js_split_three)

subsection \<open>The issuer check is advisory\<close>

lemma get_prop_append:
  "get_prop (JObj (kvs @ [(k', v)])) k = (if k = k' then Some v else get_prop (JObj kvs) k)"
  by simp

lemma check_payload_congr:
  assumes "\<forall>k. k \<noteq> js ''iss'' \<longrightarrow> get_prop p k = get_prop q k"
    and "js_truthy p = js_truthy q"
  shows "fst (check_payload env p) = fst (check_payload env q)"
proof -
  have "get_prop p (js ''email'') = get_prop q (js ''email'')"
    and "get_prop p (js ''email_verified'') = get_prop q (js ''email_verified'')"
    and "get_prop p (js ''name'') = get_prop q (js ''name'')"
    and "get_prop p (js ''picture'') = get_prop q (js ''picture'')"
    using assms(1) by simp_all
  then have "user_of_claims p = user_of_claims q"
    by (simp add: user_of_claims_def fun_eq_iff)
  with assms(2) \<open>get_prop p (js ''email'') = get_prop q (js ''email'')\<close>
    \<open>get_prop p (js ''email_verified'') = get_prop q (js ''email_verified'')\<close>
  show ?thesis
    by (simp add: check_payload_unfold split: option.split json.split)
qed

text \<open>C9: the issuer claim never changes the outcome: a payload and the same payload with
  an \<open>iss\<close> member added (any value, known issuer or not) are accepted or rejected
  alike; an unknown issuer only produces a console warning.\<close>

theorem validateToken_issuer_advisory:
  assumes "decodeJwt t1 = Inr (JObj kvs)"
    and "decodeJwt t2 = Inr (JObj (kvs @ [(js ''iss'', v)]))"
  shows "fst (validateToken env t1) = fst (validateToken env t2)"
proof -
  have "fst (check_payload env (JObj kvs)) = fst (check_payload env (JObj (kvs @ [(js ''iss'', v)])))"
    by (rule check_payload_congr) (simp_all only: get_prop_append js_truthy.simps, simp)
  with assms show ?thesis by (simp add: validateToken_decoded)
qed


subsection \<open>Termination of the payload parse\<close>

text \<open>The \<open>JSON.parse\<close> that \<open>decodeJwt\<close> runs always terminates, and its answer
  does not depend on the bound of the recursion: for a three-segment token whose payload
  decodes to the text \<open>t\<close>, the recursive descent with any fuel of at least
  \<open>2 * length t + 1\<close> does not run out, and \<open>decodeJwt\<close> returns what it parsed.\<close>

lemma decodeJwt_parse_total:
  assumes "length (js_split 46 token) = 3"
    and "atob (replace_all 95 47 (replace_all 45 43 (js_split 46 token ! 1))) = Some t"
    and "Suc (2 * length t) \<le> n"
  shows "parse_value n t \<noteq> NoFuel \<and>
         decodeJwt token = (case parse_value n t of
                              Parsed v r \<Rightarrow> if skip_ws r = [] then Inr v else Inl JsonSyntaxError
                            | _ \<Rightarrow> Inl JsonSyntaxError)"
  using JSON_parse_unbounded [OF assms(3)] assms(1,2)
  by (auto simp: decodeJwt_def split: json_result.splits)

end
