(* ===== verification/ValidatorSpec.thy ===== *)
theory ValidatorSpec
  imports Validator
begin

text \<open>
  The contract of the token validator as the specification states it (section 4.2 of
  \<open>spec.md\<close>), and the refinement lemma that \<open>validateToken\<close> of
  \<open>src/src/services/auth-service.ts\<close> implements it. The specification's outcome is one of
  its four error kinds or the accepted email; its input is the token and the decoded
  \<open>TokenClaims\<close> (\<open>email\<close> a string, \<open>email_verified\<close> a boolean, both optional). A
  decoded payload fits that data model when it is an object whose \<open>email\<close> is absent
  or a string and whose \<open>email_verified\<close> is absent or a boolean (\<open>claims_of\<close>);
  payloads outside it (a number as email, say) are the gap the specification leaves
  open, where the code throws a \<open>TypeError\<close>. "Absent" is read as JavaScript reads
  \<open>!claims.email\<close>: a missing or empty email.
\<close>

datatype spec_error = MalformedTokenError | MissingEmailError | DomainNotAllowedError | EmailNotVerifiedError

record token_claims =
  cl_email :: "js_string option"
  cl_email_verified :: bool

text \<open>The steps 1--5 of \<open>validate(token)\<close>, on the decoded claims (\<open>None\<close>: decoding failed).\<close>

definition spec_validate :: "js_string \<Rightarrow> js_string \<Rightarrow> token_claims option \<Rightarrow> spec_error + js_string" where
  "spec_validate allowed token dec =
     (if token = [] then Inl MalformedTokenError
      else case dec of
             None \<Rightarrow> Inl MalformedTokenError
           | Some c \<Rightarrow>
               (case cl_email c of
                  None \<Rightarrow> Inl MissingEmailError
                | Some em \<Rightarrow>
                    if em = [] then Inl MissingEmailError
                    else if \<not> js_endsWith em allowed then Inl DomainNotAllowedError
                    else if \<not> cl_email_verified c then Inl EmailNotVerifiedError
                    else Inr em))"

text \<open>The decoded payload as the specification's claims, when it fits the data model.\<close>

definition claims_of :: "json \<Rightarrow> token_claims option" where
  "claims_of p =
     (case p of
        JObj kvs \<Rightarrow>
          (let em = (case get_prop p (js ''email'') of
                       None \<Rightarrow> Some None
                     | Some (JStr e) \<Rightarrow> Some (Some e)
                     | Some _ \<Rightarrow> None);
               vf = (case get_prop p (js ''email_verified'') of
                       None \<Rightarrow> Some False
                     | Some (JBool b) \<Rightarrow> Some b
                     | Some _ \<Rightarrow> None) in
           case (em, vf) of
             (Some e, Some b) \<Rightarrow> Some \<lparr>cl_email = e, cl_email_verified = b\<rparr>
           | _ \<Rightarrow> None)
      | _ \<Rightarrow> None)"

definition spec_decode :: "js_string \<Rightarrow> token_claims option" where
  "spec_decode token = (case decodeJwt token of Inl _ \<Rightarrow> None | Inr p \<Rightarrow> claims_of p)"

definition fits_data_model :: "js_string \<Rightarrow> bool" where
  "fits_data_model token = (case decodeJwt token of Inl _ \<Rightarrow> True | Inr p \<Rightarrow> claims_of p \<noteq> None)"

text \<open>The abstraction of the code's outcome: the kind of its error, or the user's email.
  A \<open>null\<close> payload or a non-string email is a token the specification calls malformed.\<close>

fun spec_error_of :: "auth_error \<Rightarrow> spec_error" where
  "spec_error_of TokenMissing = MalformedTokenError"
| "spec_error_of (TokenInvalid e) = MalformedTokenError"
| "spec_error_of PayloadInvalid = MalformedTokenError"
| "spec_error_of EmailMissing = MissingEmailError"
| "spec_error_of EmailNotString = MalformedTokenError"
| "spec_error_of (DomainNotAllowed d em) = DomainNotAllowedError"
| "spec_error_of EmailNotVerified = EmailNotVerifiedError"

definition outcome_abs :: "auth_error + user \<Rightarrow> spec_error + js_string" where
  "outcome_abs r = (case r of Inl e \<Rightarrow> Inl (spec_error_of e) | Inr u \<Rightarrow> Inr (email u))"

section \<open>Refinement\<close>

lemma check_payload_refines:
  assumes "claims_of p = Some c"
  shows "outcome_abs (fst (check_payload env p)) = spec_validate (ALLOWED_DOMAIN env) token (Some c) \<or> token = []"
  using assms
  by (auto simp: claims_of_def check_payload_unfold spec_validate_def outcome_abs_def
                 user_of_claims_def truthy_opt_def
           split: json.splits option.splits if_splits)

text \<open>C31: on every token whose payload fits the specification's data model,
  \<open>validateToken\<close> decides as the specification does: the same error kind in the same
  order of checks (empty token, decoding, missing email, domain, verification), and on
  success the user carries the token's email.\<close>

theorem validateToken_refines_spec:
  assumes "fits_data_model token"
  shows "outcome_abs (fst (validateToken env token)) =
           spec_validate (ALLOWED_DOMAIN env) token (spec_decode token)"
proof (cases "decodeJwt token")
  case (Inl e)
  then show ?thesis
    by (simp add: validateToken_def spec_validate_def spec_decode_def outcome_abs_def)
next
  case (Inr p)
  then obtain c where c: "claims_of p = Some c"
    using assms by (auto simp: fits_data_model_def)
  have ne: "token \<noteq> []" using Inr by (rule decodeJwt_Inr_not_Nil)
  show ?thesis
    using check_payload_refines [OF c, of env token] ne Inr c
    by (simp add: validateToken_decoded spec_decode_def)
qed

end
