(* ===== verification/Bootstrap.thy ===== *)
theory Bootstrap
  imports Config
begin

text \<open>
  The identity bootstrapper of \<open>src/src/services/auth-service.ts\<close>:
  \<open>initializeGoogle\<close> (lines 76--139), \<open>setupGoogleClient\<close> (144--156),
  \<open>renderLoginButton\<close> (163--193), \<open>handleCredentialResponse\<close> (199--207),
  \<open>logout\<close> (304--318), \<open>setTokenCallback\<close> (324--326) and \<open>isGoogleLoaded\<close>
  (343--345). The browser page is a record (\<open>window.google\<close>, the script elements
  appended to \<open>document.head\<close>, the calls to \<open>google.accounts.id.initialize\<close>, the
  registered SDK callback, the relayed \<open>googleSignInSuccess\<close> events); each call of
  \<open>initializeGoogle\<close> leaves an \<open>init_call\<close>: its promise, its script element and its
  10-second timer. A JavaScript promise settles once; later \<open>resolve\<close>/\<open>reject\<close>
  calls are no-ops (\<open>settle\<close>). The script's \<open>load\<close> and \<open>error\<close> events, the
  timer and the SDK's credential callback are events chosen by the environment, so the
  system is a step function \<open>boot_step\<close> that returns \<open>None\<close> for an event that cannot
  happen, and \<open>boot_reachable\<close> is the set of states a run of events reaches.
\<close>

section \<open>State\<close>

datatype init_error =
    EnvInvalid env_error       \<comment> \<open>\<open>validateEnvironment\<close> failed\<close>
  | SdkNotLoadedCorrectly      \<comment> \<open>\<open>load\<close> fired but \<open>window.google\<close> is unset\<close>
  | SdkLoadFailed              \<comment> \<open>the script's \<open>error\<close> event\<close>
  | SdkLoadTimeout             \<comment> \<open>the 10-second timer\<close>
  | SdkUnavailable             \<comment> \<open>thrown by \<open>setupGoogleClient\<close>\<close>

datatype promise_state = Pending | Resolved | Rejected init_error

datatype script_phase = NoScript | Loading | Loaded | LoadError

record page =
  window_google :: bool
  appended_scripts :: nat
  client_initializations :: nat
  sdk_callback_registered :: bool
  auto_select_disabled :: nat
  token_callback_set :: bool
  dispatched :: "js_string list"

record init_call =
  promise :: promise_state
  script :: script_phase
  script_attached :: bool
  timer_armed :: bool

definition initial_page :: page where
  "initial_page =
     \<lparr>window_google = False, appended_scripts = 0, client_initializations = 0,
      sdk_callback_registered = False, auto_select_disabled = 0, token_callback_set = False,
      dispatched = []\<rparr>"

text \<open>A promise's \<open>resolve\<close> and \<open>reject\<close>: only the first call counts.\<close>

definition settle :: "promise_state \<Rightarrow> promise_state \<Rightarrow> promise_state" where
  "settle p r = (if p = Pending then r else p)"

definition settled_call :: "promise_state \<Rightarrow> init_call" where
  "settled_call r = \<lparr>promise = r, script = NoScript, script_attached = False, timer_armed = False\<rparr>"

section \<open>Operations\<close>

definition setupGoogleClient :: "page \<Rightarrow> init_error + page" where
  "setupGoogleClient pg =
     (if \<not> window_google pg then Inl SdkUnavailable
      else Inr (pg\<lparr>client_initializations := Suc (client_initializations pg),
                   sdk_callback_registered := True\<rparr>))"

definition initializeGoogle :: "vite_env \<Rightarrow> page \<Rightarrow> page \<times> init_call" where
  "initializeGoogle env pg =
     (case validateEnvironment env of
        Some e \<Rightarrow> (pg, settled_call (Rejected (EnvInvalid e)))
      | None \<Rightarrow>
          if window_google pg then
            (case setupGoogleClient pg of
               Inl err \<Rightarrow> (pg, settled_call (Rejected err))
             | Inr pg' \<Rightarrow> (pg', settled_call Resolved))
          else
            (pg\<lparr>appended_scripts := Suc (appended_scripts pg)\<rparr>,
             \<lparr>promise = Pending, script = Loading, script_attached = True, timer_armed = True\<rparr>))"

text \<open>
  The script's \<open>onload\<close> is assigned twice (lines 102 and 124); the second handler,
  which clears the timer first, is the one that runs. \<open>sdk_ok\<close> says whether the
  loaded script populated \<open>window.google\<close>.
\<close>

definition script_onload :: "bool \<Rightarrow> page \<times> init_call \<Rightarrow> page \<times> init_call" where
  "script_onload sdk_ok pc =
     (let (pg, c) = pc;
          pg1 = pg\<lparr>window_google := (window_google pg \<or> sdk_ok)\<rparr>;
          c1 = c\<lparr>script := Loaded, timer_armed := False\<rparr> in
      if \<not> window_google pg1
      then (pg1, c1\<lparr>promise := settle (promise c) (Rejected SdkNotLoadedCorrectly)\<rparr>)
      else (case setupGoogleClient pg1 of
              Inl err \<Rightarrow> (pg1, c1\<lparr>promise := settle (promise c) (Rejected err)\<rparr>)
            | Inr pg2 \<Rightarrow> (pg2, c1\<lparr>promise := settle (promise c) Resolved\<rparr>)))"

text \<open>\<open>onerror\<close> rejects but does not clear the timer.\<close>

definition script_onerror :: "page \<times> init_call \<Rightarrow> page \<times> init_call" where
  "script_onerror pc =
     (let (pg, c) = pc in
      (pg, c\<lparr>script := LoadError, promise := settle (promise c) (Rejected SdkLoadFailed)\<rparr>))"

text \<open>The timer rejects and removes the script element; a script that is already being
  fetched still runs and may still fire \<open>load\<close>.\<close>

definition load_timeout :: "page \<times> init_call \<Rightarrow> page \<times> init_call" where
  "load_timeout pc =
     (let (pg, c) = pc in
      (pg, c\<lparr>timer_armed := False, script_attached := False,
             promise := settle (promise c) (Rejected SdkLoadTimeout)\<rparr>))"

definition handleCredentialResponse :: "js_string option \<Rightarrow> page \<Rightarrow> page" where
  "handleCredentialResponse credential pg =
     (case credential of
        Some cred \<Rightarrow> if cred \<noteq> [] then pg\<lparr>dispatched := dispatched pg @ [cred]\<rparr> else pg
      | None \<Rightarrow> pg)"

definition logout :: "page \<Rightarrow> page" where
  "logout pg =
     (let pg1 = (if window_google pg
                 then pg\<lparr>auto_select_disabled := Suc (auto_select_disabled pg)\<rparr> else pg) in
      pg1\<lparr>token_callback_set := False\<rparr>)"

definition setTokenCallback :: "page \<Rightarrow> page" where
  "setTokenCallback pg = pg\<lparr>token_callback_set := True\<rparr>"

definition isGoogleLoaded :: "page \<Rightarrow> bool" where
  "isGoogleLoaded pg = window_google pg"

subsection \<open>The sign-in button\<close>

datatype button_theme = Outline | FilledBlue | FilledBlack

record button_options =
  btn_theme :: button_theme
  btn_size :: js_string
  btn_text :: js_string
  btn_locale :: js_string
  btn_logo_alignment :: js_string
  btn_width :: js_string

datatype render_result = RenderSdkNotLoaded | RenderElementMissing js_string | Rendered js_string button_options

definition renderLoginButton :: "page \<Rightarrow> js_string set \<Rightarrow> js_string \<Rightarrow> button_theme \<Rightarrow> render_result" where
  "renderLoginButton pg dom_ids elementId theme =
     (if \<not> window_google pg then RenderSdkNotLoaded
      else if elementId \<notin> dom_ids then RenderElementMissing elementId
      else Rendered elementId
             \<lparr>btn_theme = theme, btn_size = js ''large'', btn_text = js ''signin_with'',
              btn_locale = js ''pt-BR'', btn_logo_alignment = js ''left'', btn_width = js ''100%''\<rparr>)"

section \<open>The event system\<close>

record boot_state =
  pg :: page
  calls :: "init_call list"

definition initial_boot :: boot_state where
  "initial_boot = \<lparr>pg = initial_page, calls = []\<rparr>"

datatype boot_event =
    Initialize
  | ScriptLoad nat bool
  | ScriptError nat
  | TimerFires nat
  | CredentialCallback "js_string option"
  | Logout
  | SetTokenCallback

definition on_call :: "(page \<times> init_call \<Rightarrow> page \<times> init_call) \<Rightarrow> nat \<Rightarrow> boot_state \<Rightarrow> boot_state" where
  "on_call f i s =
     (let (p', c') = f (pg s, calls s ! i) in s\<lparr>pg := p', calls := (calls s)[i := c']\<rparr>)"

fun boot_step :: "vite_env \<Rightarrow> boot_state \<Rightarrow> boot_event \<Rightarrow> boot_state option" where
  "boot_step env s Initialize =
     (let (p', c) = initializeGoogle env (pg s) in Some (s\<lparr>pg := p', calls := calls s @ [c]\<rparr>))"
| "boot_step env s (ScriptLoad i ok) =
     (if i < length (calls s) \<and> script (calls s ! i) = Loading
      then Some (on_call (script_onload ok) i s) else None)"
| "boot_step env s (ScriptError i) =
     (if i < length (calls s) \<and> script (calls s ! i) = Loading
      then Some (on_call script_onerror i s) else None)"
| "boot_step env s (TimerFires i) =
     (if i < length (calls s) \<and> timer_armed (calls s ! i)
      then Some (on_call load_timeout i s) else None)"
| "boot_step env s (CredentialCallback cred) =
     (if sdk_callback_registered (pg s)
      then Some (s\<lparr>pg := handleCredentialResponse cred (pg s)\<rparr>) else None)"
| "boot_step env s Logout = Some (s\<lparr>pg := logout (pg s)\<rparr>)"
| "boot_step env s SetTokenCallback = Some (s\<lparr>pg := setTokenCallback (pg s)\<rparr>)"

fun boot_run :: "vite_env \<Rightarrow> boot_state \<Rightarrow> boot_event list \<Rightarrow> boot_state option" where
  "boot_run env s [] = Some s"
| "boot_run env s (e # es) =
     (case boot_step env s e of None \<Rightarrow> None | Some s' \<Rightarrow> boot_run env s' es)"

inductive boot_reachable :: "vite_env \<Rightarrow> boot_state \<Rightarrow> bool" for env where
  start: "boot_reachable env initial_boot"
| step: "boot_reachable env s \<Longrightarrow> boot_step env s e = Some s' \<Longrightarrow> boot_reachable env s'"

subsection \<open>The invariant of reachable states\<close>

definition call_inv :: "init_call \<Rightarrow> bool" where
  "call_inv c \<longleftrightarrow> (promise c = Pending \<longrightarrow> script c = Loading \<and> timer_armed c)"

definition page_inv :: "page \<Rightarrow> bool" where
  "page_inv p \<longleftrightarrow>
     (sdk_callback_registered p \<longrightarrow> window_google p \<and> 0 < client_initializations p) \<and>
     (dispatched p \<noteq> [] \<longrightarrow> sdk_callback_registered p) \<and> [] \<notin> set (dispatched p)"

definition boot_inv :: "boot_state \<Rightarrow> bool" where
  "boot_inv s \<longleftrightarrow>
     list_all call_inv (calls s) \<and>
     appended_scripts (pg s) = length (filter (\<lambda>c. script c \<noteq> NoScript) (calls s)) \<and>
     page_inv (pg s)"

text \<open>The credentials \<open>handleCredentialResponse\<close> relays from a sequence of SDK
  callbacks.\<close>

definition relayed :: "js_string option list \<Rightarrow> js_string list" where
  "relayed creds = concat (map (\<lambda>c. case c of Some x \<Rightarrow> if x \<noteq> [] then [x] else [] | None \<Rightarrow> []) creds)"

declare initial_page_def [eval_simps] settle_def [eval_simps] settled_call_def [eval_simps]
  setupGoogleClient_def [eval_simps] initializeGoogle_def [eval_simps]
  script_onload_def [eval_simps] script_onerror_def [eval_simps] load_timeout_def [eval_simps]
  handleCredentialResponse_def [eval_simps] logout_def [eval_simps]
  setTokenCallback_def [eval_simps] renderLoginButton_def [eval_simps]
  initial_boot_def [eval_simps] on_call_def [eval_simps]


section \<open>Properties\<close>

subsection \<open>Each operation\<close>

lemma settle_settled [simp]: "p \<noteq> Pending \<Longrightarrow> settle p r = p"
  by (simp add: settle_def)

lemma settle_not_Pending [simp]: "r \<noteq> Pending \<Longrightarrow> settle p r \<noteq> Pending"
  by (simp add: settle_def)

lemma setupGoogleClient_Inr:
  "setupGoogleClient p = Inr p' \<Longrightarrow>
     window_google p \<and> p' = p\<lparr>client_initializations := Suc (client_initializations p),
                                  sdk_callback_registered := True\<rparr>"
  by (auto simp: setupGoogleClient_def split: if_splits)

text \<open>What the three script callbacks do to the call and to the page.\<close>

lemma script_onload_facts:
  assumes "script_onload ok (p, c) = (p', c')"
  shows "script c' = Loaded" and "promise c' \<noteq> Pending" and "\<not> timer_armed c'"
    and "promise c \<noteq> Pending \<Longrightarrow> promise c' = promise c"
    and "appended_scripts p' = appended_scripts p" and "dispatched p' = dispatched p"
    and "window_google p \<Longrightarrow> window_google p'"
    and "sdk_callback_registered p' \<longleftrightarrow> sdk_callback_registered p \<or> window_google p'"
    and "client_initializations p \<le> client_initializations p'"
  using assms by (auto simp: script_onload_def setupGoogleClient_def Let_def split: if_splits)

lemma script_onerror_facts:
  assumes "script_onerror (p, c) = (p', c')"
  shows "p' = p" and "script c' = LoadError" and "promise c' \<noteq> Pending"
    and "promise c \<noteq> Pending \<Longrightarrow> promise c' = promise c"
    and "timer_armed c' = timer_armed c"
  using assms by (auto simp: script_onerror_def)

lemma load_timeout_facts:
  assumes "load_timeout (p, c) = (p', c')"
  shows "p' = p" and "script c' = script c" and "promise c' \<noteq> Pending"
    and "promise c \<noteq> Pending \<Longrightarrow> promise c' = promise c"
  using assms by (auto simp: load_timeout_def)

lemma nth_calls_on_call:
  "i < length (calls s) \<Longrightarrow>
     calls (on_call f i s) ! j = (if j = i then snd (f (pg s, calls s ! i)) else calls s ! j)"
  by (simp add: on_call_def split: prod.split)

lemma length_calls_on_call [simp]: "length (calls (on_call f i s)) = length (calls s)"
  by (simp add: on_call_def split: prod.split)

lemma pg_on_call: "pg (on_call f i s) = fst (f (pg s, calls s ! i))"
  by (simp add: on_call_def split: prod.split)

lemma promise_settled_callbacks:
  assumes "promise c \<noteq> Pending"
  shows "promise (snd (script_onload ok (p, c))) = promise c"
    and "promise (snd (script_onerror (p, c))) = promise c"
    and "promise (snd (load_timeout (p, c))) = promise c"
  using assms by (auto simp: script_onload_def setupGoogleClient_def script_onerror_def
                             load_timeout_def Let_def)

subsection \<open>Initialisation\<close>

text \<open>With the SDK already on the page, \<open>initializeGoogle\<close> configures the client
  and resolves at once, and appends no script: a second initialisation does not inject
  the library again.\<close>

theorem initializeGoogle_sdk_present:
  assumes "window_google p" and "validateEnvironment env = None"
  shows "initializeGoogle env p =
           (p\<lparr>client_initializations := Suc (client_initializations p),
               sdk_callback_registered := True\<rparr>, settled_call Resolved)"
  using assms by (simp add: initializeGoogle_def setupGoogleClient_def)

text \<open>C17: a configuration error rejects the initialisation before any network activity:
  the page is left exactly as it was.\<close>

theorem initializeGoogle_env_invalid:
  assumes "validateEnvironment env = Some e"
  shows "initializeGoogle env p = (p, settled_call (Rejected (EnvInvalid e)))"
  using assms by (simp add: initializeGoogle_def)


subsection \<open>Settled promises stay settled\<close>

text \<open>No event changes the outcome of an initialisation whose promise has settled:
  a late \<open>load\<close>, \<open>error\<close> or timer cannot resolve or reject it a second time.\<close>

lemma boot_step_settled_stable:
  assumes "boot_step env s e = Some s'" and "i < length (calls s)"
    and "promise (calls s ! i) \<noteq> Pending"
  shows "promise (calls s' ! i) = promise (calls s ! i)"
proof (cases e)
  case Initialize
  with assms show ?thesis by (auto simp: nth_append split: prod.splits)
next
  case (ScriptLoad j ok)
  with assms show ?thesis
    by (cases "j = i") (auto simp: nth_calls_on_call promise_settled_callbacks split: if_splits)
next
  case (ScriptError j)
  with assms show ?thesis
    by (cases "j = i") (auto simp: nth_calls_on_call promise_settled_callbacks split: if_splits)
next
  case (TimerFires j)
  with assms show ?thesis
    by (cases "j = i") (auto simp: nth_calls_on_call promise_settled_callbacks split: if_splits)
qed (use assms in \<open>auto split: if_splits\<close>)

subsection \<open>The invariant\<close>

lemma call_inv_settled: "promise c \<noteq> Pending \<Longrightarrow> call_inv c"
  by (simp add: call_inv_def)

lemma boot_inv_initial: "boot_inv initial_boot"
  by (simp add: boot_inv_def initial_boot_def initial_page_def page_inv_def)

lemma page_inv_initializeGoogle:
  "page_inv p \<Longrightarrow> page_inv (fst (initializeGoogle env p))"
  by (auto simp: initializeGoogle_def setupGoogleClient_def settled_call_def page_inv_def
           split: option.splits)

lemma initializeGoogle_call:
  "call_inv (snd (initializeGoogle env p)) \<and>
   appended_scripts (fst (initializeGoogle env p)) =
     appended_scripts p + (if script (snd (initializeGoogle env p)) = NoScript then 0 else 1)"
  by (auto simp: initializeGoogle_def setupGoogleClient_def settled_call_def call_inv_def
           split: option.splits)

lemma page_inv_script_onload:
  "page_inv p \<Longrightarrow> page_inv (fst (script_onload ok (p, c)))"
  by (auto simp: script_onload_def setupGoogleClient_def page_inv_def Let_def)

lemma boot_inv_on_call:
  assumes inv: "boot_inv s" and i: "i < length (calls s)"
    and res: "f (pg s, calls s ! i) = (p', c')"
    and c': "promise c' \<noteq> Pending"
    and scr: "(script c' = NoScript) = (script (calls s ! i) = NoScript)"
    and pgs: "appended_scripts p' = appended_scripts (pg s)" and pinv: "page_inv p'"
  shows "boot_inv (on_call f i s)"
proof -
  have calls': "calls (on_call f i s) = (calls s)[i := c']" and pg': "pg (on_call f i s) = p'"
    using res by (simp_all add: on_call_def)
  have "list_all call_inv ((calls s)[i := c'])"
    using inv c' by (auto simp: boot_inv_def list_all_iff call_inv_settled
                          dest: set_update_subset_insert [THEN subsetD])
  moreover have "length (filter (\<lambda>c. script c \<noteq> NoScript) ((calls s)[i := c'])) =
                 length (filter (\<lambda>c. script c \<noteq> NoScript) (calls s))"
    using i scr by (simp add: length_filter_update)
  ultimately show ?thesis
    using inv pgs pinv by (simp add: boot_inv_def calls' pg')
qed

lemma boot_inv_step:
  assumes "boot_inv s" and "boot_step env s e = Some s'"
  shows "boot_inv s'"
proof (cases e)
  case Initialize
  obtain p' c where ic: "initializeGoogle env (pg s) = (p', c)" by fastforce
  then have "s' = s\<lparr>pg := p', calls := calls s @ [c]\<rparr>"
    using assms(2) Initialize by simp
  moreover have "page_inv p'"
    using page_inv_initializeGoogle [of "pg s" env] assms(1) ic by (simp add: boot_inv_def)
  moreover have "call_inv c \<and> appended_scripts p' =
                   appended_scripts (pg s) + (if script c = NoScript then 0 else 1)"
    using initializeGoogle_call [of env "pg s"] ic by simp
  ultimately show ?thesis
    using assms(1) by (auto simp: boot_inv_def)
next
  case (ScriptLoad i ok)
  then have i: "i < length (calls s)" "script (calls s ! i) = Loading"
    and s': "s' = on_call (script_onload ok) i s"
    using assms(2) by (simp_all split: if_splits)
  obtain p' c' where r: "script_onload ok (pg s, calls s ! i) = (p', c')" by fastforce
  have "page_inv p'"
    using page_inv_script_onload [of "pg s" ok "calls s ! i"] assms(1) r by (simp add: boot_inv_def)
  then show ?thesis
    unfolding s' using assms(1) i r script_onload_facts [OF r]
    by (intro boot_inv_on_call [where f = "script_onload ok" and p' = p' and c' = c']) auto
next
  case (ScriptError i)
  then have i: "i < length (calls s)" "script (calls s ! i) = Loading"
    and s': "s' = on_call script_onerror i s"
    using assms(2) by (simp_all split: if_splits)
  obtain p' c' where r: "script_onerror (pg s, calls s ! i) = (p', c')" by fastforce
  show ?thesis
    unfolding s' using assms(1) i r script_onerror_facts [OF r]
    by (intro boot_inv_on_call [where f = script_onerror and p' = p' and c' = c'])
       (auto simp: boot_inv_def)
next
  case (TimerFires i)
  then have i: "i < length (calls s)" and s': "s' = on_call load_timeout i s"
    using assms(2) by (simp_all split: if_splits)
  obtain p' c' where r: "load_timeout (pg s, calls s ! i) = (p', c')" by fastforce
  show ?thesis
    unfolding s' using assms(1) i r load_timeout_facts [OF r]
    by (intro boot_inv_on_call [where f = load_timeout and p' = p' and c' = c'])
       (auto simp: boot_inv_def)
next
  case (CredentialCallback cred)
  with assms show ?thesis
    by (auto simp: boot_inv_def page_inv_def handleCredentialResponse_def
             split: if_splits option.splits)
next
  case Logout
  with assms show ?thesis
    by (auto simp: boot_inv_def page_inv_def logout_def Let_def split: if_splits)
next
  case SetTokenCallback
  with assms show ?thesis
    by (auto simp: boot_inv_def page_inv_def setTokenCallback_def)
qed

lemma boot_reachable_inv: "boot_reachable env s \<Longrightarrow> boot_inv s"
proof (induction rule: boot_reachable.induct)
  case start
  show ?case by (rule boot_inv_initial)
next
  case (step s e s')
  then show ?case by (blast intro: boot_inv_step)
qed

lemma boot_run_reachable:
  "boot_reachable env s \<Longrightarrow> boot_run env s es = Some s' \<Longrightarrow> boot_reachable env s'"
proof (induction es arbitrary: s)
  case Nil
  then show ?case by simp
next
  case (Cons e es)
  then show ?case
    by (auto split: option.splits intro: boot_reachable.step)
qed


subsection \<open>Properties of reachable states\<close>

text \<open>C18: in every reachable state, an initialisation whose promise is still pending is
  waiting for its script and its 10-second timer is armed.\<close>

theorem boot_pending_waits:
  assumes "boot_reachable env s" and "i < length (calls s)"
    and "promise (calls s ! i) = Pending"
  shows "script (calls s ! i) = Loading \<and> timer_armed (calls s ! i)"
proof -
  have "call_inv (calls s ! i)"
    using boot_reachable_inv [OF assms(1)] assms(2) by (simp add: boot_inv_def list_all_length)
  with assms(3) show ?thesis by (simp add: call_inv_def)
qed

lemma boot_inv_pending_timer:
  "boot_inv s \<Longrightarrow> i < length (calls s) \<Longrightarrow> promise (calls s ! i) = Pending \<Longrightarrow>
     timer_armed (calls s ! i)"
  by (simp add: boot_inv_def list_all_length call_inv_def)

text \<open>C19: initialisation always ends: in every reachable state the timer of a pending
  initialisation can fire, and firing rejects it with the timeout error.\<close>

theorem boot_pending_settles:
  assumes "boot_reachable env s" and "i < length (calls s)"
    and "promise (calls s ! i) = Pending"
  shows "\<exists>s'. boot_step env s (TimerFires i) = Some s' \<and>
              promise (calls s' ! i) = Rejected SdkLoadTimeout"
proof -
  have "timer_armed (calls s ! i)"
    using boot_inv_pending_timer [OF boot_reachable_inv [OF assms(1)] assms(2,3)] .
  with assms(2,3) show ?thesis
    by (simp add: nth_calls_on_call load_timeout_def settle_def)
qed

lemma boot_scripts_count:
  assumes "boot_reachable env s"
  shows "appended_scripts (pg s) = length (filter (\<lambda>c. script c \<noteq> NoScript) (calls s))"
  using boot_reachable_inv [OF assms] by (simp add: boot_inv_def)

lemma boot_step_loaded:
  assumes "window_google (pg s)" and "boot_step env s e = Some s'"
  shows "window_google (pg s') \<and> appended_scripts (pg s') = appended_scripts (pg s)"
proof (cases e)
  case Initialize
  with assms show ?thesis
    by (auto simp: initializeGoogle_def setupGoogleClient_def split: option.splits prod.splits)
next
  case (ScriptLoad i ok)
  with assms show ?thesis
    by (auto simp: on_call_def script_onload_def setupGoogleClient_def Let_def
             split: if_splits prod.splits sum.splits)
next
  case (ScriptError i)
  with assms show ?thesis by (auto simp: on_call_def script_onerror_def split: if_splits prod.splits)
next
  case (TimerFires i)
  with assms show ?thesis by (auto simp: on_call_def load_timeout_def split: if_splits prod.splits)
qed (use assms in \<open>auto simp: handleCredentialResponse_def logout_def setTokenCallback_def Let_def
                          split: if_splits option.splits\<close>)

text \<open>C21: once the SDK is on the page (\<open>window.google\<close> set), it stays there and no later
  event appends another script element: a call of \<open>initializeGoogle\<close> then configures
  the client directly, and late \<open>load\<close>, \<open>error\<close> and timer events of earlier calls only
  settle those calls.\<close>

theorem boot_no_script_after_load:
  assumes "window_google (pg s)" and "boot_run env s es = Some s'"
  shows "window_google (pg s') \<and> appended_scripts (pg s') = appended_scripts (pg s)"
  using assms
proof (induction es arbitrary: s)
  case (Cons e es)
  then obtain s1 where s1: "boot_step env s e = Some s1" and r: "boot_run env s1 es = Some s'"
    by (auto split: option.splits)
  from boot_step_loaded [OF Cons.prems(1) s1] Cons.IH [OF _ r] show ?case by simp
qed simp

text \<open>C22: a credential is relayed as a \<open>googleSignInSuccess\<close> event only after the
  client was configured with the callback, and an empty credential is never relayed.\<close>

theorem boot_relay_after_setup:
  assumes "boot_reachable env s" and "cred \<in> set (dispatched (pg s))"
  shows "cred \<noteq> [] \<and> sdk_callback_registered (pg s) \<and> window_google (pg s) \<and>
         0 < client_initializations (pg s)"
  using boot_reachable_inv [OF assms(1)] assms(2)
  by (auto simp: boot_inv_def page_inv_def)

text \<open>C20: once the client is configured, the credential callbacks the SDK makes are relayed
  in order, each non-empty credential exactly once as a \<open>googleSignInSuccess\<close> event, a
  missing or empty one not at all, and nothing else on the page or in the calls changes.\<close>

theorem boot_relay_run:
  assumes "sdk_callback_registered (pg s)"
  shows "\<exists>s'. boot_run env s (map CredentialCallback creds) = Some s' \<and>
              dispatched (pg s') = dispatched (pg s) @ relayed creds \<and>
              pg s' = (pg s)\<lparr>dispatched := dispatched (pg s')\<rparr> \<and> calls s' = calls s"
  using assms
proof (induction creds arbitrary: s)
  case Nil
  then show ?case by (simp add: relayed_def)
next
  case (Cons c cs)
  let ?s1 = "s\<lparr>pg := handleCredentialResponse c (pg s)\<rparr>"
  have reg: "sdk_callback_registered (pg ?s1)"
    using Cons.prems by (simp add: handleCredentialResponse_def split: option.splits)
  obtain s' where r: "boot_run env ?s1 (map CredentialCallback cs) = Some s'"
    and d: "dispatched (pg s') = dispatched (pg ?s1) @ relayed cs"
    and p: "pg s' = (pg ?s1)\<lparr>dispatched := dispatched (pg s')\<rparr>" and cl: "calls s' = calls ?s1"
    using Cons.IH [OF reg] by blast
  have "dispatched (pg ?s1) = dispatched (pg s) @ relayed [c]"
    by (simp add: handleCredentialResponse_def relayed_def split: option.splits)
  moreover have "relayed (c # cs) = relayed [c] @ relayed cs" by (simp add: relayed_def)
  moreover have "(pg ?s1)\<lparr>dispatched := x\<rparr> = (pg s)\<lparr>dispatched := x\<rparr>" for x
    by (simp add: handleCredentialResponse_def split: option.splits)
  ultimately show ?case using Cons.prems r d p cl by auto
qed

subsection \<open>Runs the specification discusses\<close>

text \<open>C23: a \<open>load\<close> that arrives after the timeout is not a no-op: for any call whose
  timer rejected it while its script was still loading, the script's \<open>load\<close> leaves the
  promise rejected with the timeout, but the handler still runs \<open>setupGoogleClient\<close>, so
  the client is configured once more and the credential callback registered.\<close>

theorem boot_late_load_configures:
  assumes "i < length (calls s)" and "script (calls s ! i) = Loading"
    and "promise (calls s ! i) = Rejected SdkLoadTimeout"
  shows "\<exists>s'. boot_step env s (ScriptLoad i True) = Some s' \<and>
              promise (calls s' ! i) = Rejected SdkLoadTimeout \<and>
              client_initializations (pg s') = Suc (client_initializations (pg s)) \<and>
              sdk_callback_registered (pg s') \<and> window_google (pg s')"
  using assms
  by (simp add: nth_calls_on_call on_call_def script_onload_def setupGoogleClient_def settle_def
                Let_def split: prod.splits)

text \<open>Two initialisations started before the SDK has loaded (the hook's effect runs
  on every mount) append two script elements: concurrent calls are not deduplicated.\<close>

theorem boot_double_initialize:
  assumes "validateEnvironment env = None"
  shows "\<exists>s. boot_run env initial_boot [Initialize, Initialize] = Some s \<and>
             appended_scripts (pg s) = 2 \<and> promise (calls s ! 0) = Pending \<and>
             promise (calls s ! 1) = Pending"
  using assms by (simp add: initial_boot_def initial_page_def initializeGoogle_def)

subsection \<open>The button\<close>

text \<open>The sign-in button is rendered only when the SDK is loaded and the mount point
  exists, into that mount point, with the requested theme and the fixed size
  \<open>large\<close> and locale \<open>pt-BR\<close>; otherwise the call reports and returns.\<close>

theorem renderLoginButton_rendered:
  "renderLoginButton p ids el th = Rendered el' opts \<longleftrightarrow>
     window_google p \<and> el \<in> ids \<and> el' = el \<and>
     opts = \<lparr>btn_theme = th, btn_size = js ''large'', btn_text = js ''signin_with'',
             btn_locale = js ''pt-BR'', btn_logo_alignment = js ''left'', btn_width = js ''100%''\<rparr>"
  by (auto simp: renderLoginButton_def)

end
