(* ===== verification/Login.thy ===== *)
theory Login
  imports Validator Bootstrap
begin

text \<open>
  The login flow above the service: the state of the \<open>useAuth\<close> hook
  (\<open>src/src/services/auth-service.ts\<close>, lines 358--434), the \<open>LoginPage\<close> component of
  \<open>src/src/components/login-page.tsx\<close> and the user state of \<open>App\<close>
  (\<open>src/src/App.tsx\<close>, lines 25--41), composed with the bootstrapper of \<open>Bootstrap\<close>.
  \<open>LoginPage\<close> starts \<open>initializeGoogle\<close> from a 500 ms timer, renders the Google
  button once the hook reports \<open>isInitialized\<close>, listens for \<open>googleSignInSuccess\<close>,
  validates the credential with the hook and hands the user to \<open>App\<close> one second later.
  An \<open>await\<close> resumes in a microtask, before the browser delivers the next event, so the
  hook observes a settled promise at the end of the event that settled it (\<open>flush\<close>).
  State updates made in one continuation are rendered together (React 18 batching), so
  \<open>isInitialized\<close> and \<open>isLoading\<close> change in one render.
\<close>

section \<open>The useAuth hook\<close>

record hook_state =
  isLoading :: bool
  hook_error :: "js_string option"
  isInitialized :: bool

definition initial_hook :: hook_state where
  "initial_hook = \<lparr>isLoading = True, hook_error = None, isInitialized = False\<rparr>"

text \<open>The \<open>message\<close> of the \<open>Error\<close> each rejection of \<open>initializeGoogle\<close> carries.\<close>

fun init_error_message :: "init_error \<Rightarrow> js_string" where
  "init_error_message (EnvInvalid e) = env_error_message e"
| "init_error_message SdkNotLoadedCorrectly = js ''Google SDK n'' @ [227] @ js ''o carregou corretamente''"
| "init_error_message SdkLoadFailed = js ''Falha ao carregar Google SDK''"
| "init_error_message SdkLoadTimeout = js ''Timeout ao carregar Google SDK''"
| "init_error_message SdkUnavailable =
     js ''Google SDK n'' @ [227] @ js ''o est'' @ [225] @ js '' dispon'' @ [237] @ js ''vel''"

definition config_incomplete :: js_string where
  "config_incomplete = js ''Configura'' @ [231, 227] @ js ''o incompleta''"

text \<open>The hook's \<open>initializeGoogle\<close> up to its \<open>await\<close>: the new hook state and whether
  it goes on to call the service.\<close>

definition hook_init_begin :: "vite_env \<Rightarrow> hook_state \<Rightarrow> hook_state \<times> bool" where
  "hook_init_begin env h =
     (let h1 = h\<lparr>isLoading := True, hook_error := None\<rparr> in
      case validateEnvironment env of
        Some e \<Rightarrow>
          (let m = env_error_message e in
           (h1\<lparr>hook_error := Some (if m = [] then config_incomplete else m), isLoading := False\<rparr>, False))
      | None \<Rightarrow> (h1, True))"

text \<open>The continuation after \<open>await authService.initializeGoogle()\<close>.\<close>

definition hook_init_settle :: "promise_state \<Rightarrow> hook_state \<Rightarrow> hook_state" where
  "hook_init_settle r h =
     (case r of
        Resolved \<Rightarrow> h\<lparr>isInitialized := True, isLoading := False\<rparr>
      | Rejected e \<Rightarrow> h\<lparr>hook_error := Some (init_error_message e), isLoading := False\<rparr>
      | Pending \<Rightarrow> h)"

section \<open>The login page\<close>

record login_page =
  hook :: hook_state
  success_msg :: js_string
  mount_timer :: bool
  awaiting :: "nat option"
  button :: "render_result option"

definition initial_login_page :: login_page where
  "initial_login_page =
     \<lparr>hook = initial_hook, success_msg = [], mount_timer = True, awaiting = None, button = None\<rparr>"

definition success_text :: js_string where
  "success_text = [10003] @ js '' Autentica'' @ [231, 227] @ js ''o bem-sucedida!''"

definition button_slot :: js_string where
  "button_slot = js ''google-signin-button''"

text \<open>\<open>handleGoogleSignIn\<close>: the page after the validation, and the user for whom an
  \<open>onLogin\<close> call is scheduled. A failed validation is only logged to the console.\<close>

definition handleGoogleSignIn :: "vite_env \<Rightarrow> js_string \<Rightarrow> login_page \<Rightarrow> login_page \<times> user option" where
  "handleGoogleSignIn env cred l =
     (if cred = [] then (l, None)
      else
        (let r = hook_validateToken env cred in
         if success r \<and> resp_user r \<noteq> None then (l\<lparr>success_msg := success_text\<rparr>, resp_user r)
         else (l, None)))"

text \<open>What the page shows (lines 112--214): \<open>error\<close> is truthy when it is a non-empty
  string; the debug box shows the configuration snapshot and whether the SDK is loaded.\<close>

record login_view =
  show_success :: bool
  show_error :: bool
  show_spinner :: bool
  show_button :: bool
  show_fallback :: bool
  show_debug :: "(config_snapshot \<times> bool) option"
  show_setup :: bool

definition error_truthy :: "js_string option \<Rightarrow> bool" where
  "error_truthy e = (case e of Some m \<Rightarrow> m \<noteq> [] | None \<Rightarrow> False)"

definition not_configured :: js_string where
  "not_configured = js ''n'' @ [227] @ js ''o configurado''"

definition view_of :: "vite_env \<Rightarrow> page \<Rightarrow> login_page \<Rightarrow> login_view" where
  "view_of env p l =
     (let h = hook l in
      \<lparr>show_success = (success_msg l \<noteq> []),
       show_error = error_truthy (hook_error h),
       show_spinner = isLoading h,
       show_button = (\<not> isLoading h \<and> isInitialized h),
       show_fallback = (\<not> isLoading h \<and> \<not> isInitialized h \<and> \<not> error_truthy (hook_error h)),
       show_debug = (if MODE env = js ''development'' then Some (getConfig env, isGoogleLoaded p) else None),
       show_setup = (error_truthy (hook_error h) \<and> js_includes (the (hook_error h)) not_configured)\<rparr>)"

text \<open>The setup box shown with a configuration error (\<open>login-page.tsx\<close>, lines 214--245)
  tells the developer to create \<open>.env.local\<close> with two lines and restart the server;
  \<open>apply_setup\<close> is the environment Vite reads afterwards. The footer (249--252) names the
  domain \<open>@grupolgh.com.br\<close> as written in the markup.\<close>

definition setup_env_lines :: "(js_string \<times> js_string) list" where
  "setup_env_lines =
     [(js ''VITE_GOOGLE_CLIENT_ID'', js ''seu_client_id.apps.googleusercontent.com''),
      (js ''VITE_GOOGLE_WORKSPACE_DOMAIN'', js ''@grupolgh.com.br'')]"

definition apply_setup :: "vite_env \<Rightarrow> vite_env" where
  "apply_setup env =
     env\<lparr>VITE_GOOGLE_CLIENT_ID := map_of setup_env_lines (js ''VITE_GOOGLE_CLIENT_ID''),
         VITE_GOOGLE_WORKSPACE_DOMAIN := map_of setup_env_lines (js ''VITE_GOOGLE_WORKSPACE_DOMAIN'')\<rparr>"

definition login_footer_domain :: js_string where
  "login_footer_domain = js ''@grupolgh.com.br''"

declare setup_env_lines_def [eval_simps] apply_setup_def [eval_simps] login_footer_domain_def [eval_simps]

section \<open>The application\<close>

record app_state =
  boot :: boot_state
  app_user :: "user option"
  login :: "login_page option"
  login_timers :: "user list"

definition initial_app :: app_state where
  "initial_app = \<lparr>boot = initial_boot, app_user = None, login = Some initial_login_page, login_timers = []\<rparr>"

datatype app_event =
    BootEvent boot_event
  | MountTimerFires
  | LoginTimerFires
  | AppLogout

text \<open>The microtask after each event: a hook awaiting a settled promise resumes, and the
  button effect runs once \<open>isInitialized\<close> is set.\<close>

definition flush :: "app_state \<Rightarrow> app_state" where
  "flush s =
     (case login s of
        Some l \<Rightarrow>
          (case awaiting l of
             Some i \<Rightarrow>
               if i < length (calls (boot s)) \<and> promise (calls (boot s) ! i) \<noteq> Pending then
                 (let r = promise (calls (boot s) ! i) in
                  s\<lparr>login := Some (l\<lparr>hook := hook_init_settle r (hook l), awaiting := None,
                     button := (if r = Resolved
                                then Some (renderLoginButton (pg (boot s)) {button_slot} button_slot FilledBlue)
                                else button l)\<rparr>)\<rparr>)
               else s
           | None \<Rightarrow> s)
      | None \<Rightarrow> s)"

text \<open>The 500 ms timer of the mount effect calls the hook's \<open>initializeGoogle\<close>.\<close>

definition mount_timer_fires :: "vite_env \<Rightarrow> app_state \<Rightarrow> app_state option" where
  "mount_timer_fires env s =
     (case login s of
        Some l \<Rightarrow>
          if mount_timer l then
            (let (h', go) = hook_init_begin env (hook l);
                 l' = l\<lparr>hook := h', mount_timer := False\<rparr> in
             if go then
               (case boot_step env (boot s) Initialize of
                  Some b' \<Rightarrow> Some (flush (s\<lparr>boot := b', login := Some (l'\<lparr>awaiting := Some (length (calls (boot s)))\<rparr>)\<rparr>))
                | None \<Rightarrow> None)
             else Some (s\<lparr>login := Some l'\<rparr>))
          else None
      | None \<Rightarrow> None)"

text \<open>A credential from the SDK: the service relays it, and the mounted page's listener
  validates it.\<close>

definition credential_event :: "vite_env \<Rightarrow> js_string option \<Rightarrow> app_state \<Rightarrow> app_state option" where
  "credential_event env c s =
     (case boot_step env (boot s) (CredentialCallback c) of
        None \<Rightarrow> None
      | Some b' \<Rightarrow>
          (let s1 = s\<lparr>boot := b'\<rparr> in
           case (c, login s) of
             (Some cred, Some l) \<Rightarrow>
               if cred \<noteq> [] then
                 (let (l', u) = handleGoogleSignIn env cred l in
                  Some (flush (s1\<lparr>login := Some l', login_timers := login_timers s @ (case u of Some x \<Rightarrow> [x] | None \<Rightarrow> [])\<rparr>)))
               else Some (flush s1)
           | _ \<Rightarrow> Some (flush s1)))"

fun app_step :: "vite_env \<Rightarrow> app_state \<Rightarrow> app_event \<Rightarrow> app_state option" where
  "app_step env s MountTimerFires = mount_timer_fires env s"
| "app_step env s (BootEvent (CredentialCallback c)) = credential_event env c s"
| "app_step env s (BootEvent (ScriptLoad i ok)) =
     map_option (\<lambda>b'. flush (s\<lparr>boot := b'\<rparr>)) (boot_step env (boot s) (ScriptLoad i ok))"
| "app_step env s (BootEvent (ScriptError i)) =
     map_option (\<lambda>b'. flush (s\<lparr>boot := b'\<rparr>)) (boot_step env (boot s) (ScriptError i))"
| "app_step env s (BootEvent (TimerFires i)) =
     map_option (\<lambda>b'. flush (s\<lparr>boot := b'\<rparr>)) (boot_step env (boot s) (TimerFires i))"
| "app_step env s (BootEvent Initialize) = None"
| "app_step env s (BootEvent Logout) = None"
| "app_step env s (BootEvent SetTokenCallback) = None"
| "app_step env s LoginTimerFires =
     (case login_timers s of
        u # us \<Rightarrow> Some (s\<lparr>login_timers := us, app_user := Some u, login := None\<rparr>)
      | [] \<Rightarrow> None)"
| "app_step env s AppLogout =
     (if app_user s \<noteq> None then Some (s\<lparr>app_user := None, login := Some initial_login_page\<rparr>) else None)"

fun app_run :: "vite_env \<Rightarrow> app_state \<Rightarrow> app_event list \<Rightarrow> app_state option" where
  "app_run env s [] = Some s"
| "app_run env s (e # es) = (case app_step env s e of None \<Rightarrow> None | Some s' \<Rightarrow> app_run env s' es)"

inductive app_reachable :: "vite_env \<Rightarrow> app_state \<Rightarrow> bool" for env where
  start: "app_reachable env initial_app"
| step: "app_reachable env s \<Longrightarrow> app_step env s e = Some s' \<Longrightarrow> app_reachable env s'"

section \<open>Invariant\<close>

text \<open>A mounted login page: the mount timer is pending only before the hook has run, an
  awaited initialisation is one the service holds, and the hook is loading exactly while it
  waits for the timer or the service. A page that is not loading shows the button or an
  error, and the error is the message of one of the service's errors. \<open>login_inv\<close>
  adds that the awaited initialisation is still pending (true after each \<open>flush\<close>).\<close>

definition login_wf :: "boot_state \<Rightarrow> login_page \<Rightarrow> bool" where
  "login_wf b l \<longleftrightarrow>
     (mount_timer l \<longrightarrow> awaiting l = None) \<and>
     pred_option (\<lambda>i. i < length (calls b) \<and> isLoading (hook l)) (awaiting l) \<and>
     (isLoading (hook l) \<longleftrightarrow> mount_timer l \<or> awaiting l \<noteq> None) \<and>
     (isLoading (hook l) \<or> isInitialized (hook l) \<or> error_truthy (hook_error (hook l))) \<and>
     pred_option (\<lambda>m. m \<in> range init_error_message) (hook_error (hook l))"

definition login_inv :: "boot_state \<Rightarrow> login_page \<Rightarrow> bool" where
  "login_inv b l \<longleftrightarrow> login_wf b l \<and> pred_option (\<lambda>i. promise (calls b ! i) = Pending) (awaiting l)"

definition validated_by :: "vite_env \<Rightarrow> boot_state \<Rightarrow> user \<Rightarrow> bool" where
  "validated_by env b u \<longleftrightarrow> (\<exists>c\<in>set (dispatched (pg b)). fst (validateToken env c) = Inr u)"

definition app_inv :: "vite_env \<Rightarrow> app_state \<Rightarrow> bool" where
  "app_inv env s \<longleftrightarrow>
     boot_reachable env (boot s) \<and>
     (app_user s = None \<longleftrightarrow> login s \<noteq> None) \<and>
     list_all (validated_by env (boot s)) (login_timers s) \<and>
     pred_option (validated_by env (boot s)) (app_user s) \<and>
     pred_option (login_inv (boot s)) (login s)"

definition app_wf :: "vite_env \<Rightarrow> app_state \<Rightarrow> bool" where
  "app_wf env s \<longleftrightarrow>
     boot_reachable env (boot s) \<and>
     (app_user s = None \<longleftrightarrow> login s \<noteq> None) \<and>
     list_all (validated_by env (boot s)) (login_timers s) \<and>
     pred_option (validated_by env (boot s)) (app_user s) \<and>
     pred_option (login_wf (boot s)) (login s)"

declare initial_hook_def [eval_simps] init_error_message.simps [eval_simps] config_incomplete_def [eval_simps]
  hook_init_begin_def [eval_simps] hook_init_settle_def [eval_simps] initial_login_page_def [eval_simps]
  success_text_def [eval_simps] button_slot_def [eval_simps] handleGoogleSignIn_def [eval_simps]
  error_truthy_def [eval_simps] not_configured_def [eval_simps] view_of_def [eval_simps]
  initial_app_def [eval_simps] flush_def [eval_simps] mount_timer_fires_def [eval_simps]
  credential_event_def [eval_simps]


section \<open>Lemmas\<close>

lemma env_error_message_not_Nil [simp]: "env_error_message e \<noteq> []"
  by (cases e) simp_all

lemma init_error_message_not_Nil [simp]: "init_error_message e \<noteq> []"
  by (cases e) simp_all

lemma boot_step_mono:
  assumes "boot_step env b e = Some b'"
  shows "length (calls b) \<le> length (calls b') \<and> set (dispatched (pg b)) \<subseteq> set (dispatched (pg b'))"
  using assms
  by (cases e) (auto simp: initializeGoogle_def setupGoogleClient_def on_call_def script_onload_def
                    script_onerror_def load_timeout_def handleCredentialResponse_def logout_def
                    setTokenCallback_def settled_call_def Let_def
                    split: prod.splits option.splits sum.splits if_splits)

lemma validated_by_mono:
  "validated_by env b u \<Longrightarrow> set (dispatched (pg b)) \<subseteq> set (dispatched (pg b')) \<Longrightarrow> validated_by env b' u"
  by (auto simp: validated_by_def)

lemma login_wf_mono:
  "login_wf b l \<Longrightarrow> length (calls b) \<le> length (calls b') \<Longrightarrow> login_wf b' l"
  by (auto simp: login_wf_def pred_option_def)

lemma flush_fields [simp]:
  "boot (flush s) = boot s" "app_user (flush s) = app_user s" "login_timers (flush s) = login_timers s"
  "login (flush s) = None \<longleftrightarrow> login s = None"
  by (auto simp: flush_def Let_def split: option.splits)

lemma flush_login_inv:
  assumes "login s = Some l" and "login_wf (boot s) l"
  shows "pred_option (login_inv (boot s)) (login (flush s))"
  using assms
  by (auto simp: flush_def login_inv_def login_wf_def hook_init_settle_def error_truthy_def Let_def
           split: option.splits promise_state.splits)

lemma app_wf_flush:
  assumes w: "app_wf env s"
  shows "app_inv env (flush s)"
proof -
  have "pred_option (login_inv (boot s)) (login (flush s))"
  proof (cases "login s")
    case None
    then show ?thesis by (simp add: flush_def)
  next
    case (Some l)
    with w show ?thesis using flush_login_inv by (simp add: app_wf_def)
  qed
  with w show ?thesis by (simp add: app_wf_def app_inv_def)
qed

lemma flush_id: "pred_option (login_inv (boot s)) (login s) \<Longrightarrow> flush s = s"
  by (auto simp: flush_def login_inv_def split: option.splits)

lemma login_update_same: "login s = Some l \<Longrightarrow> s\<lparr>boot := b, login := Some l\<rparr> = s\<lparr>boot := b\<rparr>"
  by (cases s) simp

lemma login_inv_calls: "calls b' = calls b \<Longrightarrow> login_inv b' = login_inv b"
  by (simp add: fun_eq_iff login_inv_def login_wf_def)

lemma app_inv_wf: "app_inv env s \<Longrightarrow> app_wf env s"
  by (auto simp: app_inv_def app_wf_def login_inv_def pred_option_def)

lemma app_inv_initial: "app_inv env initial_app"
  by (simp add: app_inv_def initial_app_def login_inv_def login_wf_def initial_login_page_def
                initial_hook_def boot_reachable.start)

lemma login_inv_initial_page: "login_inv b initial_login_page"
  by (simp add: login_inv_def login_wf_def initial_login_page_def initial_hook_def)


lemma app_inv_boot_event:
  assumes inv: "app_inv env s" and b: "boot_step env (boot s) e = Some b'"
  shows "app_wf env (s\<lparr>boot := b'\<rparr>)"
proof -
  note mono = boot_step_mono [OF b]
  have "boot_reachable env b'"
    using inv b by (auto simp: app_inv_def intro: boot_reachable.step)
  moreover have "list_all (validated_by env b') (login_timers s)"
    using inv mono by (auto simp: app_inv_def list_all_iff intro: validated_by_mono)
  moreover have "pred_option (validated_by env b') (app_user s)"
    using inv mono by (auto simp: app_inv_def pred_option_def intro: validated_by_mono)
  moreover have "pred_option (login_wf b') (login s)"
    using inv mono by (auto simp: app_inv_def login_inv_def pred_option_def intro: login_wf_mono)
  ultimately show ?thesis using inv by (simp add: app_wf_def app_inv_def)
qed

lemma handleGoogleSignIn_facts:
  assumes "handleGoogleSignIn env cred l = (l', u)"
  shows "login_wf b l' = login_wf b l \<and> pred_option (\<lambda>x. fst (validateToken env cred) = Inr x) u"
  using assms
  by (auto simp: handleGoogleSignIn_def login_wf_def hook_validateToken_def Let_def
           split: if_splits sum.splits)

lemma credential_event_inv:
  assumes inv: "app_inv env s" and st: "credential_event env c s = Some s'"
  shows "app_inv env s'"
proof -
  obtain b' where b': "boot_step env (boot s) (CredentialCallback c) = Some b'"
    using st by (auto simp: credential_event_def split: option.splits)
  have w: "app_wf env (s\<lparr>boot := b'\<rparr>)" by (rule app_inv_boot_event [OF inv b'])
  show ?thesis
  proof (cases "\<exists>cred l. c = Some cred \<and> login s = Some l \<and> cred \<noteq> []")
    case False
    then have "s' = flush (s\<lparr>boot := b'\<rparr>)"
      using st b' by (auto simp: credential_event_def Let_def split: option.splits)
    then show ?thesis using app_wf_flush [OF w] by simp
  next
    case True
    then obtain cred l where c: "c = Some cred" and l: "login s = Some l" and ne: "cred \<noteq> []" by blast
    obtain l' u where h: "handleGoogleSignIn env cred l = (l', u)" by (cases "handleGoogleSignIn env cred l")
    have s': "s' = flush (s\<lparr>boot := b', login := Some l',
                              login_timers := login_timers s @ (case u of Some x \<Rightarrow> [x] | None \<Rightarrow> [])\<rparr>)"
      using st b' c l ne h by (simp add: credential_event_def)
    have disp: "cred \<in> set (dispatched (pg b'))"
      using b' c ne by (auto simp: handleCredentialResponse_def split: if_splits)
    have "pred_option (validated_by env b') u"
      using handleGoogleSignIn_facts [OF h] disp by (auto simp: validated_by_def pred_option_def)
    then have "app_wf env (s\<lparr>boot := b', login := Some l',
                              login_timers := login_timers s @ (case u of Some x \<Rightarrow> [x] | None \<Rightarrow> [])\<rparr>)"
      using w l handleGoogleSignIn_facts [OF h, of b']
      by (auto simp: app_wf_def split: option.splits)
    then show ?thesis using app_wf_flush s' by simp
  qed
qed

lemma boot_step_Initialize_calls:
  "\<exists>b'. boot_step env b Initialize = Some b' \<and> calls b' = calls b @ [snd (initializeGoogle env (pg b))]"
  by (simp add: Let_def split_def)

lemma mount_timer_inv:
  assumes inv: "app_inv env s" and st: "mount_timer_fires env s = Some s'"
  shows "app_inv env s'"
proof -
  obtain l where l: "login s = Some l" and mt: "mount_timer l"
    using st by (auto simp: mount_timer_fires_def split: option.splits if_splits)
  have aw: "awaiting l = None"
    using inv l mt by (simp add: app_inv_def login_inv_def login_wf_def)
  show ?thesis
  proof (cases "validateEnvironment env")
    case (Some e)
    then have "s' = s\<lparr>login := Some (l\<lparr>hook := (hook l)\<lparr>hook_error := Some (env_error_message e),
                          isLoading := False\<rparr>, mount_timer := False\<rparr>)\<rparr>"
      using st l mt by (simp add: mount_timer_fires_def hook_init_begin_def Let_def)
    moreover have "env_error_message e \<in> range init_error_message"
      by (rule range_eqI [of _ _ "EnvInvalid e"]) simp
    ultimately show ?thesis
      using inv l aw by (auto simp: app_inv_def login_inv_def login_wf_def error_truthy_def)
  next
    case None
    obtain b' where b': "boot_step env (boot s) Initialize = Some b'"
      and cb: "calls b' = calls (boot s) @ [snd (initializeGoogle env (pg (boot s)))]"
      using boot_step_Initialize_calls by blast
    let ?l = "l\<lparr>hook := (hook l)\<lparr>isLoading := True, hook_error := None\<rparr>, mount_timer := False,
                 awaiting := Some (length (calls (boot s)))\<rparr>"
    have s': "s' = flush (s\<lparr>boot := b', login := Some ?l\<rparr>)"
      using st l mt None b' by (simp add: mount_timer_fires_def hook_init_begin_def Let_def)
    have w: "app_wf env (s\<lparr>boot := b'\<rparr>)" by (rule app_inv_boot_event [OF inv b'])
    have "login_wf b' ?l" using cb by (simp add: login_wf_def)
    with w l have "app_wf env (s\<lparr>boot := b', login := Some ?l\<rparr>)" by (simp add: app_wf_def)
    then show ?thesis using app_wf_flush s' by simp
  qed
qed

lemma boot_event_inv:
  assumes inv: "app_inv env s"
    and st: "map_option (\<lambda>b'. flush (s\<lparr>boot := b'\<rparr>)) (boot_step env (boot s) be) = Some s'"
  shows "app_inv env s'"
  using st by (cases "boot_step env (boot s) be") (auto intro: app_wf_flush app_inv_boot_event [OF inv])

lemma app_inv_step:
  assumes inv: "app_inv env s" and st: "app_step env s e = Some s'"
  shows "app_inv env s'"
proof (cases e)
  case (BootEvent be)
  show ?thesis
  proof (cases be)
    case (CredentialCallback c)
    with BootEvent st show ?thesis using credential_event_inv [OF inv] by simp
  next
    case (ScriptLoad i ok)
    with BootEvent st show ?thesis using boot_event_inv [OF inv, of "ScriptLoad i ok" s'] by simp
  next
    case (ScriptError i)
    with BootEvent st show ?thesis using boot_event_inv [OF inv, of "ScriptError i" s'] by simp
  next
    case (TimerFires i)
    with BootEvent st show ?thesis using boot_event_inv [OF inv, of "TimerFires i" s'] by simp
  qed (use BootEvent st in simp_all)
next
  case MountTimerFires
  with st show ?thesis using mount_timer_inv [OF inv] by simp
next
  case LoginTimerFires
  with inv st show ?thesis by (auto simp: app_inv_def split: list.splits)
next
  case AppLogout
  with inv st show ?thesis
    by (auto simp: app_inv_def login_inv_initial_page split: if_splits)
qed

lemma app_reachable_inv: "app_reachable env s \<Longrightarrow> app_inv env s"
  by (induction rule: app_reachable.induct) (auto intro: app_inv_initial app_inv_step)


lemma app_run_reachable:
  "app_reachable env s \<Longrightarrow> app_run env s es = Some s' \<Longrightarrow> app_reachable env s'"
proof (induction es arbitrary: s)
  case (Cons e es)
  then show ?case by (auto split: option.splits intro: app_reachable.step)
qed simp

section \<open>Properties\<close>

text \<open>C38: whoever \<open>App\<close> holds as the signed-in user was produced by
  \<open>validateToken\<close> from a credential the service relayed, so the user's email ends with
  the allowed domain.\<close>

theorem app_user_allowed:
  assumes "app_reachable env s" and "app_user s = Some u"
  shows "js_endsWith (email u) (ALLOWED_DOMAIN env) \<and>
         (\<exists>c\<in>set (dispatched (pg (boot s))). fst (validateToken env c) = Inr u)"
proof -
  have "validated_by env (boot s) u"
    using app_reachable_inv [OF assms(1)] assms(2) by (simp add: app_inv_def)
  then show ?thesis by (auto simp: validated_by_def intro: validateToken_Inr_domain)
qed

text \<open>C39: a credential that fails validation changes nothing the login page shows: the
  hook's \<open>error\<close> and the success message stay as they were (the handler only logs
  to the console, although its comment says the error is in the hook's state), and no
  sign-in is scheduled.\<close>

theorem rejected_credential_silent:
  assumes "app_reachable env s"
    and "app_step env s (BootEvent (CredentialCallback (Some c))) = Some s'"
    and "fst (validateToken env c) = Inl e"
  shows "login s' = login s \<and> login_timers s' = login_timers s \<and> app_user s' = app_user s"
proof -
  have inv: "app_inv env s" by (rule app_reachable_inv [OF assms(1)])
  obtain b' where b': "boot_step env (boot s) (CredentialCallback (Some c)) = Some b'"
    using assms(2) by (auto simp: credential_event_def split: option.splits)
  have cb: "calls b' = calls (boot s)"
    using b' by (cases "sdk_callback_registered (pg (boot s))") auto
  have h: "handleGoogleSignIn env c l = (l, None)" for l
    using assms(3) by (simp add: handleGoogleSignIn_def hook_validateToken_def)
  have s': "s' = flush (s\<lparr>boot := b'\<rparr>)"
    using assms(2) b' by (auto simp: credential_event_def Let_def h login_update_same
                                split: option.splits if_splits)
  have "pred_option (login_inv b') (login s)"
    using inv by (simp add: app_inv_def login_inv_calls [OF cb])
  then have "flush (s\<lparr>boot := b'\<rparr>) = s\<lparr>boot := b'\<rparr>" by (intro flush_id) simp
  with s' show ?thesis by simp
qed

lemma app_run_step: "app_step env s e = Some s1 \<Longrightarrow> app_run env s (e # es) = app_run env s1 es"
  by simp

lemma timer_ends_wait:
  assumes inv: "app_inv env s" and l: "login s = Some l" and aw: "awaiting l = Some i"
  shows "\<exists>s' l'. app_step env s (BootEvent (TimerFires i)) = Some s' \<and> login s' = Some l' \<and>
                \<not> isLoading (hook l')"
proof -
  have li: "i < length (calls (boot s))" "promise (calls (boot s) ! i) = Pending"
    using inv l aw by (auto simp: app_inv_def login_inv_def login_wf_def)
  have br: "boot_reachable env (boot s)" using inv by (simp add: app_inv_def)
  have "timer_armed (calls (boot s) ! i)"
    by (rule boot_inv_pending_timer [OF boot_reachable_inv [OF br] li])
  with li l aw show ?thesis
    by (simp add: nth_calls_on_call load_timeout_def settle_def flush_def hook_init_settle_def)
qed

lemma mount_timer_fires_Some:
  assumes "login s = Some l" and "mount_timer l"
  shows "\<exists>s1 l1. mount_timer_fires env s = Some s1 \<and> login s1 = Some l1 \<and> \<not> mount_timer l1"
  using assms
  by (auto simp: mount_timer_fires_def hook_init_begin_def flush_def Let_def split_def
           split: option.splits)

text \<open>C40: the login page never stays in its loading state: from any reachable state in
  which it is loading, at most two events (the 500 ms mount timer, then the service's
  10-second timeout) bring it to a state that shows the button or an error.\<close>

theorem login_loading_ends:
  assumes "app_reachable env s" and "login s = Some l" and "isLoading (hook l)"
  shows "\<exists>es s' l'. length es \<le> 2 \<and> app_run env s es = Some s' \<and> login s' = Some l' \<and>
                    \<not> isLoading (hook l')"
proof (cases "mount_timer l")
  case False
  with assms app_reachable_inv [OF assms(1)] obtain i where aw: "awaiting l = Some i"
    by (auto simp: app_inv_def login_inv_def login_wf_def)
  obtain s' l' where "app_step env s (BootEvent (TimerFires i)) = Some s'" "login s' = Some l'"
      "\<not> isLoading (hook l')"
    using timer_ends_wait [OF app_reachable_inv [OF assms(1)] assms(2) aw] by blast
  then show ?thesis
    by (intro exI [of _ "[BootEvent (TimerFires i)]"]) (auto simp del: app_step.simps simp: app_run_step)
next
  case True
  obtain s1 l1 where s1: "mount_timer_fires env s = Some s1" and l1: "login s1 = Some l1"
    and nm: "\<not> mount_timer l1"
    using mount_timer_fires_Some [OF assms(2) True] by blast
  have st1: "app_step env s MountTimerFires = Some s1" using s1 by simp
  have r1: "app_reachable env s1" by (rule app_reachable.step [OF assms(1) st1])
  show ?thesis
  proof (cases "isLoading (hook l1)")
    case False
    with st1 l1 show ?thesis
      by (intro exI [of _ "[MountTimerFires]"]) (auto simp del: app_step.simps simp: app_run_step)
  next
    case True
    with nm app_reachable_inv [OF r1] l1 obtain i where aw: "awaiting l1 = Some i"
      by (auto simp: app_inv_def login_inv_def login_wf_def)
    obtain s' l' where "app_step env s1 (BootEvent (TimerFires i)) = Some s'" "login s' = Some l'"
        "\<not> isLoading (hook l')"
      using timer_ends_wait [OF app_reachable_inv [OF r1] l1 aw] by blast
    with st1 show ?thesis
      by (intro exI [of _ "[MountTimerFires, BootEvent (TimerFires i)]"])
         (auto simp del: app_step.simps simp: app_run_step)
  qed
qed

subsection \<open>What the page shows\<close>

lemma js_includes_not_configured:
  "js_includes (init_error_message e) not_configured \<longleftrightarrow> (\<exists>e'. e = EnvInvalid e')"
proof (cases e)
  case (EnvInvalid x)
  then show ?thesis by (cases x) (simp_all add: not_configured_def js_startsWith_def)
qed (simp_all add: not_configured_def js_startsWith_def)

text \<open>The amber fallback \<open>Aguarde o carregamento...\<close> (lines 165--172) is never shown:
  a mounted page that is not loading is initialised or has an error.\<close>

lemma login_fallback_hidden:
  assumes "app_reachable env s" and "login s = Some l"
  shows "\<not> show_fallback (view_of env p l)"
  using app_reachable_inv [OF assms(1)] assms(2)
  by (auto simp: app_inv_def login_inv_def login_wf_def view_of_def Let_def)

text \<open>The setup instructions (lines 214--245) are shown exactly when the error is a
  configuration error, never for an SDK failure.\<close>

lemma login_setup_iff_config:
  assumes "app_reachable env s" and "login s = Some l"
  shows "show_setup (view_of env p l) \<longleftrightarrow> (\<exists>e. hook_error (hook l) = Some (env_error_message e))"
proof (cases "hook_error (hook l)")
  case None
  then show ?thesis by (simp add: view_of_def Let_def error_truthy_def)
next
  case (Some m)
  have "pred_option (\<lambda>m. m \<in> range init_error_message) (hook_error (hook l))"
    using app_reachable_inv [OF assms(1)] assms(2) by (simp add: app_inv_def login_inv_def login_wf_def)
  with Some obtain x where m: "m = init_error_message x" by auto
  have "show_setup (view_of env p l) \<longleftrightarrow> js_includes m not_configured"
    using Some m by (simp add: view_of_def Let_def error_truthy_def)
  also have "\<dots> \<longleftrightarrow> (\<exists>e. m = env_error_message e)"
  proof
    assume "js_includes m not_configured"
    then obtain e' where "x = EnvInvalid e'" using js_includes_not_configured m by auto
    then show "\<exists>e. m = env_error_message e" using m by auto
  next
    assume "\<exists>e. m = env_error_message e"
    then obtain e where "m = init_error_message (EnvInvalid e)" by auto
    then show "js_includes m not_configured" using js_includes_not_configured [of "EnvInvalid e"] by simp
  qed
  finally show ?thesis using Some by simp
qed

section \<open>Setup instructions and footer\<close>

text \<open>Following the setup box's instructions clears the configuration error, whatever the
  environment was before: the client identifier is set and the allowed domain is
  \<open>@grupolgh.com.br\<close>, the domain the footer names.\<close>

lemma apply_setup_valid:
  "validateEnvironment (apply_setup env) = None \<and>
   ALLOWED_DOMAIN (apply_setup env) = login_footer_domain"
  by (simp add: eval_simps validateEnvironment_def GOOGLE_CLIENT_ID_def ALLOWED_DOMAIN_def
                GOOGLE_WORKSPACE_DOMAIN_def js_or_default_def js_startsWith_def)

text \<open>The footer's domain is fixed in the markup while the allowed domain is configured:
  with \<open>VITE_GOOGLE_WORKSPACE_DOMAIN=example-corp.example\<close> the page accepts only
  \<open>@example-corp.example\<close> but still tells users it is restricted to \<open>@grupolgh.com.br\<close>.\<close>

lemma footer_domain_not_configured:
  "validateEnvironment
     \<lparr>VITE_GOOGLE_CLIENT_ID = Some (js ''id''), VITE_GOOGLE_WORKSPACE_DOMAIN = Some (js ''example-corp.example''),
      MODE = js ''production''\<rparr> = None \<and>
   ALLOWED_DOMAIN
     \<lparr>VITE_GOOGLE_CLIENT_ID = Some (js ''id''), VITE_GOOGLE_WORKSPACE_DOMAIN = Some (js ''example-corp.example''),
      MODE = js ''production''\<rparr> = js ''@example-corp.example'' \<and>
   js ''@example-corp.example'' \<noteq> login_footer_domain"
  by (simp add: eval_simps validateEnvironment_def GOOGLE_CLIENT_ID_def ALLOWED_DOMAIN_def
                GOOGLE_WORKSPACE_DOMAIN_def js_or_default_def js_startsWith_def)

end
