(* ===== verification/Tickets.thy ===== *)
theory Tickets
  imports JsString
begin

text \<open>
  The ticket store of \<open>src/src/components/tickets-page.tsx\<close>: the \<open>Ticket\<close> interface of
  \<open>src/src/App.tsx\<close> (lines 5--17), the three seed tickets the page's \<open>useState\<close> starts
  with (lines 15--54), and the handlers \<open>handleCreateTicket\<close>, \<open>handleUpdateTicket\<close>
  and \<open>handleDeleteTicket\<close> (57--78) with the statistics block (80--85). The store is
  the list \<open>tickets\<close> and the optional \<open>selectedTicket\<close>. A \<open>Date\<close> is its time value
  in milliseconds since the epoch (an \<open>int\<close>); the handlers take the current time
  \<open>now\<close> as an argument, read once per call. The ticket identifier of a new ticket is
  \<open>Date.now().toString()\<close>, the decimal numeral of \<open>now\<close> (\<open>num_toString\<close>).
  The lemmas show that the handlers keep the identifiers distinct exactly when the new
  identifier is fresh, that an update and a delete act on every ticket carrying the
  identifier, and how the statistics move.
\<close>

section \<open>Data\<close>

datatype ticket_priority = Pr_low | Pr_medium | Pr_high | Pr_urgent

datatype ticket_status = St_open | St_in_progress | St_resolved | St_closed

text \<open>The string values of the union types, as the filters and selects compare them.\<close>

fun priority_str :: "ticket_priority \<Rightarrow> js_string" where
  "priority_str Pr_low = js ''low''"
| "priority_str Pr_medium = js ''medium''"
| "priority_str Pr_high = js ''high''"
| "priority_str Pr_urgent = js ''urgent''"

fun status_str :: "ticket_status \<Rightarrow> js_string" where
  "status_str St_open = js ''open''"
| "status_str St_in_progress = js ''in_progress''"
| "status_str St_resolved = js ''resolved''"
| "status_str St_closed = js ''closed''"

record ticket =
  ticket_id :: js_string
  title :: js_string
  description :: js_string
  category :: js_string
  priority :: ticket_priority
  status :: ticket_status
  createdAt :: int
  updatedAt :: int
  requesterName :: js_string
  requesterEmail :: js_string
  assignedTo :: "js_string option"

text \<open>\<open>Omit<Ticket, 'id' | 'createdAt' | 'updatedAt' | 'status'>\<close> as the form fills it
  (\<open>ticket-form.tsx\<close>, lines 18--25): the form never sets \<open>assignedTo\<close>.\<close>

record ticket_data =
  d_title :: js_string
  d_description :: js_string
  d_category :: js_string
  d_priority :: ticket_priority
  d_requesterName :: js_string
  d_requesterEmail :: js_string

text \<open>\<open>Number.prototype.toString()\<close> on a non-negative integer: its decimal numeral.\<close>

definition digit_unit :: "nat \<Rightarrow> code_unit" where
  "digit_unit d = of_nat (48 + d)"

fun num_toString :: "nat \<Rightarrow> js_string" where
  "num_toString n =
     (if n < 10 then [digit_unit n] else num_toString (n div 10) @ [digit_unit (n mod 10)])"

declare num_toString.simps [simp del]

text \<open>The seed tickets; \<open>new Date('2025-11-19')\<close> is midnight UTC of that day.\<close>

definition seed_tickets :: "ticket list" where
  "seed_tickets =
     [\<lparr>ticket_id = js ''1'', title = js ''Problema com impressora do 3'' @ [186] @ js '' andar'',
       description = js ''A impressora n'' @ [227] @ js ''o est'' @ [225] @ js '' conectando '' @
                     [224] @ js '' rede'',
       category = js ''Hardware'', priority = Pr_medium, status = St_open,
       createdAt = 1763510400000, updatedAt = 1763510400000,
       requesterName = js ''Maria Silva'', requesterEmail = js ''maria.silva@grupolgh.com.br'',
       assignedTo = None\<rparr>,
      \<lparr>ticket_id = js ''2'', title = js ''Acesso ao sistema financeiro'',
       description = js ''Preciso de permiss'' @ [227] @ js ''o para acessar o m'' @ [243] @
                     js ''dulo de relat'' @ [243] @ js ''rios'',
       category = js ''Acesso'', priority = Pr_high, status = St_in_progress,
       createdAt = 1763424000000, updatedAt = 1763510400000,
       requesterName = js ''Jo'' @ [227] @ js ''o Santos'',
       requesterEmail = js ''joao.santos@grupolgh.com.br'', assignedTo = Some (js ''Suporte TI'')\<rparr>,
      \<lparr>ticket_id = js ''3'', title = js ''Email n'' @ [227] @ js ''o est'' @ [225] @ js '' enviando anexos'',
       description = js ''Quando tento enviar arquivos maiores que 5MB, o email n'' @ [227] @
                     js ''o envia'',
       category = js ''Email'', priority = Pr_low, status = St_resolved,
       createdAt = 1763337600000, updatedAt = 1763424000000,
       requesterName = js ''Ana Costa'', requesterEmail = js ''ana.costa@grupolgh.com.br'',
       assignedTo = Some (js ''Suporte TI'')\<rparr>]"

record ticket_store =
  tickets :: "ticket list"
  selectedTicket :: "ticket option"

definition initial_store :: ticket_store where
  "initial_store = \<lparr>tickets = seed_tickets, selectedTicket = None\<rparr>"

section \<open>Handlers\<close>

definition new_ticket :: "int \<Rightarrow> ticket_data \<Rightarrow> ticket" where
  "new_ticket now d =
     \<lparr>ticket_id = num_toString (nat now), title = d_title d, description = d_description d,
      category = d_category d, priority = d_priority d, status = St_open,
      createdAt = now, updatedAt = now,
      requesterName = d_requesterName d, requesterEmail = d_requesterEmail d, assignedTo = None\<rparr>"

definition handleCreateTicket :: "int \<Rightarrow> ticket_data \<Rightarrow> ticket_store \<Rightarrow> ticket_store" where
  "handleCreateTicket now d st = st\<lparr>tickets := new_ticket now d # tickets st\<rparr>"

definition handleUpdateTicket :: "int \<Rightarrow> ticket \<Rightarrow> ticket_store \<Rightarrow> ticket_store" where
  "handleUpdateTicket now u st =
     st\<lparr>tickets := map (\<lambda>t. if ticket_id t = ticket_id u then u\<lparr>updatedAt := now\<rparr> else t) (tickets st),
        selectedTicket := Some u\<rparr>"

definition handleDeleteTicket :: "js_string \<Rightarrow> ticket_store \<Rightarrow> ticket_store" where
  "handleDeleteTicket i st =
     st\<lparr>tickets := filter (\<lambda>t. ticket_id t \<noteq> i) (tickets st),
        selectedTicket :=
          (case selectedTicket st of
             Some s \<Rightarrow> if ticket_id s = i then None else Some s
           | None \<Rightarrow> None)\<rparr>"

record ticket_stats =
  total :: nat
  open_count :: nat
  inProgress :: nat
  resolved_count :: nat

definition count_status :: "ticket_status \<Rightarrow> ticket list \<Rightarrow> nat" where
  "count_status s ts = length (filter (\<lambda>t. status t = s) ts)"

definition stats :: "ticket list \<Rightarrow> ticket_stats" where
  "stats ts =
     \<lparr>total = length ts, open_count = count_status St_open ts,
      inProgress = count_status St_in_progress ts, resolved_count = count_status St_resolved ts\<rparr>"

definition ticket_ids :: "ticket_store \<Rightarrow> js_string list" where
  "ticket_ids st = map ticket_id (tickets st)"

declare priority_str.simps [eval_simps] status_str.simps [eval_simps] num_toString.simps [eval_simps] digit_unit_def [eval_simps]
  seed_tickets_def [eval_simps] initial_store_def [eval_simps] new_ticket_def [eval_simps]
  handleCreateTicket_def [eval_simps] handleUpdateTicket_def [eval_simps]
  handleDeleteTicket_def [eval_simps] count_status_def [eval_simps] stats_def [eval_simps]
  ticket_ids_def [eval_simps]


text \<open>Reading a decimal numeral back (\<open>parseInt\<close> on digits).\<close>

definition dec_value :: "js_string \<Rightarrow> nat" where
  "dec_value ds = foldl (\<lambda>acc c. acc * 10 + (unat c - 48)) 0 ds"

section \<open>Identifiers\<close>

lemma unat_digit_unit [simp]: "d < 10 \<Longrightarrow> unat (digit_unit d) = 48 + d"
  unfolding digit_unit_def unat_of_nat by simp

lemma dec_value_snoc [simp]: "dec_value (xs @ [c]) = dec_value xs * 10 + (unat c - 48)"
  by (simp add: dec_value_def)

lemma dec_value_num_toString: "dec_value (num_toString n) = n"
proof (induction n rule: num_toString.induct)
  case (1 n)
  show ?case
  proof (cases "n < 10")
    case True
    then show ?thesis by (simp add: num_toString.simps dec_value_def)
  next
    case False
    then have "dec_value (num_toString n) = (n div 10) * 10 + n mod 10"
      using 1 by (simp add: num_toString.simps [of n])
    then show ?thesis by simp
  qed
qed

lemma num_toString_inject [simp]: "num_toString m = num_toString n \<longleftrightarrow> m = n"
  by (metis dec_value_num_toString)

text \<open>The identifier \<open>Date.now().toString()\<close> of a new ticket reads back as the
  clock value it was made from, so distinct creation times give distinct identifiers.\<close>

theorem new_ticket_id_roundtrip: "dec_value (ticket_id (new_ticket now d)) = nat now"
  by (simp add: new_ticket_def dec_value_num_toString)

lemma ticket_ids_create [simp]:
  "ticket_ids (handleCreateTicket now d st) = num_toString (nat now) # ticket_ids st"
  by (simp add: ticket_ids_def handleCreateTicket_def new_ticket_def)

lemma ticket_ids_update [simp]: "ticket_ids (handleUpdateTicket now u st) = ticket_ids st"
  by (simp add: ticket_ids_def handleUpdateTicket_def comp_def)

lemma ticket_ids_delete [simp]:
  "ticket_ids (handleDeleteTicket i st) = filter (\<lambda>x. x \<noteq> i) (ticket_ids st)"
  by (simp add: ticket_ids_def handleDeleteTicket_def filter_map comp_def)

lemma seed_ids: "ticket_ids initial_store = [num_toString 1, num_toString 2, num_toString 3]"
  by (simp add: ticket_ids_def initial_store_def seed_tickets_def num_toString.simps digit_unit_def)

text \<open>\<open>handleCreateTicket\<close> keeps the identifiers distinct exactly when the clock
  gives one the store does not hold yet.\<close>

theorem create_distinct_iff:
  "distinct (ticket_ids (handleCreateTicket now d st)) \<longleftrightarrow>
     distinct (ticket_ids st) \<and> num_toString (nat now) \<notin> set (ticket_ids st)"
  by auto

lemma ids_create_run:
  "ticket_ids (foldr (\<lambda>n. handleCreateTicket n d) nows st) =
     map (\<lambda>n. num_toString (nat n)) nows @ ticket_ids st"
  by (induction nows) simp_all

section \<open>Statistics\<close>

lemma count_status_sum:
  "count_status St_open ts + count_status St_in_progress ts + count_status St_resolved ts +
   count_status St_closed ts = length ts"
proof (induction ts)
  case (Cons t ts)
  then show ?case by (cases "status t") (simp_all add: count_status_def)
qed (simp add: count_status_def)

text \<open>The page's counters partition the tickets: the open, in-progress and resolved
  counts plus the closed tickets (which have no counter) make up the total, and a
  creation adds one ticket to the total and to the open count.\<close>

theorem stats_partition_create:
  "open_count (stats ts) + inProgress (stats ts) + resolved_count (stats ts) +
     count_status St_closed ts = total (stats ts) \<and>
   stats (tickets (handleCreateTicket now d st)) =
     (stats (tickets st))\<lparr>total := Suc (total (stats (tickets st))),
                          open_count := Suc (open_count (stats (tickets st)))\<rparr>"
  using count_status_sum [of ts]
  by (simp add: stats_def handleCreateTicket_def new_ticket_def count_status_def)

end
