(* ===== verification/TicketViews.thy ===== *)
theory TicketViews
  imports Tickets
begin

text \<open>
  The views over the ticket store: the search and filters of
  \<open>src/src/components/ticket-list.tsx\<close> (lines 14--27), the relative time and the label
  tables of \<open>ticket-card.tsx\<close> (lines 11--23, 70--86) and \<open>ticket-details.tsx\<close>
  (lines 40--52), and the new-ticket form of \<open>ticket-form.tsx\<close> (lines 17--43).
  \<open>String.prototype.toLowerCase\<close> is modelled on ASCII and Latin-1 (the letters of
  Portuguese): \<open>A\<close>--\<open>Z\<close> and the Latin-1 capitals map to their small letters, every
  other code unit is left as it is, which is the JavaScript result for the Latin-1 range
  and an approximation above it. \<open>Date\<close> arithmetic is on integer milliseconds, where
  \<open>Math.floor\<close> of a quotient is \<open>div\<close>.
\<close>

section \<open>Search and filters\<close>

definition to_lower_unit :: "code_unit \<Rightarrow> code_unit" where
  "to_lower_unit c =
     (let n = unat c in
      if (65 \<le> n \<and> n \<le> 90) \<or> (192 \<le> n \<and> n \<le> 222 \<and> n \<noteq> 215) then c + 32 else c)"

definition toLowerCase :: "js_string \<Rightarrow> js_string" where
  "toLowerCase s = map to_lower_unit s"

record list_filter =
  searchTerm :: js_string
  statusFilter :: js_string
  priorityFilter :: js_string

definition initial_filter :: list_filter where
  "initial_filter = \<lparr>searchTerm = [], statusFilter = js ''all'', priorityFilter = js ''all''\<rparr>"

definition matchesSearch :: "list_filter \<Rightarrow> ticket \<Rightarrow> bool" where
  "matchesSearch f t =
     (let q = toLowerCase (searchTerm f) in
      js_includes (toLowerCase (title t)) q \<or> js_includes (toLowerCase (description t)) q \<or>
      js_includes (toLowerCase (requesterName t)) q)"

definition ticket_matches :: "list_filter \<Rightarrow> ticket \<Rightarrow> bool" where
  "ticket_matches f t \<longleftrightarrow>
     matchesSearch f t \<and>
     (statusFilter f = js ''all'' \<or> status_str (status t) = statusFilter f) \<and>
     (priorityFilter f = js ''all'' \<or> priority_str (priority t) = priorityFilter f)"

definition filteredTickets :: "list_filter \<Rightarrow> ticket list \<Rightarrow> ticket list" where
  "filteredTickets f ts = filter (ticket_matches f) ts"

section \<open>Cards and labels\<close>

fun card_priority_label :: "ticket_priority \<Rightarrow> js_string" where
  "card_priority_label Pr_low = js ''Baixa''"
| "card_priority_label Pr_medium = js ''M'' @ [233] @ js ''dia''"
| "card_priority_label Pr_high = js ''Alta''"
| "card_priority_label Pr_urgent = js ''Urgente''"

fun card_status_label :: "ticket_status \<Rightarrow> js_string" where
  "card_status_label St_open = js ''Aberto''"
| "card_status_label St_in_progress = js ''Em Andamento''"
| "card_status_label St_resolved = js ''Resolvido''"
| "card_status_label St_closed = js ''Fechado''"

fun priorityLabels :: "ticket_priority \<Rightarrow> js_string" where
  "priorityLabels Pr_low = js ''Baixa''"
| "priorityLabels Pr_medium = js ''M'' @ [233] @ js ''dia''"
| "priorityLabels Pr_high = js ''Alta''"
| "priorityLabels Pr_urgent = js ''Urgente''"

fun statusLabels :: "ticket_status \<Rightarrow> js_string" where
  "statusLabels St_open = js ''Aberto''"
| "statusLabels St_in_progress = js ''Em Andamento''"
| "statusLabels St_resolved = js ''Resolvido''"
| "statusLabels St_closed = js ''Fechado''"

text \<open>\<open>getTimeAgo\<close>: \<open>now\<close> and the creation date in milliseconds.\<close>

definition plural :: "int \<Rightarrow> js_string" where
  "plural k = (if k > 1 then js ''s'' else [])"

definition getTimeAgo :: "int \<Rightarrow> int \<Rightarrow> js_string" where
  "getTimeAgo now date =
     (let diffInMs = now - date;
          diffInMinutes = diffInMs div 60000;
          diffInHours = diffInMinutes div 60;
          diffInDays = diffInHours div 24 in
      if diffInDays > 0 then js ''h'' @ [225] @ js '' '' @ num_toString (nat diffInDays) @ js '' dia'' @ plural diffInDays
      else if diffInHours > 0 then js ''h'' @ [225] @ js '' '' @ num_toString (nat diffInHours) @ js '' hora'' @ plural diffInHours
      else if diffInMinutes > 0 then
        js ''h'' @ [225] @ js '' '' @ num_toString (nat diffInMinutes) @ js '' minuto'' @ plural diffInMinutes
      else js ''agora mesmo'')"

text \<open>The reading of the card's time as the specification of a relative date would
  write it: each unit is the floor of the difference divided by that unit.\<close>

definition getTimeAgo_ref :: "int \<Rightarrow> int \<Rightarrow> js_string" where
  "getTimeAgo_ref now date =
     (let d = now - date in
      if d div 86400000 > 0 then
        js ''h'' @ [225] @ js '' '' @ num_toString (nat (d div 86400000)) @ js '' dia'' @ plural (d div 86400000)
      else if d div 3600000 > 0 then
        js ''h'' @ [225] @ js '' '' @ num_toString (nat (d div 3600000)) @ js '' hora'' @ plural (d div 3600000)
      else if d div 60000 > 0 then
        js ''h'' @ [225] @ js '' '' @ num_toString (nat (d div 60000)) @ js '' minuto'' @ plural (d div 60000)
      else js ''agora mesmo'')"

section \<open>The new-ticket form\<close>

record form_state =
  formData :: ticket_data
  submitted :: bool

text \<open>The form's fields start empty, with priority \<open>medium\<close> and the signed-in user's
  name and email as requester.\<close>

definition blank_form :: "js_string \<Rightarrow> js_string \<Rightarrow> ticket_data" where
  "blank_form uname uemail =
     \<lparr>d_title = [], d_description = [], d_category = [], d_priority = Pr_medium,
      d_requesterName = uname, d_requesterEmail = uemail\<rparr>"

definition initial_form :: "js_string \<Rightarrow> js_string \<Rightarrow> form_state" where
  "initial_form uname uemail = \<lparr>formData = blank_form uname uemail, submitted = False\<rparr>"

definition isFormValid :: "ticket_data \<Rightarrow> bool" where
  "isFormValid d \<longleftrightarrow>
     d_title d \<noteq> [] \<and> d_description d \<noteq> [] \<and> d_category d \<noteq> [] \<and>
     d_requesterName d \<noteq> [] \<and> d_requesterEmail d \<noteq> []"

text \<open>\<open>handleSubmit\<close>: the data handed to \<open>onSubmit\<close> and the reset form.\<close>

definition handleSubmit :: "js_string \<Rightarrow> js_string \<Rightarrow> form_state \<Rightarrow> ticket_data \<times> form_state" where
  "handleSubmit uname uemail fs = (formData fs, \<lparr>formData = blank_form uname uemail, submitted = True\<rparr>)"

declare to_lower_unit_def [eval_simps] toLowerCase_def [eval_simps] initial_filter_def [eval_simps]
  matchesSearch_def [eval_simps] ticket_matches_def [eval_simps] filteredTickets_def [eval_simps]
  plural_def [eval_simps] getTimeAgo_def [eval_simps] blank_form_def [eval_simps]
  initial_form_def [eval_simps] isFormValid_def [eval_simps] handleSubmit_def [eval_simps]


section \<open>Lemmas\<close>

lemma to_lower_unit_idem [simp]: "to_lower_unit (to_lower_unit c) = to_lower_unit c"
proof (cases "(65 \<le> unat c \<and> unat c \<le> 90) \<or> (192 \<le> unat c \<and> unat c \<le> 222 \<and> unat c \<noteq> 215)")
  case True
  then have "unat (c + 32) = unat c + 32"
    by (auto simp: unat_add_lem [THEN iffD1])
  with True show ?thesis by (auto simp: to_lower_unit_def Let_def)
next
  case False
  then show ?thesis by (simp add: to_lower_unit_def Let_def)
qed

lemma toLowerCase_idem [simp]: "toLowerCase (toLowerCase s) = toLowerCase s"
  by (simp add: toLowerCase_def comp_def)

text \<open>Nested floors of the card's time arithmetic are one floor by the product.\<close>

lemma div_60000_60_24: "x div 60000 div 60 div 24 = x div (86400000 :: int)"
  by (simp add: zdiv_zmult2_eq [symmetric])

lemma div_60000_60: "x div 60000 div 60 = x div (3600000 :: int)"
  by (simp add: zdiv_zmult2_eq [symmetric])

lemma div_3600000_24: "x div 3600000 div 24 = x div (86400000 :: int)"
  by (simp add: zdiv_zmult2_eq [symmetric])

text \<open>With the list's initial state (empty search, status and priority \<open>all\<close>)
  every ticket is shown, in the store's order.\<close>

theorem filteredTickets_initial: "filteredTickets initial_filter ts = ts"
  by (simp add: filteredTickets_def ticket_matches_def matchesSearch_def initial_filter_def
                toLowerCase_def)

text \<open>The search ignores the case of the query: typing it in capitals or in small
  letters shows the same tickets.\<close>

theorem matchesSearch_case_insensitive:
  "matchesSearch (f\<lparr>searchTerm := toLowerCase q\<rparr>) t = matchesSearch (f\<lparr>searchTerm := q\<rparr>) t"
  by (simp add: matchesSearch_def)

lemma floor_pos_chain:
  "0 < x div 60000 div 60 div 24 \<Longrightarrow> 0 < x div 60000 div 60"
  "0 < x div 60000 div 60 \<Longrightarrow> 0 < x div (60000 :: int)"
  by (simp_all add: pos_imp_zdiv_pos_iff)

text \<open>A card says \<open>agora mesmo\<close> exactly when the ticket is less than a minute
  old, including a creation date in the future.\<close>

theorem getTimeAgo_now_iff: "getTimeAgo now d = js ''agora mesmo'' \<longleftrightarrow> now - d < 60000"
proof -
  have m: "0 < (now - d) div 60000 \<longleftrightarrow> 60000 \<le> now - d"
    by (simp add: pos_imp_zdiv_pos_iff)
  show ?thesis
    using floor_pos_chain [of "now - d"] m by (auto simp: getTimeAgo_def Let_def)
qed

text \<open>A ticket at least a day old is shown as the whole number of days, the
  three nested floors of the code being one floor by 86400000 ms.\<close>

theorem getTimeAgo_days:
  assumes "86400000 \<le> now - d"
  shows "getTimeAgo now d =
           js ''h'' @ [225] @ js '' '' @ num_toString (nat ((now - d) div 86400000)) @ js '' dia'' @
           plural ((now - d) div 86400000)"
proof -
  have "0 < (now - d) div 86400000" using assms by simp
  then show ?thesis by (simp add: getTimeAgo_def Let_def div_60000_60_24)
qed


text \<open>The card's three nested \<open>Math.floor\<close> divisions compute the same text as the
  direct floors of the difference by a day, an hour and a minute, for every pair of
  dates, a future creation date included.\<close>

lemma getTimeAgo_eq_ref: "getTimeAgo now date = getTimeAgo_ref now date"
  unfolding getTimeAgo_def getTimeAgo_ref_def Let_def div_60000_60 div_3600000_24 by (rule refl)

end
