(* ===== verification/TicketsPage.thy ===== *)
theory TicketsPage
  imports TicketViews
begin

text \<open>
  \<open>TicketsPage\<close> of \<open>src/src/components/tickets-page.tsx\<close> with the components it mounts,
  as one state machine. The page holds the store (\<open>Tickets\<close>); the \<open>Tabs\<close> show the
  list tab (\<open>TicketList\<close> and, while a ticket is selected, \<open>TicketDetails\<close>) or the
  new-ticket tab (\<open>TicketForm\<close>). An inactive tab's content is unmounted (the default
  of the tabs primitive the page uses), so a component's own \<open>useState\<close> starts afresh
  when its tab is shown again. \<open>TicketDetails\<close> (\<open>ticket-details.tsx\<close>, lines 54--66)
  keeps \<open>isEditing\<close> and \<open>editedTicket\<close>; \<open>editedTicket\<close> is initialised from the
  \<open>ticket\<close> prop when the component mounts and is not reset when the selection changes,
  because the component stays mounted at the same place. Each user action is an event;
  \<open>page_step\<close> returns \<open>None\<close> for an action the rendered page does not offer (a control
  that is not on screen, a disabled button, a value no select lists).
\<close>

datatype tab = TabList | TabNew

record details_state =
  isEditing :: bool
  editedTicket :: ticket

record page_state =
  store :: ticket_store
  active_tab :: tab
  list_state :: list_filter
  details :: "details_state option"
  form :: form_state
  form_timers :: nat

text \<open>The values the selects offer (\<open>ticket-list.tsx\<close> lines 51--55 and 67--71,
  \<open>ticket-form.tsx\<close> lines 117--123).\<close>

definition status_filter_options :: "js_string list" where
  "status_filter_options = js ''all'' # map status_str [St_open, St_in_progress, St_resolved, St_closed]"

definition priority_filter_options :: "js_string list" where
  "priority_filter_options = js ''all'' # map priority_str [Pr_low, Pr_medium, Pr_high, Pr_urgent]"

definition category_options :: "js_string list" where
  "category_options =
     [js ''Hardware'', js ''Software'', js ''Rede'', js ''Email'', js ''Acesso'', js ''Telefonia'',
      js ''Outro'']"

datatype form_field = FTitle | FDescription | FRequesterName | FRequesterEmail

datatype page_event =
    SwitchTab tab
  | SetSearch js_string
  | SetStatusFilter js_string
  | SetPriorityFilter js_string
  | ClickCard nat
  | CloseDetails
  | StartEdit
  | EditStatus ticket_status
  | EditPriority ticket_priority
  | EditAssignedTo js_string
  | SaveEdit int
  | CancelEdit
  | ConfirmDelete
  | FormInput form_field js_string
  | FormCategory js_string
  | FormPriority ticket_priority
  | SubmitForm int
  | SubmittedTimeout

definition initial_page_state :: "js_string \<Rightarrow> js_string \<Rightarrow> page_state" where
  "initial_page_state uname uemail =
     \<lparr>store = initial_store, active_tab = TabList, list_state = initial_filter, details = None,
      form = initial_form uname uemail, form_timers = 0\<rparr>"

definition fresh_details :: "ticket \<Rightarrow> details_state" where
  "fresh_details t = \<lparr>isEditing = False, editedTicket = t\<rparr>"

text \<open>\<open>onSelectTicket\<close> is \<open>setSelectedTicket\<close>: a mounted \<open>TicketDetails\<close> keeps its state.\<close>

definition select_ticket :: "ticket \<Rightarrow> page_state \<Rightarrow> page_state" where
  "select_ticket t ps =
     ps\<lparr>store := (store ps)\<lparr>selectedTicket := Some t\<rparr>,
        details := (case details ps of None \<Rightarrow> Some (fresh_details t) | Some d \<Rightarrow> Some d)\<rparr>"

text \<open>\<open>TicketDetails\<close>' \<open>handleSave\<close> (\<open>onUpdateTicket(editedTicket)\<close>, then leave
  editing) and \<open>handleCancel\<close> (back to the \<open>ticket\<close> prop).\<close>

definition handleSave :: "int \<Rightarrow> details_state \<Rightarrow> ticket_store \<Rightarrow> ticket_store \<times> details_state" where
  "handleSave now d st = (handleUpdateTicket now (editedTicket d) st, d\<lparr>isEditing := False\<rparr>)"

definition handleCancel :: "ticket \<Rightarrow> details_state \<Rightarrow> details_state" where
  "handleCancel t d = d\<lparr>editedTicket := t, isEditing := False\<rparr>"

definition set_field :: "form_field \<Rightarrow> js_string \<Rightarrow> ticket_data \<Rightarrow> ticket_data" where
  "set_field f v d =
     (case f of
        FTitle \<Rightarrow> d\<lparr>d_title := v\<rparr>
      | FDescription \<Rightarrow> d\<lparr>d_description := v\<rparr>
      | FRequesterName \<Rightarrow> d\<lparr>d_requesterName := v\<rparr>
      | FRequesterEmail \<Rightarrow> d\<lparr>d_requesterEmail := v\<rparr>)"

definition edit_details :: "(ticket \<Rightarrow> ticket) \<Rightarrow> page_state \<Rightarrow> page_state option" where
  "edit_details g ps =
     (case details ps of
        Some d \<Rightarrow> if isEditing d then Some (ps\<lparr>details := Some (d\<lparr>editedTicket := g (editedTicket d)\<rparr>)\<rparr>)
                  else None
      | None \<Rightarrow> None)"

definition edit_form :: "(ticket_data \<Rightarrow> ticket_data) \<Rightarrow> page_state \<Rightarrow> page_state option" where
  "edit_form g ps =
     (if active_tab ps = TabNew then Some (ps\<lparr>form := (form ps)\<lparr>formData := g (formData (form ps))\<rparr>\<rparr>)
      else None)"

fun page_step :: "js_string \<Rightarrow> js_string \<Rightarrow> page_state \<Rightarrow> page_event \<Rightarrow> page_state option" where
  "page_step un ue ps (SwitchTab tb) =
     (if active_tab ps = tb then Some ps
      else if tb = TabNew then
        Some (ps\<lparr>active_tab := TabNew, details := None, form := initial_form un ue, form_timers := 0\<rparr>)
      else
        Some (ps\<lparr>active_tab := TabList, list_state := initial_filter,
                 details := map_option fresh_details (selectedTicket (store ps))\<rparr>))"
| "page_step un ue ps (SetSearch q) =
     (if active_tab ps = TabList then Some (ps\<lparr>list_state := (list_state ps)\<lparr>searchTerm := q\<rparr>\<rparr>)
      else None)"
| "page_step un ue ps (SetStatusFilter v) =
     (if active_tab ps = TabList \<and> v \<in> set status_filter_options
      then Some (ps\<lparr>list_state := (list_state ps)\<lparr>statusFilter := v\<rparr>\<rparr>) else None)"
| "page_step un ue ps (SetPriorityFilter v) =
     (if active_tab ps = TabList \<and> v \<in> set priority_filter_options
      then Some (ps\<lparr>list_state := (list_state ps)\<lparr>priorityFilter := v\<rparr>\<rparr>) else None)"
| "page_step un ue ps (ClickCard n) =
     (let shown = filteredTickets (list_state ps) (tickets (store ps)) in
      if active_tab ps = TabList \<and> n < length shown then Some (select_ticket (shown ! n) ps) else None)"
| "page_step un ue ps CloseDetails =
     (if details ps \<noteq> None
      then Some (ps\<lparr>store := (store ps)\<lparr>selectedTicket := None\<rparr>, details := None\<rparr>) else None)"
| "page_step un ue ps StartEdit =
     (case details ps of
        Some d \<Rightarrow> if \<not> isEditing d then Some (ps\<lparr>details := Some (d\<lparr>isEditing := True\<rparr>)\<rparr>) else None
      | None \<Rightarrow> None)"
| "page_step un ue ps (EditStatus s) = edit_details (\<lambda>t. t\<lparr>status := s\<rparr>) ps"
| "page_step un ue ps (EditPriority p) = edit_details (\<lambda>t. t\<lparr>priority := p\<rparr>) ps"
| "page_step un ue ps (EditAssignedTo a) = edit_details (\<lambda>t. t\<lparr>assignedTo := Some a\<rparr>) ps"
| "page_step un ue ps (SaveEdit now) =
     (case details ps of
        Some d \<Rightarrow>
          if isEditing d then
            (let (st', d') = handleSave now d (store ps) in Some (ps\<lparr>store := st', details := Some d'\<rparr>))
          else None
      | None \<Rightarrow> None)"
| "page_step un ue ps CancelEdit =
     (case (details ps, selectedTicket (store ps)) of
        (Some d, Some t) \<Rightarrow>
          if isEditing d then Some (ps\<lparr>details := Some (handleCancel t d)\<rparr>) else None
      | _ \<Rightarrow> None)"
| "page_step un ue ps ConfirmDelete =
     (case (details ps, selectedTicket (store ps)) of
        (Some d, Some t) \<Rightarrow>
          let st' = handleDeleteTicket (ticket_id t) (store ps) in
          Some (ps\<lparr>store := st', details := if selectedTicket st' = None then None else details ps\<rparr>)
      | _ \<Rightarrow> None)"
| "page_step un ue ps (FormInput f v) = edit_form (set_field f v) ps"
| "page_step un ue ps (FormCategory c) =
     (if c \<in> set category_options then edit_form (\<lambda>d. d\<lparr>d_category := c\<rparr>) ps else None)"
| "page_step un ue ps (FormPriority p) = edit_form (\<lambda>d. d\<lparr>d_priority := p\<rparr>) ps"
| "page_step un ue ps (SubmitForm now) =
     (if active_tab ps = TabNew \<and> isFormValid (formData (form ps)) then
        (let (d, fs') = handleSubmit un ue (form ps) in
         Some (ps\<lparr>store := handleCreateTicket now d (store ps), form := fs',
                  form_timers := Suc (form_timers ps)\<rparr>))
      else None)"
| "page_step un ue ps SubmittedTimeout =
     (if active_tab ps = TabNew \<and> 0 < form_timers ps then
        Some (ps\<lparr>form := (form ps)\<lparr>submitted := False\<rparr>, form_timers := form_timers ps - 1\<rparr>)
      else None)"

fun page_run :: "js_string \<Rightarrow> js_string \<Rightarrow> page_state \<Rightarrow> page_event list \<Rightarrow> page_state option" where
  "page_run un ue ps [] = Some ps"
| "page_run un ue ps (e # es) =
     (case page_step un ue ps e of None \<Rightarrow> None | Some ps' \<Rightarrow> page_run un ue ps' es)"

inductive page_reachable :: "js_string \<Rightarrow> js_string \<Rightarrow> page_state \<Rightarrow> bool" for un ue where
  start: "page_reachable un ue (initial_page_state un ue)"
| step: "page_reachable un ue ps \<Longrightarrow> page_step un ue ps e = Some ps' \<Longrightarrow> page_reachable un ue ps'"


text \<open>The fields no handler edits after creation, and the form's validity on a ticket.\<close>

definition frozen :: "ticket \<Rightarrow> js_string \<times> js_string \<times> js_string \<times> js_string \<times> int \<times> js_string \<times> js_string" where
  "frozen t = (ticket_id t, title t, description t, category t, createdAt t, requesterName t, requesterEmail t)"

definition ticket_wf :: "ticket \<Rightarrow> bool" where
  "ticket_wf t \<longleftrightarrow>
     title t \<noteq> [] \<and> description t \<noteq> [] \<and> category t \<noteq> [] \<and> requesterName t \<noteq> [] \<and>
     requesterEmail t \<noteq> []"

definition tickets_inv :: "page_state \<Rightarrow> bool" where
  "tickets_inv ps \<longleftrightarrow>
     (details ps \<noteq> None \<longleftrightarrow> active_tab ps = TabList \<and> selectedTicket (store ps) \<noteq> None) \<and>
     list_all ticket_wf (tickets (store ps)) \<and>
     pred_option (\<lambda>t. frozen t \<in> frozen ` set (tickets (store ps))) (selectedTicket (store ps)) \<and>
     pred_option (\<lambda>d. frozen (editedTicket d) \<in> frozen ` set (tickets (store ps))) (details ps)"

text \<open>The clock readings of the ticket creations of a run.\<close>

fun submit_times :: "page_event list \<Rightarrow> int list" where
  "submit_times [] = []"
| "submit_times (SubmitForm n # es) = n # submit_times es"
| "submit_times (_ # es) = submit_times es"

section \<open>The invariant\<close>

lemma frozen_updates [simp]:
  "frozen (t\<lparr>status := s\<rparr>) = frozen t" "frozen (t\<lparr>priority := p\<rparr>) = frozen t"
  "frozen (t\<lparr>assignedTo := a\<rparr>) = frozen t" "frozen (t\<lparr>updatedAt := n\<rparr>) = frozen t"
  by (simp_all add: frozen_def)

lemma frozen_ticket_id: "frozen t = frozen u \<Longrightarrow> ticket_id t = ticket_id u"
  by (simp add: frozen_def)

lemma frozen_wf: "frozen t = frozen u \<Longrightarrow> ticket_wf t = ticket_wf u"
  by (simp add: frozen_def ticket_wf_def)

abbreviation replace_by_id :: "int \<Rightarrow> ticket \<Rightarrow> ticket list \<Rightarrow> ticket list" where
  "replace_by_id now u ts \<equiv> map (\<lambda>t. if ticket_id t = ticket_id u then u\<lparr>updatedAt := now\<rparr> else t) ts"

lemma frozen_replace_subset:
  assumes "frozen u \<in> frozen ` set ts"
  shows "frozen ` set (replace_by_id now u ts) \<subseteq> frozen ` set ts"
  using assms by auto

lemma frozen_replace_mem:
  assumes "frozen u \<in> frozen ` set ts"
  shows "frozen u \<in> frozen ` set (replace_by_id now u ts)"
proof -
  obtain x where x: "x \<in> set ts" "frozen x = frozen u" using assms by auto
  let ?f = "\<lambda>t. if ticket_id t = ticket_id u then u\<lparr>updatedAt := now\<rparr> else t"
  have "?f x \<in> set (replace_by_id now u ts)" using x(1) by simp
  moreover have "?f x = u\<lparr>updatedAt := now\<rparr>" using frozen_ticket_id [OF x(2)] by simp
  ultimately have "u\<lparr>updatedAt := now\<rparr> \<in> set (replace_by_id now u ts)" by simp
  then show ?thesis by (rule image_eqI [rotated]) simp
qed

lemma wf_replace:
  assumes "list_all ticket_wf ts" and "frozen u \<in> frozen ` set ts"
  shows "list_all ticket_wf (replace_by_id now u ts)"
proof -
  obtain x where "x \<in> set ts" "frozen x = frozen u" using assms(2) by auto
  then have "ticket_wf u" using assms(1) frozen_wf by (metis list_all_iff)
  then show ?thesis using assms(1)
    by (auto simp: list_all_iff frozen_wf [OF frozen_updates(4)])
qed

lemma new_ticket_wf: "isFormValid d \<Longrightarrow> ticket_wf (new_ticket now d)"
  by (simp add: isFormValid_def ticket_wf_def new_ticket_def)

lemma filtered_mem: "n < length (filteredTickets f ts) \<Longrightarrow> filteredTickets f ts ! n \<in> set ts"
  using nth_mem [of n "filteredTickets f ts"] by (simp add: filteredTickets_def)

lemma tickets_inv_initial: "tickets_inv (initial_page_state un ue)"
  by (simp add: tickets_inv_def initial_page_state_def initial_store_def seed_tickets_def ticket_wf_def)


lemmas tickets_inv_unfold = tickets_inv_def list_all_iff pred_option_def

lemma tickets_inv_step:
  assumes inv: "tickets_inv ps" and st: "page_step un ue ps e = Some ps'"
  shows "tickets_inv ps'"
proof (cases e)
  case (SwitchTab tb)
  with inv st show ?thesis by (auto simp: tickets_inv_unfold fresh_details_def split: if_splits)
next
  case (ClickCard n)
  with inv st show ?thesis
    by (auto simp: tickets_inv_unfold select_ticket_def fresh_details_def Let_def
             dest!: filtered_mem split: if_splits option.splits)
next
  case CloseDetails
  with inv st show ?thesis by (auto simp: tickets_inv_unfold split: if_splits)
next
  case StartEdit
  with inv st show ?thesis by (auto simp: tickets_inv_unfold split: if_splits option.splits)
next
  case (EditStatus s)
  with inv st show ?thesis by (auto simp: tickets_inv_unfold edit_details_def split: if_splits option.splits)
next
  case (EditPriority p)
  with inv st show ?thesis by (auto simp: tickets_inv_unfold edit_details_def split: if_splits option.splits)
next
  case (EditAssignedTo a)
  with inv st show ?thesis by (auto simp: tickets_inv_unfold edit_details_def split: if_splits option.splits)
next
  case (SaveEdit now)
  then obtain d where d: "details ps = Some d" "isEditing d"
    and ps': "ps' = ps\<lparr>store := handleUpdateTicket now (editedTicket d) (store ps),
                        details := Some (d\<lparr>isEditing := False\<rparr>)\<rparr>"
    using st by (auto simp: handleSave_def split: option.splits if_splits)
  have mem: "frozen (editedTicket d) \<in> frozen ` set (tickets (store ps))"
    using inv d by (simp add: tickets_inv_def)
  show ?thesis
    using inv mem frozen_replace_mem [OF mem] wf_replace [OF _ mem]
    by (simp add: ps' d tickets_inv_def handleUpdateTicket_def)
next
  case CancelEdit
  with inv st show ?thesis by (auto simp: tickets_inv_unfold handleCancel_def split: if_splits option.splits)
next
  case ConfirmDelete
  with inv st show ?thesis
    by (auto simp: tickets_inv_unfold handleDeleteTicket_def Let_def split: if_splits option.splits)
next
  case (SubmitForm now)
  with inv st show ?thesis
    by (auto simp: tickets_inv_unfold handleCreateTicket_def handleSubmit_def new_ticket_wf
             split: if_splits)
qed (use inv st in \<open>auto simp: tickets_inv_unfold edit_form_def split: if_splits\<close>)


lemma page_reachable_inv: "page_reachable un ue ps \<Longrightarrow> tickets_inv ps"
  by (induction rule: page_reachable.induct) (auto intro: tickets_inv_initial tickets_inv_step)

section \<open>Properties of reachable pages\<close>

text \<open>C26: every ticket the page holds has a non-empty title, description, category,
  requester name and requester email: the seed tickets do, the form only submits when
  \<open>isFormValid\<close>, and the editor changes none of these fields.\<close>

theorem page_tickets_wf:
  assumes "page_reachable un ue ps" and "t \<in> set (tickets (store ps))"
  shows "ticket_wf t"
  using page_reachable_inv [OF assms(1)] assms(2) by (simp add: tickets_inv_def list_all_iff)

text \<open>C27: the details panel is shown exactly when the list tab is active and a ticket is
  selected, and the selected ticket is always one the store holds (by identifier and by
  every field the editor cannot change).\<close>

theorem page_selection_consistent:
  assumes "page_reachable un ue ps"
  shows "(details ps \<noteq> None \<longleftrightarrow> active_tab ps = TabList \<and> selectedTicket (store ps) \<noteq> None) \<and>
         (\<forall>t. selectedTicket (store ps) = Some t \<longrightarrow>
              (\<exists>x\<in>set (tickets (store ps)). frozen x = frozen t))"
proof -
  have inv: "tickets_inv ps" by (rule page_reachable_inv [OF assms])
  then have "\<forall>t. selectedTicket (store ps) = Some t \<longrightarrow>
               frozen t \<in> frozen ` set (tickets (store ps))"
    by (simp add: tickets_inv_def pred_option_def)
  then have "\<forall>t. selectedTicket (store ps) = Some t \<longrightarrow>
               (\<exists>x\<in>set (tickets (store ps)). frozen x = frozen t)"
    by fastforce
  with inv show ?thesis by (simp add: tickets_inv_def)
qed

lemma frozen_step_subset:
  assumes inv: "tickets_inv ps" and st: "page_step un ue ps e = Some ps'"
    and nc: "\<forall>now. e \<noteq> SubmitForm now"
  shows "frozen ` set (tickets (store ps')) \<subseteq> frozen ` set (tickets (store ps))"
proof (cases e)
  case (SaveEdit now)
  then obtain d where d: "details ps = Some d" "isEditing d"
    and ps': "ps' = ps\<lparr>store := handleUpdateTicket now (editedTicket d) (store ps),
                        details := Some (d\<lparr>isEditing := False\<rparr>)\<rparr>"
    using st by (auto simp: handleSave_def split: option.splits if_splits)
  have mem: "frozen (editedTicket d) \<in> frozen ` set (tickets (store ps))"
    using inv d by (simp add: tickets_inv_def)
  show ?thesis
    using frozen_replace_subset [OF mem] by (simp add: ps' handleUpdateTicket_def)
next
  case ConfirmDelete
  with st show ?thesis
    by (auto simp: handleDeleteTicket_def Let_def split: if_splits option.splits prod.splits)
next
  case (SubmitForm now)
  with nc show ?thesis by simp
qed (use st in \<open>auto simp: select_ticket_def edit_details_def edit_form_def Let_def
                      split: if_splits option.splits prod.splits\<close>)

lemma map_frozen_replace:
  assumes "distinct (map ticket_id ts)" and "frozen u \<in> frozen ` set ts"
  shows "map frozen (replace_by_id now u ts) = map frozen ts"
proof -
  obtain x where x: "x \<in> set ts" "frozen x = frozen u" using assms(2) by auto
  have "frozen (if ticket_id t = ticket_id u then u\<lparr>updatedAt := now\<rparr> else t) = frozen t"
    if t: "t \<in> set ts" for t
  proof (cases "ticket_id t = ticket_id u")
    case True
    then have "ticket_id t = ticket_id x" using frozen_ticket_id [OF x(2)] by simp
    then have "t = x" using assms(1) t x(1) by (metis inj_on_eq_iff distinct_map)
    with True x(2) show ?thesis by simp
  qed simp
  then show ?thesis by simp
qed

text \<open>C28: the tickets' identifier, title, description, category, creation time and
  requester, in the order of the list, change only by creation and deletion: a form
  submission puts the new ticket in front, a confirmed deletion removes exactly the
  tickets with the selected ticket's identifier, and every other step keeps these fields
  of every ticket, in place (while the identifiers are distinct, as C29 guarantees).\<close>

theorem page_frozen_fields:
  assumes "page_reachable un ue ps" and "distinct (ticket_ids (store ps))"
    and "page_step un ue ps e = Some ps'"
  shows "map frozen (tickets (store ps')) =
           (case e of
              SubmitForm now \<Rightarrow> frozen (new_ticket now (formData (form ps))) # map frozen (tickets (store ps))
            | ConfirmDelete \<Rightarrow>
                map frozen (filter (\<lambda>t. Some (ticket_id t) \<noteq> map_option ticket_id (selectedTicket (store ps)))
                              (tickets (store ps)))
            | _ \<Rightarrow> map frozen (tickets (store ps)))"
proof (cases e)
  case (SaveEdit now)
  then obtain d where d: "details ps = Some d" "isEditing d"
    and ps': "ps' = ps\<lparr>store := handleUpdateTicket now (editedTicket d) (store ps),
                        details := Some (d\<lparr>isEditing := False\<rparr>)\<rparr>"
    using assms(3) by (auto simp: handleSave_def split: option.splits if_splits)
  have "frozen (editedTicket d) \<in> frozen ` set (tickets (store ps))"
    using page_reachable_inv [OF assms(1)] d by (simp add: tickets_inv_def)
  then have "map frozen (replace_by_id now (editedTicket d) (tickets (store ps))) =
               map frozen (tickets (store ps))"
    using assms(2) by (intro map_frozen_replace) (simp_all add: ticket_ids_def)
  with SaveEdit show ?thesis by (simp add: ps' handleUpdateTicket_def)
next
  case ConfirmDelete
  with assms(3) show ?thesis
    by (auto simp: handleDeleteTicket_def Let_def split: if_splits option.splits prod.splits)
next
  case (SubmitForm now)
  with assms(3) show ?thesis
    by (auto simp: handleSubmit_def handleCreateTicket_def split: if_splits prod.splits)
qed (use assms(3) in \<open>auto simp: select_ticket_def edit_details_def edit_form_def Let_def
                      split: if_splits option.splits prod.splits\<close>)

lemma page_step_ids:
  assumes "page_step un ue ps e = Some ps'"
  shows "case e of
           SubmitForm now \<Rightarrow> ticket_ids (store ps') = num_toString (nat now) # ticket_ids (store ps)
         | _ \<Rightarrow> ticket_ids (store ps') = ticket_ids (store ps) \<or>
                (\<exists>i. ticket_ids (store ps') = filter (\<lambda>x. x \<noteq> i) (ticket_ids (store ps)))"
  using assms
  by (cases e) (auto simp: select_ticket_def edit_details_def edit_form_def Let_def ticket_ids_def
                    handleUpdateTicket_def handleDeleteTicket_def handleCreateTicket_def
                    handleSubmit_def new_ticket_def comp_def filter_map handleSave_def
                    split: if_splits option.splits prod.splits)

lemma page_run_ids_distinct:
  assumes "page_run un ue ps es = Some ps'" and "distinct (ticket_ids (store ps))"
    and "distinct (map (\<lambda>n. num_toString (nat n)) (submit_times es))"
    and "\<forall>n\<in>set (submit_times es). num_toString (nat n) \<notin> set (ticket_ids (store ps))"
  shows "distinct (ticket_ids (store ps'))"
  using assms
proof (induction es arbitrary: ps)
  case Nil
  then show ?case by simp
next
  case (Cons e es)
  obtain p1 where p1: "page_step un ue ps e = Some p1" and run: "page_run un ue p1 es = Some ps'"
    using Cons.prems(1) by (auto split: option.splits)
  note ids = page_step_ids [OF p1]
  show ?case
  proof (rule Cons.IH [OF run])
    show "distinct (ticket_ids (store p1))"
      using ids Cons.prems(2,4) by (cases e) auto
    show "distinct (map (\<lambda>n. num_toString (nat n)) (submit_times es))"
      using Cons.prems(3) by (cases e) auto
    show "\<forall>n\<in>set (submit_times es). num_toString (nat n) \<notin> set (ticket_ids (store p1))"
      using ids Cons.prems(3,4) by (cases e) (fastforce simp: image_iff)+
  qed
qed

text \<open>C29: the identifiers stay distinct in every run whose ticket creations read
  pairwise distinct clock values after the seed identifiers \<open>1\<close>--\<open>3\<close>; they rely on the
  clock alone (two creations in the same millisecond share an identifier).\<close>

theorem page_ids_distinct:
  assumes "page_run un ue (initial_page_state un ue) es = Some ps"
    and "distinct (submit_times es)" and "\<forall>n\<in>set (submit_times es). 4 \<le> n"
  shows "distinct (ticket_ids (store ps))"
proof (rule page_run_ids_distinct [OF assms(1)])
  show "distinct (ticket_ids (store (initial_page_state un ue)))"
    by (simp add: initial_page_state_def seed_ids)
  show "distinct (map (\<lambda>n. num_toString (nat n)) (submit_times es))"
    using assms(2,3) by (auto simp: distinct_map intro!: inj_onI)
  show "\<forall>n\<in>set (submit_times es). num_toString (nat n) \<notin> set (ticket_ids (store (initial_page_state un ue)))"
    using assms(3) by (auto simp: initial_page_state_def seed_ids)
qed

lemma page_run_append:
  "page_run un ue ps (es1 @ es2) =
     (case page_run un ue ps es1 of None \<Rightarrow> None | Some p \<Rightarrow> page_run un ue p es2)"
  by (induction es1 arbitrary: ps) (simp_all split: option.splits)

text \<open>C25: a submission of the new-ticket form is accepted exactly on the new-ticket tab
  with a valid form; it puts the ticket built from the form's data in front of the list,
  with the clock reading as identifier and dates and status \<open>open\<close>, keeps the selection,
  and resets the form to empty fields with the signed-in user as requester, whatever the
  requester fields held, showing the success banner.\<close>

theorem submit_creates_ticket:
  "(\<exists>ps'. page_step un ue ps (SubmitForm now) = Some ps' \<and>
          tickets (store ps') = new_ticket now (formData (form ps)) # tickets (store ps) \<and>
          status (hd (tickets (store ps'))) = St_open \<and>
          selectedTicket (store ps') = selectedTicket (store ps) \<and>
          form ps' = \<lparr>formData = blank_form un ue, submitted = True\<rparr>) \<longleftrightarrow>
   active_tab ps = TabNew \<and> isFormValid (formData (form ps))"
  by (auto simp: handleSubmit_def handleCreateTicket_def new_ticket_def split: if_splits prod.splits)

text \<open>C37: the details editor keeps the ticket it was opened with. In any state with the
  panel open and not editing, a click on a card (any card, another ticket included)
  leaves the editor's state as it was, and editing and saving then writes the ticket the
  editor holds over the tickets with its identifier and selects it again: the ticket
  that was clicked, and is shown in the panel's header, is not the one saved.\<close>

theorem stale_editor_saves_edited:
  assumes "details ps = Some d" and "\<not> isEditing d"
    and "page_step un ue ps (ClickCard n) = Some ps1"
  shows "details ps1 = Some d \<and>
         (\<exists>ps3. page_run un ue ps1 [StartEdit, SaveEdit now] = Some ps3 \<and>
                tickets (store ps3) = replace_by_id now (editedTicket d) (tickets (store ps)) \<and>
                selectedTicket (store ps3) = Some (editedTicket d))"
  using assms
  by (auto simp: select_ticket_def handleSave_def handleUpdateTicket_def Let_def split: if_splits)

end
