(* ===== verification/Settings.thy ===== *)
theory Settings
  imports JsString
begin

text \<open>
  The settings page of \<open>src/src/components/settings-page.tsx\<close>: its four pieces of
  state (\<open>emailNotifications\<close>, \<open>pushNotifications\<close>, \<open>autoAssign\<close>, \<open>theme\<close>,
  lines 19--22), the fixed team list (24--28), the two save handlers, which only raise an
  \<open>alert\<close> (30--37), and what the page derives from the user's name: the avatar
  initials \<open>user.name.split(' ').map(n => n[0]).join('').toUpperCase()\<close> (line 80,
  the same expression as the header avatar of \<open>main-layout-old.tsx\<close>, line 73), the
  profile fields \<open>split(' ')[0]\<close> and \<open>split(' ').slice(1).join(' ')\<close> (97, 104) and the
  team members' initials without upper-casing (231). \<open>n[0]\<close> of an empty word is
  \<open>undefined\<close>, which \<open>join('')\<close> renders as the empty string, so a word contributes
  \<open>take 1\<close> of itself. \<open>String.prototype.toUpperCase\<close> is modelled exactly on ASCII and
  Latin-1 (including the micro sign to capital mu, y with diaeresis to U+0178 and the sharp s
  to \<open>SS\<close>) and leaves other code units as they are. The page's tabs and the
  department, language and time-zone selects are uncontrolled widgets whose value lives in
  the widget and is lost when their tab is unmounted (\<open>settings_widgets\<close>). The lemmas show that the profile fields give the
  name back, what the initials are, and that the theme stays one of the select's values.
\<close>

section \<open>Names\<close>

definition to_upper_units :: "code_unit \<Rightarrow> js_string" where
  "to_upper_units c =
     (let n = unat c in
      if (97 \<le> n \<and> n \<le> 122) \<or> (224 \<le> n \<and> n \<le> 254 \<and> n \<noteq> 247) then [c - 32]
      else if n = 181 then [924]
      else if n = 223 then [83, 83]
      else if n = 255 then [376]
      else [c])"

definition toUpperCase :: "js_string \<Rightarrow> js_string" where
  "toUpperCase s = concat (map to_upper_units s)"

text \<open>\<open>name.split(' ').map(n => n[0]).join('')\<close>.\<close>

definition name_initials :: "js_string \<Rightarrow> js_string" where
  "name_initials s = concat (map (take 1) (js_split 32 s))"

definition first_name :: "js_string \<Rightarrow> js_string" where
  "first_name s = hd (js_split 32 s)"

definition last_name :: "js_string \<Rightarrow> js_string" where
  "last_name s = js_join 32 (tl (js_split 32 s))"

section \<open>State and handlers\<close>

record settings_state =
  emailNotifications :: bool
  pushNotifications :: bool
  autoAssign :: bool
  theme :: js_string

definition initial_settings :: settings_state where
  "initial_settings =
     \<lparr>emailNotifications = True, pushNotifications = False, autoAssign = True, theme = js ''light''\<rparr>"

record team_member =
  member_id :: js_string
  member_name :: js_string
  member_email :: js_string
  role :: js_string

definition teamMembers :: "team_member list" where
  "teamMembers =
     [\<lparr>member_id = js ''1'', member_name = js ''Carlos Oliveira'',
       member_email = js ''carlos.oliveira@grupolgh.com.br'', role = js ''Administrador''\<rparr>,
      \<lparr>member_id = js ''2'', member_name = js ''Paula Fernandes'',
       member_email = js ''paula.fernandes@grupolgh.com.br'', role = js ''T'' @ [233] @ js ''cnico''\<rparr>,
      \<lparr>member_id = js ''3'', member_name = js ''Roberto Costa'',
       member_email = js ''roberto.costa@grupolgh.com.br'', role = js ''T'' @ [233] @ js ''cnico''\<rparr>]"

text \<open>The values of the theme select (lines 268--272): \<open>onValueChange\<close> only ever
  passes one of them.\<close>

definition theme_options :: "js_string list" where
  "theme_options = [js ''light'', js ''dark'', js ''auto'']"

definition profile_alert :: js_string where
  "profile_alert = js ''Perfil atualizado com sucesso!''"

definition notifications_alert :: js_string where
  "notifications_alert = js ''Prefer'' @ [234] @ js ''ncias de notifica'' @ [231, 227] @ js ''o atualizadas!''"

datatype settings_event =
    SetEmailNotifications bool
  | SetPushNotifications bool
  | SetAutoAssign bool
  | SetTheme js_string
  | SaveProfile
  | SaveNotifications

text \<open>One event on the page: the new state and the text of the \<open>alert\<close> it raises, or
  \<open>None\<close> when the page offers no such event.\<close>

fun settings_step :: "settings_state \<Rightarrow> settings_event \<Rightarrow> (settings_state \<times> js_string option) option" where
  "settings_step st (SetEmailNotifications b) = Some (st\<lparr>emailNotifications := b\<rparr>, None)"
| "settings_step st (SetPushNotifications b) = Some (st\<lparr>pushNotifications := b\<rparr>, None)"
| "settings_step st (SetAutoAssign b) = Some (st\<lparr>autoAssign := b\<rparr>, None)"
| "settings_step st (SetTheme v) =
     (if v \<in> set theme_options then Some (st\<lparr>theme := v\<rparr>, None) else None)"
| "settings_step st SaveProfile = Some (st, Some profile_alert)"
| "settings_step st SaveNotifications = Some (st, Some notifications_alert)"

text \<open>A sequence of events from a state: the final state and the alerts in order.\<close>

fun settings_run :: "settings_state \<Rightarrow> settings_event list \<Rightarrow> (settings_state \<times> js_string list) option" where
  "settings_run st [] = Some (st, [])"
| "settings_run st (e # es) =
     (case settings_step st e of
        None \<Rightarrow> None
      | Some (st', a) \<Rightarrow>
          map_option (\<lambda>(st'', as). (st'', (case a of Some m \<Rightarrow> [m] | None \<Rightarrow> []) @ as))
            (settings_run st' es))"

text \<open>What the page shows of its user and state.\<close>

record settings_view =
  profile_avatar :: js_string
  first_name_field :: js_string
  last_name_field :: js_string
  email_field :: js_string
  switches :: "bool \<times> bool \<times> bool"
  member_rows :: "(js_string \<times> js_string \<times> js_string \<times> js_string) list"
  theme_value :: js_string

definition settings_render :: "js_string \<Rightarrow> js_string \<Rightarrow> settings_state \<Rightarrow> settings_view" where
  "settings_render un ue st =
     \<lparr>profile_avatar = toUpperCase (name_initials un), first_name_field = first_name un,
      last_name_field = last_name un, email_field = ue,
      switches = (emailNotifications st, pushNotifications st, autoAssign st),
      member_rows = map (\<lambda>m. (name_initials (member_name m), member_name m, member_email m, role m))
                      teamMembers,
      theme_value = theme st\<rparr>"

section \<open>Tabs and uncontrolled selects\<close>

text \<open>The page's \<open>Tabs\<close> (lines 48--66) and the selects that keep their own value: the
  department in the profile tab (124--134), the language and the time zone in the system
  tab (280--289, 296--305). Their value lives inside the widget, and the content of an
  inactive tab is unmounted, so a select starts again from its \<open>defaultValue\<close> whenever
  its tab is shown anew; the theme select (264--273) is bound to the page's \<open>theme\<close>
  state instead. The system tab's Salvar (save settings) button (309--312) has no
  handler.\<close>

datatype settings_tab = TabProfile | TabNotifications | TabTeam | TabSystem

definition settings_tabs :: "(settings_tab \<times> js_string) list" where
  "settings_tabs =
     [(TabProfile, js ''Perfil''), (TabNotifications, js ''Notifica'' @ [231, 245] @ js ''es''),
      (TabTeam, js ''Equipe''), (TabSystem, js ''Sistema'')]"

definition department_options :: "(js_string \<times> js_string) list" where
  "department_options =
     [(js ''ti'', js ''Tecnologia da Informa'' @ [231, 227] @ js ''o''),
      (js ''rh'', js ''Recursos Humanos''), (js ''financeiro'', js ''Financeiro''),
      (js ''operacoes'', js ''Opera'' @ [231, 245] @ js ''es'')]"

definition theme_items :: "(js_string \<times> js_string) list" where
  "theme_items =
     [(js ''light'', js ''Claro''), (js ''dark'', js ''Escuro''), (js ''auto'', js ''Autom'' @ [225] @ js ''tico'')]"

definition language_options :: "(js_string \<times> js_string) list" where
  "language_options =
     [(js ''pt-br'', js ''Portugu'' @ [234] @ js ''s (Brasil)''), (js ''en'', js ''English''),
      (js ''es'', js ''Espa'' @ [241] @ js ''ol'')]"

definition timezone_options :: "(js_string \<times> js_string) list" where
  "timezone_options =
     [(js ''america-sao-paulo'', js ''Am'' @ [233] @ js ''rica/S'' @ [227] @ js ''o Paulo (UTC-3)''),
      (js ''america-new-york'', js ''Am'' @ [233] @ js ''rica/New York (UTC-5)''),
      (js ''europe-london'', js ''Europa/Londres (UTC+0)'')]"

text \<open>The widgets' state: the active tab, and each select's value while its tab is
  mounted (\<open>None\<close> while it is not).\<close>

record settings_widgets =
  sw_tab :: settings_tab
  sw_department :: "js_string option"
  sw_language :: "js_string option"
  sw_timezone :: "js_string option"

definition mount_tab :: "settings_tab \<Rightarrow> settings_widgets" where
  "mount_tab t =
     \<lparr>sw_tab = t, sw_department = (if t = TabProfile then Some (js ''ti'') else None),
      sw_language = (if t = TabSystem then Some (js ''pt-br'') else None),
      sw_timezone = (if t = TabSystem then Some (js ''america-sao-paulo'') else None)\<rparr>"

definition initial_widgets :: settings_widgets where
  "initial_widgets = mount_tab TabProfile"

datatype widget_event =
    SelectSettingsTab settings_tab
  | SelectDepartment js_string
  | SelectLanguage js_string
  | SelectTimezone js_string
  | SaveSystem

text \<open>A select offers only its items, and only while its tab is shown.\<close>

definition select_in :: "(js_string \<times> js_string) list \<Rightarrow> js_string option \<Rightarrow> js_string \<Rightarrow> bool" where
  "select_in items cur v \<longleftrightarrow> cur \<noteq> None \<and> v \<in> set (map fst items)"

fun widgets_step :: "settings_widgets \<Rightarrow> widget_event \<Rightarrow> settings_widgets option" where
  "widgets_step w (SelectSettingsTab t) = Some (if t = sw_tab w then w else mount_tab t)"
| "widgets_step w (SelectDepartment v) =
     (if select_in department_options (sw_department w) v then Some (w\<lparr>sw_department := Some v\<rparr>) else None)"
| "widgets_step w (SelectLanguage v) =
     (if select_in language_options (sw_language w) v then Some (w\<lparr>sw_language := Some v\<rparr>) else None)"
| "widgets_step w (SelectTimezone v) =
     (if select_in timezone_options (sw_timezone w) v then Some (w\<lparr>sw_timezone := Some v\<rparr>) else None)"
| "widgets_step w SaveSystem = (if sw_tab w = TabSystem then Some w else None)"

fun widgets_run :: "settings_widgets \<Rightarrow> widget_event list \<Rightarrow> settings_widgets option" where
  "widgets_run w [] = Some w"
| "widgets_run w (e # es) = (case widgets_step w e of None \<Rightarrow> None | Some w' \<Rightarrow> widgets_run w' es)"

inductive widgets_reachable :: "settings_widgets \<Rightarrow> bool" where
  start: "widgets_reachable initial_widgets"
| step: "widgets_reachable w \<Longrightarrow> widgets_step w e = Some w' \<Longrightarrow> widgets_reachable w'"

text \<open>What the system tab shows: the three selects' labels.\<close>

record system_view =
  sys_theme :: js_string
  sys_language :: js_string
  sys_timezone :: js_string

definition system_render :: "settings_state \<Rightarrow> settings_widgets \<Rightarrow> system_view option" where
  "system_render st w =
     (case (sw_language w, sw_timezone w) of
        (Some l, Some z) \<Rightarrow>
          Some \<lparr>sys_theme = select_label theme_items (theme st),
                sys_language = select_label language_options l,
                sys_timezone = select_label timezone_options z\<rparr>
      | _ \<Rightarrow> None)"

definition widgets_inv :: "settings_widgets \<Rightarrow> bool" where
  "widgets_inv w \<longleftrightarrow>
     (sw_department w \<noteq> None \<longleftrightarrow> sw_tab w = TabProfile) \<and>
     (sw_language w \<noteq> None \<longleftrightarrow> sw_tab w = TabSystem) \<and>
     (sw_timezone w \<noteq> None \<longleftrightarrow> sw_tab w = TabSystem) \<and>
     pred_option (\<lambda>v. v \<in> set (map fst department_options)) (sw_department w) \<and>
     pred_option (\<lambda>v. v \<in> set (map fst language_options)) (sw_language w) \<and>
     pred_option (\<lambda>v. v \<in> set (map fst timezone_options)) (sw_timezone w)"

declare to_upper_units_def [eval_simps] toUpperCase_def [eval_simps] name_initials_def [eval_simps]
  first_name_def [eval_simps] last_name_def [eval_simps] initial_settings_def [eval_simps]
  teamMembers_def [eval_simps] theme_options_def [eval_simps] settings_render_def [eval_simps]
  settings_tabs_def [eval_simps] department_options_def [eval_simps] theme_items_def [eval_simps]
  language_options_def [eval_simps] timezone_options_def [eval_simps] mount_tab_def [eval_simps]
  initial_widgets_def [eval_simps] select_in_def [eval_simps]
  system_render_def [eval_simps]

section \<open>Names\<close>

lemma concat_take1: "concat (map (take 1) ps) = map hd (filter (\<lambda>p. p \<noteq> []) ps)"
proof (induction ps)
  case (Cons p ps)
  then show ?case by (cases p) simp_all
qed simp

lemma tl_js_split_Nil_iff: "tl (js_split sep s) = [] \<longleftrightarrow> sep \<notin> set s"
proof -
  have "length (tl (js_split sep s)) = count_list s sep" by simp
  then show ?thesis by (metis count_list_0_iff length_0_conv)
qed

lemma js_join_hd_tl:
  "ps \<noteq> [] \<Longrightarrow> js_join sep ps = (if tl ps = [] then hd ps else hd ps @ sep # js_join sep (tl ps))"
  by (cases ps; cases "tl ps") auto

lemma length_to_upper_units: "length (to_upper_units c) = (if unat c = 223 then 2 else 1)"
  by (simp add: to_upper_units_def Let_def)

lemma length_toUpperCase: "length (toUpperCase s) = length s + count_list s 223"
proof (induction s)
  case (Cons c s)
  have "unat c = 223 \<longleftrightarrow> c = 223"
    by (simp add: word_unat_eq_iff)
  with Cons show ?case by (simp add: toUpperCase_def length_to_upper_units)
qed (simp add: toUpperCase_def)

text \<open>C35: the profile tab's two fields, \<open>Nome\<close> (\<open>split(' ')[0]\<close>) and \<open>Sobrenome\<close>
  (\<open>split(' ').slice(1).join(' ')\<close>), give the user's name back: the first name, and
  when the name has a space, a space and the last name.\<close>

theorem profile_fields_roundtrip:
  "first_name s @ (if 32 \<in> set s then 32 # last_name s else []) = s"
proof -
  let ?ps = "js_split 32 s"
  have "js_join 32 ?ps = s" by (rule js_join_split)
  then have "s = (if tl ?ps = [] then hd ?ps else hd ?ps @ 32 # js_join 32 (tl ?ps))"
    using js_join_hd_tl [of ?ps 32] by simp
  then show ?thesis
    by (simp add: first_name_def last_name_def tl_js_split_Nil_iff split: if_splits)
qed

section \<open>Theme\<close>

lemma settings_step_theme:
  "settings_step st e = Some (st', a) \<Longrightarrow> theme st \<in> set theme_options \<Longrightarrow> theme st' \<in> set theme_options"
  by (cases e) (auto split: if_splits)

lemma settings_run_theme:
  "settings_run st es = Some (st', al) \<Longrightarrow> theme st \<in> set theme_options \<Longrightarrow> theme st' \<in> set theme_options"
proof (induction es arbitrary: st al)
  case (Cons e es)
  then obtain st1 a al1 where s1: "settings_step st e = Some (st1, a)"
    and r: "settings_run st1 es = Some (st', al1)"
    by (auto split: option.splits prod.splits)
  show ?case using Cons.IH [OF r settings_step_theme [OF s1 Cons.prems(2)]] .
qed simp

text \<open>C34: the \<open>theme\<close> state, a plain string, keeps the type of the select it is bound
  to: after any sequence of events on the page it is one of \<open>light\<close>, \<open>dark\<close> and
  \<open>auto\<close>.\<close>

theorem settings_theme_type:
  assumes "settings_run initial_settings es = Some (st, alerts)"
  shows "theme st \<in> set theme_options"
  using settings_run_theme [OF assms] by (simp add: initial_settings_def theme_options_def)


lemma theme_items_values: "map fst theme_items = theme_options"
  by (simp add: theme_items_def theme_options_def)

section \<open>Tabs and selects\<close>

lemma widgets_inv_mount: "widgets_inv (mount_tab t)"
  by (cases t) (simp_all add: widgets_inv_def mount_tab_def eval_simps)

lemma widgets_inv_step:
  assumes "widgets_inv w" and "widgets_step w e = Some w'"
  shows "widgets_inv w'"
proof (cases e)
  case (SelectSettingsTab t)
  then show ?thesis using assms by (auto simp: widgets_inv_mount split: if_splits)
qed (insert assms, (auto simp: widgets_inv_def select_in_def split: if_splits; force)+)

lemma widgets_reachable_inv: "widgets_reachable w \<Longrightarrow> widgets_inv w"
  by (induction rule: widgets_reachable.induct)
     (auto simp: initial_widgets_def widgets_inv_mount intro: widgets_inv_step)

text \<open>The system tab is shown exactly when it is the active tab, and then each of its three
  selects shows the label of one of its items: the theme's, because the page's \<open>theme\<close>
  state is one of the theme values, and the language's and time zone's, because the
  widgets only take the values they list.\<close>

theorem system_render_labels:
  assumes "widgets_reachable w" and "theme st \<in> set theme_options"
  shows "(\<exists>v. system_render st w = Some v) \<longleftrightarrow> sw_tab w = TabSystem"
    and "system_render st w = Some v \<Longrightarrow>
         sys_theme v \<in> set (map snd theme_items) \<and> sys_language v \<in> set (map snd language_options) \<and>
         sys_timezone v \<in> set (map snd timezone_options)"
proof -
  have inv: "widgets_inv w" using assms(1) by (rule widgets_reachable_inv)
  show "(\<exists>v. system_render st w = Some v) \<longleftrightarrow> sw_tab w = TabSystem"
    using inv by (auto simp: system_render_def widgets_inv_def split: option.splits)
  assume r: "system_render st w = Some v"
  then obtain l z where l: "sw_language w = Some l" and z: "sw_timezone w = Some z"
    and v: "v = \<lparr>sys_theme = select_label theme_items (theme st),
                 sys_language = select_label language_options l,
                 sys_timezone = select_label timezone_options z\<rparr>"
    by (auto simp: system_render_def split: option.splits)
  have "l \<in> set (map fst language_options)" "z \<in> set (map fst timezone_options)"
    using inv l z by (simp_all add: widgets_inv_def)
  moreover have "theme st \<in> set (map fst theme_items)"
    using assms(2) by (simp add: theme_items_values)
  ultimately show "sys_theme v \<in> set (map snd theme_items) \<and> sys_language v \<in> set (map snd language_options) \<and>
         sys_timezone v \<in> set (map snd timezone_options)"
    by (simp add: v select_label_mem)
qed

text \<open>The choices made in the system tab are lost when the user looks at another tab:
  choosing English and London, opening the team tab and coming back shows Portuguese and
  Sao Paulo again, and the tab's save button, having no handler, never kept them.\<close>

lemma language_forgotten:
  "widgets_run initial_widgets
     [SelectSettingsTab TabSystem, SelectLanguage (js ''en''), SelectTimezone (js ''europe-london''),
      SelectSettingsTab TabTeam, SelectSettingsTab TabSystem] =
   Some (mount_tab TabSystem) \<and>
   sw_language (mount_tab TabSystem) = Some (js ''pt-br'')"
  by (simp add: eval_simps)

text \<open>C16: the system tab's language and time zone live only while the tab is shown:
  from any state of the widgets, whatever was chosen, a click on another tab and a click
  back on \<open>Sistema\<close> show Portuguese and Sao Paulo again.\<close>

theorem system_choices_reset:
  assumes "t \<noteq> TabSystem"
  shows "\<exists>w'. widgets_run w [SelectSettingsTab t, SelectSettingsTab TabSystem] = Some w' \<and>
              sw_tab w' = TabSystem \<and> sw_language w' = Some (js ''pt-br'') \<and>
              sw_timezone w' = Some (js ''america-sao-paulo'')"
  using assms by (cases "sw_tab w = t") (auto simp: mount_tab_def)

end
