(* ===== verification/Reports.thy ===== *)
theory Reports
  imports Tickets Complex_Main
begin

text \<open>
  The reports page of \<open>src/src/components/reports-page.tsx\<close>. It has no state of its
  own: three fixed data series (\<open>ticketsByDay\<close>, \<open>ticketsByCategory\<close>,
  \<open>responseTime\<close>, lines 10--32), the colour table (34), four key figures written into
  the markup (lines 72, 86, 100, 114), a status breakdown with counts and percentages
  (192--232), a pie chart labelled \<open>`${name} ${(percent * 100).toFixed(0)}%`\<close> (169) and
  one progress bar per category of width \<open>(category.value / 135) * 100\<close> per cent (288).
  JavaScript numbers are modelled as rationals, which is exact for these inputs up to the
  rounding of \<open>toFixed\<close>; the chart library passes a slice's share of the sum of the
  values as \<open>percent\<close>, and \<open>toFixed(0)\<close> of a non-negative number rounds half up.
  The page's rendered content is \<open>reports_render\<close>: the period select's label, the four
  key-figure cards (66--120), the tab triggers and the content of the active tab, whose
  value, like the period's, lives in an uncontrolled widget (\<open>reports_state\<close>, changed by
  \<open>reports_step\<close>). The lemmas check the figures written by hand against the series they
  summarise and the rendered page against the series in every reachable state.
\<close>

record day_row =
  day_label :: js_string
  abertos :: nat
  resolvidos :: nat

definition ticketsByDay :: "day_row list" where
  "ticketsByDay =
     [\<lparr>day_label = js ''Seg'', abertos = 12, resolvidos = 8\<rparr>,
      \<lparr>day_label = js ''Ter'', abertos = 15, resolvidos = 10\<rparr>,
      \<lparr>day_label = js ''Qua'', abertos = 8, resolvidos = 12\<rparr>,
      \<lparr>day_label = js ''Qui'', abertos = 18, resolvidos = 14\<rparr>,
      \<lparr>day_label = js ''Sex'', abertos = 20, resolvidos = 16\<rparr>]"

record category_row =
  cat_name :: js_string
  cat_value :: nat

definition ticketsByCategory :: "category_row list" where
  "ticketsByCategory =
     [\<lparr>cat_name = js ''Hardware'', cat_value = 30\<rparr>, \<lparr>cat_name = js ''Software'', cat_value = 45\<rparr>,
      \<lparr>cat_name = js ''Rede'', cat_value = 20\<rparr>, \<lparr>cat_name = js ''Email'', cat_value = 15\<rparr>,
      \<lparr>cat_name = js ''Acesso'', cat_value = 25\<rparr>]"

record response_row =
  month_label :: js_string
  tempo :: rat

definition responseTime :: "response_row list" where
  "responseTime =
     [\<lparr>month_label = js ''Jul'', tempo = 42 / 10\<rparr>, \<lparr>month_label = js ''Ago'', tempo = 38 / 10\<rparr>,
      \<lparr>month_label = js ''Set'', tempo = 35 / 10\<rparr>, \<lparr>month_label = js ''Out'', tempo = 32 / 10\<rparr>,
      \<lparr>month_label = js ''Nov'', tempo = 29 / 10\<rparr>]"

definition COLORS :: "js_string list" where
  "COLORS = [js ''#3b82f6'', js ''#10b981'', js ''#f59e0b'', js ''#ef4444'', js ''#8b5cf6'']"

text \<open>\<open>COLORS[index % COLORS.length]\<close> (lines 175 and 289).\<close>

definition cell_color :: "nat \<Rightarrow> js_string" where
  "cell_color i = COLORS ! (i mod length COLORS)"

text \<open>The key figures that summarise a series: the mean response time in hours (line 72)
  and the open tickets (line 100); the resolution rate and the satisfaction score have no
  series behind them.\<close>

definition kpi_response_time :: rat where
  "kpi_response_time = 29 / 10"

definition kpi_open_tickets :: nat where
  "kpi_open_tickets = 73"

record status_row =
  status_label :: js_string
  status_count :: nat
  shown_percent :: rat

definition status_rows :: "status_row list" where
  "status_rows =
     [\<lparr>status_label = js ''Abertos'', status_count = 23, shown_percent = 315 / 10\<rparr>,
      \<lparr>status_label = js ''Em Andamento'', status_count = 18, shown_percent = 247 / 10\<rparr>,
      \<lparr>status_label = js ''Resolvidos'', status_count = 28, shown_percent = 384 / 10\<rparr>,
      \<lparr>status_label = js ''Fechados'', status_count = 4, shown_percent = 55 / 10\<rparr>]"

definition toFixed0 :: "rat \<Rightarrow> nat" where
  "toFixed0 x = nat \<lfloor>x + 1 / 2\<rfloor>"

definition pie_percent :: "category_row list \<Rightarrow> category_row \<Rightarrow> rat" where
  "pie_percent cs c = of_nat (cat_value c) / of_nat (sum_list (map cat_value cs))"

definition pie_label :: "category_row list \<Rightarrow> category_row \<Rightarrow> js_string" where
  "pie_label cs c = cat_name c @ [32] @ num_toString (toFixed0 (pie_percent cs c * 100)) @ [37]"

definition category_bar_width :: "category_row \<Rightarrow> rat" where
  "category_bar_width c = of_nat (cat_value c) / 135 * 100"

text \<open>A percentage rounded to one decimal, as the status breakdown writes it.\<close>

definition round1 :: "rat \<Rightarrow> rat" where
  "round1 x = of_int \<lfloor>10 * x + 1 / 2\<rfloor> / 10"

declare ticketsByDay_def [eval_simps] ticketsByCategory_def [eval_simps] responseTime_def [eval_simps]
  COLORS_def [eval_simps] cell_color_def [eval_simps] status_rows_def [eval_simps]
  toFixed0_def [eval_simps] pie_percent_def [eval_simps] pie_label_def [eval_simps]
  category_bar_width_def [eval_simps] round1_def [eval_simps]

section \<open>The rendered page\<close>

text \<open>The header's period select (lines 46--56): its items as value and label, and the
  value it starts with. The select and the tabs (123--128) are uncontrolled: the value
  lives inside the widget while the page is mounted and changes only to one of its
  items. The \<open>Exportar\<close> button (57--60) has no handler.\<close>

definition period_options :: "(js_string \<times> js_string) list" where
  "period_options =
     [(js ''last-7-days'', [218] @ js ''ltimos 7 dias''), (js ''last-30-days'', [218] @ js ''ltimos 30 dias''),
      (js ''last-90-days'', [218] @ js ''ltimos 90 dias''), (js ''this-year'', js ''Este ano'')]"

datatype reports_tab = RtOverview | RtPerformance | RtCategories

definition reports_tabs :: "(reports_tab \<times> js_string) list" where
  "reports_tabs =
     [(RtOverview, js ''Vis'' @ [227] @ js ''o Geral''), (RtPerformance, js ''Performance''),
      (RtCategories, js ''Categorias'')]"

record reports_state =
  rp_period :: js_string
  rp_tab :: reports_tab

definition initial_reports :: reports_state where
  "initial_reports = \<lparr>rp_period = js ''last-30-days'', rp_tab = RtOverview\<rparr>"

datatype reports_event = SelectPeriod js_string | SelectReportsTab reports_tab | ClickExport

fun reports_step :: "reports_state \<Rightarrow> reports_event \<Rightarrow> reports_state option" where
  "reports_step s (SelectPeriod v) =
     (if v \<in> set (map fst period_options) then Some (s\<lparr>rp_period := v\<rparr>) else None)"
| "reports_step s (SelectReportsTab t) = Some (s\<lparr>rp_tab := t\<rparr>)"
| "reports_step s ClickExport = Some s"

inductive reports_reachable :: "reports_state \<Rightarrow> bool" where
  start: "reports_reachable initial_reports"
| step: "reports_reachable s \<Longrightarrow> reports_step s e = Some s' \<Longrightarrow> reports_reachable s'"

text \<open>The four key-figure cards (lines 66--120): title, figure, change against the previous
  month and the direction of the trend icon beside the change.\<close>

datatype trend = TrendUp | TrendDown

record kpi_card =
  kpi_title :: js_string
  kpi_value :: js_string
  kpi_change :: js_string
  kpi_trend :: trend

definition kpi_cards :: "kpi_card list" where
  "kpi_cards =
     [\<lparr>kpi_title = js ''Tempo M'' @ [233] @ js ''dio de Resposta'', kpi_value = js ''2.9 horas'',
       kpi_change = js ''-12% vs m'' @ [234] @ js ''s anterior'', kpi_trend = TrendDown\<rparr>,
      \<lparr>kpi_title = js ''Taxa de Resolu'' @ [231, 227] @ js ''o'', kpi_value = js ''87%'',
       kpi_change = js ''+5% vs m'' @ [234] @ js ''s anterior'', kpi_trend = TrendUp\<rparr>,
      \<lparr>kpi_title = js ''Chamados Abertos'', kpi_value = js ''73'',
       kpi_change = js ''+8% vs m'' @ [234] @ js ''s anterior'', kpi_trend = TrendUp\<rparr>,
      \<lparr>kpi_title = js ''Satisfa'' @ [231, 227] @ js ''o do Cliente'', kpi_value = js ''4.6/5.0'',
       kpi_change = js ''+0.3 vs m'' @ [234] @ js ''s anterior'', kpi_trend = TrendUp\<rparr>]"

text \<open>A row of the categories tab (lines 278--294): name, \<open>{category.value} chamados\<close>,
  the bar's width in per cent and its colour.\<close>

record category_detail =
  cd_name :: js_string
  cd_count :: js_string
  cd_width :: rat
  cd_color :: js_string

definition category_details :: "category_detail list" where
  "category_details =
     map (\<lambda>(i, c). \<lparr>cd_name = cat_name c, cd_count = num_toString (cat_value c) @ js '' chamados'',
                    cd_width = category_bar_width c, cd_color = cell_color i\<rparr>)
       (enumerate 0 ticketsByCategory)"

text \<open>What each tab shows: the overview's bar chart of \<open>ticketsByDay\<close> (lines 139--149),
  the pie's slices with their labels and colours (162--180) and the status breakdown
  (184--235); the performance tab's line chart of \<open>responseTime\<close> (248--263); the
  categories tab's rows.\<close>

datatype reports_content =
    OverviewContent "day_row list" "(js_string \<times> js_string) list" "status_row list"
  | PerformanceContent "response_row list"
  | CategoriesContent "category_detail list"

definition pie_slices :: "(js_string \<times> js_string) list" where
  "pie_slices =
     map (\<lambda>(i, c). (pie_label ticketsByCategory c, cell_color i)) (enumerate 0 ticketsByCategory)"

primrec tab_content :: "reports_tab \<Rightarrow> reports_content" where
  "tab_content RtOverview = OverviewContent ticketsByDay pie_slices status_rows"
| "tab_content RtPerformance = PerformanceContent responseTime"
| "tab_content RtCategories = CategoriesContent category_details"

record reports_view =
  rv_period :: js_string
  rv_kpis :: "kpi_card list"
  rv_tabs :: "(js_string \<times> bool) list"
  rv_content :: reports_content

definition reports_render :: "reports_state \<Rightarrow> reports_view" where
  "reports_render s =
     \<lparr>rv_period = (case map_of period_options (rp_period s) of Some l \<Rightarrow> l | None \<Rightarrow> []),
      rv_kpis = kpi_cards,
      rv_tabs = map (\<lambda>(t, l). (l, rp_tab s = t)) reports_tabs,
      rv_content = tab_content (rp_tab s)\<rparr>"

declare period_options_def [eval_simps] reports_tabs_def [eval_simps] initial_reports_def [eval_simps]
  kpi_cards_def [eval_simps] category_details_def [eval_simps] pie_slices_def [eval_simps]
  reports_render_def [eval_simps]

lemma floor_numeral_frac: "\<lfloor>(numeral a / numeral b :: rat)\<rfloor> = numeral a div numeral b"
  using floor_divide_of_int_eq [of "numeral a" "numeral b", where 'a = rat] by simp

text \<open>The figures written by hand agree with the series they summarise: the
  denominator 135 of the category bars is the sum of the category values, so the bars'
  widths add up to 100 per cent; the pie's labels are \<open>Hardware 22%\<close>, \<open>Software 33%\<close>,
  \<open>Rede 15%\<close>, \<open>Email 11%\<close> and \<open>Acesso 19%\<close>; every percentage of the status
  breakdown is its count over the breakdown's total, rounded to one decimal; and the
  response-time figure is the last month of its series. The open-tickets figure (73) is the
  number of tickets opened during the week, not the breakdown's 23 open tickets.\<close>

theorem reports_figures_consistent:
  "sum_list (map category_bar_width ticketsByCategory) = 100 \<and>
   map (pie_label ticketsByCategory) ticketsByCategory =
     [js ''Hardware 22%'', js ''Software 33%'', js ''Rede 15%'', js ''Email 11%'', js ''Acesso 19%''] \<and>
   map (\<lambda>r. round1 (of_nat (status_count r) * 100 / of_nat (sum_list (map status_count status_rows))))
       status_rows = map shown_percent status_rows \<and>
   kpi_response_time = tempo (last responseTime) \<and>
   kpi_open_tickets = sum_list (map abertos ticketsByDay) \<and>
   kpi_open_tickets \<noteq> status_count (hd status_rows)"
proof (intro conjI)
  show "sum_list (map category_bar_width ticketsByCategory) = 100"
    by (simp add: eval_simps)
  show "map (pie_label ticketsByCategory) ticketsByCategory =
     [js ''Hardware 22%'', js ''Software 33%'', js ''Rede 15%'', js ''Email 11%'', js ''Acesso 19%'']"
    by (simp add: eval_simps floor_numeral_frac)
  show "map (\<lambda>r. round1 (of_nat (status_count r) * 100 / of_nat (sum_list (map status_count status_rows))))
       status_rows = map shown_percent status_rows"
    by (simp add: eval_simps floor_eq_iff)
qed (simp_all add: eval_simps kpi_response_time_def kpi_open_tickets_def)

lemma reports_reachable_period:
  "reports_reachable s \<Longrightarrow> rp_period s \<in> set (map fst period_options)"
proof (induction rule: reports_reachable.induct)
  case start
  then show ?case by (simp add: eval_simps)
next
  case (step s e s')
  then show ?case by (cases e) (auto split: if_splits intro: rev_image_eqI)
qed

lemma period_label_shown:
  "p \<in> set (map fst period_options) \<Longrightarrow>
   (case map_of period_options p of Some l \<Rightarrow> l | None \<Rightarrow> []) \<in> set (map snd period_options)"
  by (auto simp: eval_simps)

lemma one_tab_active: "length (filter snd (map (\<lambda>(t, l). (l, x = t)) reports_tabs)) = 1"
  by (cases x) (simp_all add: reports_tabs_def)

lemma category_details_rows:
  "map cd_name category_details = map cat_name ticketsByCategory \<and>
   sum_list (map cd_width category_details) = 100 \<and>
   distinct (map cd_color category_details)"
  by (simp add: eval_simps)

lemma pie_slices_shown:
  "pie_slices = [(js ''Hardware 22%'', js ''#3b82f6''), (js ''Software 33%'', js ''#10b981''),
     (js ''Rede 15%'', js ''#f59e0b''), (js ''Email 11%'', js ''#ef4444''), (js ''Acesso 19%'', js ''#8b5cf6'')]"
  by (simp add: eval_simps floor_numeral_frac)

text \<open>The response-time card says \<open>-12%\<close> against the previous month, but its own series goes
  from 3.2 to 2.9 hours between the last two months, a change of \<open>-3/32\<close>, about \<open>-9.4%\<close>.\<close>

lemma kpi_change_not_series:
  "kpi_change (hd kpi_cards) = js ''-12% vs m'' @ [234] @ js ''s anterior'' \<and>
   tempo (responseTime ! 4) / tempo (responseTime ! 3) - 1 = - 3 / 32"
  by (simp add: eval_simps)

lemma tab_content_consistent:
  "case tab_content t of
     OverviewContent days slices rows \<Rightarrow>
       days = ticketsByDay \<and>
       map fst slices = [js ''Hardware 22%'', js ''Software 33%'', js ''Rede 15%'',
                         js ''Email 11%'', js ''Acesso 19%''] \<and>
       distinct (map snd slices) \<and>
       map (\<lambda>r. round1 (of_nat (status_count r) * 100 / of_nat (sum_list (map status_count rows))))
         rows = map shown_percent rows
   | PerformanceContent rs \<Rightarrow> kpi_response_time = tempo (last rs)
   | CategoriesContent cs \<Rightarrow>
       map cd_name cs = map cat_name ticketsByCategory \<and>
       sum_list (map cd_width cs) = 100 \<and> distinct (map cd_color cs)"
proof (cases t)
  case RtOverview
  then show ?thesis
    using reports_figures_consistent by (simp add: pie_slices_shown)
next
  case RtPerformance
  then show ?thesis
    using reports_figures_consistent by simp
next
  case RtCategories
  then show ?thesis
    using category_details_rows by simp
qed

text \<open>Whatever the user selects, the reports page shows one of the period select's
  labels, exactly one active tab and the four key figures, and the tab shown is
  consistent with the data series: the overview's pie slices are labelled
  \<open>Hardware 22%\<close>, \<open>Software 33%\<close>, \<open>Rede 15%\<close>, \<open>Email 11%\<close>, \<open>Acesso 19%\<close> in distinct
  colours and every percentage of its status breakdown is the count over the total,
  rounded to one decimal; the performance tab's series ends at the response-time figure;
  and the categories tab lists the categories in order, in distinct colours, with bar
  widths adding up to 100 per cent.\<close>

lemma reports_render_consistent:
  assumes "reports_reachable s"
  shows "rv_period (reports_render s) \<in> set (map snd period_options) \<and>
         length (filter snd (rv_tabs (reports_render s))) = 1 \<and>
         rv_kpis (reports_render s) = kpi_cards \<and>
         (case rv_content (reports_render s) of
            OverviewContent days slices rows \<Rightarrow>
              days = ticketsByDay \<and>
              map fst slices = [js ''Hardware 22%'', js ''Software 33%'', js ''Rede 15%'',
                                js ''Email 11%'', js ''Acesso 19%''] \<and>
              distinct (map snd slices) \<and>
              map (\<lambda>r. round1 (of_nat (status_count r) * 100 / of_nat (sum_list (map status_count rows))))
                rows = map shown_percent rows
          | PerformanceContent rs \<Rightarrow> kpi_response_time = tempo (last rs)
          | CategoriesContent cs \<Rightarrow>
              map cd_name cs = map cat_name ticketsByCategory \<and>
              sum_list (map cd_width cs) = 100 \<and> distinct (map cd_color cs))"
proof -
  have p: "rp_period s \<in> set (map fst period_options)"
    using assms by (rule reports_reachable_period)
  show ?thesis
    using period_label_shown [OF p] one_tab_active [of "rp_tab s"] tab_content_consistent [of "rp_tab s"]
    by (simp add: reports_render_def)
qed

end
