(* ===== verification/Layout.thy ===== *)
theory Layout
  imports TicketsPage Settings Reports Validator
begin

text \<open>
  The signed-in shell, \<open>MainLayout\<close> of \<open>src/src/components/main-layout-old.tsx\<close> (the
  only main layout of the repository; \<open>App.tsx\<close> imports it as
  \<open>./components/main-layout\<close>). Its state is \<open>currentPage\<close> (line 27); the three
  navigation buttons and the drop-down's settings item set it (lines 57, 87,
  109), and the main area mounts the page it names (123--125). A React component keeps
  its \<open>useState\<close> only while it stays mounted, so the state of the tickets page and of
  the settings page lives in \<open>tickets_page\<close> and \<open>settings_page\<close> exactly while that page
  is shown, and a page mounted again starts from its initial state; setting the page that
  is already shown changes nothing. Every render computes the avatar's initials with
  \<open>user.name.split(' ')\<close> (line 73), which throws a \<open>TypeError\<close> when the name is not a
  string: \<open>layout_mount\<close> is \<open>None\<close> then. The \<open>Sair\<close> item calls the \<open>onLogout\<close> of
  \<open>App\<close>, modelled as \<open>AppLogout\<close> in the Login theory. The lemmas show that the mounted
  pages are reachable states of their own models, so their invariants hold inside the
  layout, and that leaving the tickets page discards the tickets created on it.
\<close>

datatype layout_page = PageTickets | PageReports | PageSettings

definition navigation :: "(layout_page \<times> js_string) list" where
  "navigation =
     [(PageTickets, js ''Chamados''), (PageReports, js ''Relat'' @ [243] @ js ''rios''),
      (PageSettings, js ''Configura'' @ [231, 245] @ js ''es'')]"

record layout_state =
  lay_name :: js_string
  lay_email :: js_string
  currentPage :: layout_page
  tickets_page :: "page_state option"
  settings_page :: "settings_state option"
  alerts :: "js_string list"

text \<open>The first render for a signed-in user.\<close>

definition layout_mount :: "user \<Rightarrow> layout_state option" where
  "layout_mount u =
     (case name u of
        JStr s \<Rightarrow>
          Some \<lparr>lay_name = s, lay_email = email u, currentPage = PageTickets,
                tickets_page = Some (initial_page_state s (email u)), settings_page = None,
                alerts = []\<rparr>
      | _ \<Rightarrow> None)"

text \<open>\<open>setCurrentPage(p)\<close> and the re-render it causes: the page left is unmounted, the
  page entered is mounted afresh.\<close>

definition setCurrentPage :: "layout_page \<Rightarrow> layout_state \<Rightarrow> layout_state" where
  "setCurrentPage p l =
     (if p = currentPage l then l
      else l\<lparr>currentPage := p,
             tickets_page := (if p = PageTickets then Some (initial_page_state (lay_name l) (lay_email l))
                              else None),
             settings_page := (if p = PageSettings then Some initial_settings else None)\<rparr>)"

datatype layout_event =
    NavClick layout_page
  | MenuSettings
  | TicketsEvent page_event
  | SettingsEvent settings_event

text \<open>One event: a navigation click, or an event on the page shown, which only that
  page can receive (\<open>None\<close> otherwise).\<close>

fun layout_step :: "layout_state \<Rightarrow> layout_event \<Rightarrow> layout_state option" where
  "layout_step l (NavClick p) = Some (setCurrentPage p l)"
| "layout_step l MenuSettings = Some (setCurrentPage PageSettings l)"
| "layout_step l (TicketsEvent e) =
     (case tickets_page l of
        None \<Rightarrow> None
      | Some ps \<Rightarrow> map_option (\<lambda>ps'. l\<lparr>tickets_page := Some ps'\<rparr>) (page_step (lay_name l) (lay_email l) ps e))"
| "layout_step l (SettingsEvent e) =
     (case settings_page l of
        None \<Rightarrow> None
      | Some st \<Rightarrow>
          map_option (\<lambda>(st', a). l\<lparr>settings_page := Some st',
                                  alerts := alerts l @ (case a of Some m \<Rightarrow> [m] | None \<Rightarrow> [])\<rparr>)
            (settings_step st e))"

fun layout_run :: "layout_state \<Rightarrow> layout_event list \<Rightarrow> layout_state option" where
  "layout_run l [] = Some l"
| "layout_run l (e # es) = (case layout_step l e of None \<Rightarrow> None | Some l' \<Rightarrow> layout_run l' es)"

inductive layout_reachable :: "user \<Rightarrow> layout_state \<Rightarrow> bool" for u where
  start: "layout_mount u = Some l \<Longrightarrow> layout_reachable u l"
| step: "layout_reachable u l \<Longrightarrow> layout_step l e = Some l' \<Longrightarrow> layout_reachable u l'"

text \<open>What the header and the main area show: each navigation button with its label and
  whether it has the \<open>default\<close> variant, the avatar's initials, the user's name and
  email, and the page mounted.\<close>

record layout_view =
  nav_buttons :: "(js_string \<times> bool) list"
  avatar_fallback :: js_string
  header_name :: js_string
  header_email :: js_string
  main_content :: layout_page

definition layout_render :: "layout_state \<Rightarrow> layout_view" where
  "layout_render l =
     \<lparr>nav_buttons = map (\<lambda>(p, lbl). (lbl, currentPage l = p)) navigation,
      avatar_fallback = toUpperCase (name_initials (lay_name l)),
      header_name = lay_name l, header_email = lay_email l, main_content = currentPage l\<rparr>"

definition layout_inv :: "user \<Rightarrow> layout_state \<Rightarrow> bool" where
  "layout_inv u l \<longleftrightarrow>
     name u = JStr (lay_name l) \<and> email u = lay_email l \<and>
     (tickets_page l \<noteq> None \<longleftrightarrow> currentPage l = PageTickets) \<and>
     (settings_page l \<noteq> None \<longleftrightarrow> currentPage l = PageSettings) \<and>
     pred_option (page_reachable (lay_name l) (lay_email l)) (tickets_page l) \<and>
     pred_option (\<lambda>st. theme st \<in> set theme_options) (settings_page l)"

declare navigation_def [eval_simps] layout_mount_def [eval_simps] setCurrentPage_def [eval_simps]
  layout_render_def [eval_simps]

section \<open>Invariant\<close>

lemma layout_inv_mount: "layout_mount u = Some l \<Longrightarrow> layout_inv u l"
  by (auto simp: layout_mount_def layout_inv_def page_reachable.start split: json.splits)

lemma layout_inv_setCurrentPage: "layout_inv u l \<Longrightarrow> layout_inv u (setCurrentPage p l)"
  by (auto simp: setCurrentPage_def layout_inv_def page_reachable.start initial_settings_def
                 theme_options_def)

lemma layout_inv_step: "layout_inv u l \<Longrightarrow> layout_step l e = Some l' \<Longrightarrow> layout_inv u l'"
proof (cases e)
  case (TicketsEvent pe)
  assume inv: "layout_inv u l" and st: "layout_step l e = Some l'"
  with TicketsEvent obtain ps ps' where ps: "tickets_page l = Some ps"
    and ps': "page_step (lay_name l) (lay_email l) ps pe = Some ps'"
    and l': "l' = l\<lparr>tickets_page := Some ps'\<rparr>"
    by (auto split: option.splits)
  from inv have "pred_option (page_reachable (lay_name l) (lay_email l)) (tickets_page l)"
    unfolding layout_inv_def by blast
  with ps have "page_reachable (lay_name l) (lay_email l) ps" by simp
  then have "page_reachable (lay_name l) (lay_email l) ps'" using ps' by (rule page_reachable.step)
  with inv ps l' show ?thesis by (simp add: layout_inv_def)
next
  case (SettingsEvent se)
  assume inv: "layout_inv u l" and st: "layout_step l e = Some l'"
  with SettingsEvent obtain s s' a where s: "settings_page l = Some s"
    and s': "settings_step s se = Some (s', a)"
    and l': "l' = l\<lparr>settings_page := Some s', alerts := alerts l @ (case a of Some m \<Rightarrow> [m] | None \<Rightarrow> [])\<rparr>"
    by (auto split: option.splits)
  from inv s have "theme s \<in> set theme_options" by (simp add: layout_inv_def)
  with s' have "theme s' \<in> set theme_options" by (rule settings_step_theme)
  with inv s l' show ?thesis by (simp add: layout_inv_def)
qed (auto simp: layout_inv_setCurrentPage)

lemma layout_reachable_inv: "layout_reachable u l \<Longrightarrow> layout_inv u l"
  by (induction rule: layout_reachable.induct) (auto intro: layout_inv_mount layout_inv_step)

text \<open>C11: in every state of the layout reachable for a user, the tickets page and the
  settings page are mounted exactly when they are the current page, the user's name is a
  string, and the mounted tickets page is a reachable state of the tickets page run for
  that user, so the invariant of the tickets page (every stored ticket well-formed, the
  selection consistent) holds inside the layout.\<close>

theorem layout_tickets_reachable:
  assumes "layout_reachable u l"
  shows "(tickets_page l \<noteq> None \<longleftrightarrow> currentPage l = PageTickets) \<and>
         (settings_page l \<noteq> None \<longleftrightarrow> currentPage l = PageSettings) \<and>
         name u = JStr (lay_name l) \<and>
         pred_option (page_reachable (lay_name l) (email u)) (tickets_page l) \<and>
         pred_option tickets_inv (tickets_page l)"
proof -
  have inv: "layout_inv u l" using assms by (rule layout_reachable_inv)
  then have "pred_option (page_reachable (lay_name l) (email u)) (tickets_page l)"
    by (simp add: layout_inv_def)
  moreover from this have "pred_option tickets_inv (tickets_page l)"
    by (cases "tickets_page l") (simp_all add: page_reachable_inv)
  ultimately show ?thesis using inv by (simp add: layout_inv_def)
qed

text \<open>C13: leaving the tickets page and coming back discards its state: whatever was
  created, edited or deleted, after a click on another page and a click on
  \<open>Chamados\<close> the tickets page starts again from the three seed tickets.\<close>

theorem navigation_resets_tickets:
  assumes "p \<noteq> PageTickets"
  shows "\<exists>l'. layout_run l [NavClick p, NavClick PageTickets] = Some l' \<and>
              currentPage l' = PageTickets \<and>
              tickets_page l' = Some (initial_page_state (lay_name l) (lay_email l))"
  using assms by (cases "currentPage l") (auto simp: setCurrentPage_def)

text \<open>C33: the settings page keeps its state only while it is shown: whatever the
  notification switches and the theme were set to, after a click on another page and a
  click on the drop-down's settings item the page starts again from its initial state
  (theme \<open>light\<close>), and no alert is raised.\<close>

theorem navigation_resets_settings:
  assumes "p \<noteq> PageSettings"
  shows "\<exists>l'. layout_run l [NavClick p, MenuSettings] = Some l' \<and>
              currentPage l' = PageSettings \<and> settings_page l' = Some initial_settings \<and>
              alerts l' = alerts l"
  using assms by (cases "currentPage l") (auto simp: setCurrentPage_def)

end
