(* ===== verification/Shell.thy ===== *)
theory Shell
  imports Login Layout
begin

text \<open>
  \<open>App\<close> of \<open>src/src/App.tsx\<close> with both of its children: it renders the login page while
  \<open>user\<close> is \<open>null\<close> and \<open>MainLayout\<close> otherwise (lines 36--40). The state of the shell
  is the login flow of the Login theory (\<open>app_state\<close>: the service, \<open>App\<close>'s user, the
  mounted login page) and the state of the mounted layout. After every event of the login
  flow \<open>App\<close> re-renders: when the user appears, \<open>MainLayout\<close> mounts; when it is replaced
  by another user (a second delayed \<open>onLogin\<close>), the mounted layout keeps its state and
  only receives the new \<open>user\<close> prop; when it is cleared (\<open>handleLogout\<close>), the layout
  unmounts. A render of \<open>MainLayout\<close> that throws (a name that is not a string) is not
  caught by any error boundary, so React unmounts the whole tree: the shell is then
  \<open>sh_crashed\<close> and no event reaches it any more.
\<close>

record shell =
  sh_app :: app_state
  sh_layout :: "layout_state option"
  sh_crashed :: bool

definition initial_shell :: shell where
  "initial_shell = \<lparr>sh_app = initial_app, sh_layout = None, sh_crashed = False\<rparr>"

text \<open>A new \<open>user\<close> prop for a mounted layout: its render reads \<open>user.name\<close> again.\<close>

definition layout_props :: "user \<Rightarrow> layout_state \<Rightarrow> layout_state option" where
  "layout_props u l =
     (case name u of JStr s \<Rightarrow> Some (l\<lparr>lay_name := s, lay_email := email u\<rparr>) | _ \<Rightarrow> None)"

text \<open>\<open>App\<close>'s render after its state changed to \<open>user\<close>.\<close>

definition app_rerender :: "user option \<Rightarrow> shell \<Rightarrow> shell" where
  "app_rerender usr s =
     (case usr of
        None \<Rightarrow> s\<lparr>sh_layout := None\<rparr>
      | Some u \<Rightarrow>
          (case (case sh_layout s of None \<Rightarrow> layout_mount u | Some l \<Rightarrow> layout_props u l) of
             None \<Rightarrow> s\<lparr>sh_layout := None, sh_crashed := True\<rparr>
           | Some l' \<Rightarrow> s\<lparr>sh_layout := Some l'\<rparr>))"

datatype shell_event = ShApp app_event | ShLayout layout_event

fun shell_step :: "vite_env \<Rightarrow> shell \<Rightarrow> shell_event \<Rightarrow> shell option" where
  "shell_step env s (ShApp e) =
     (if sh_crashed s then None
      else map_option (\<lambda>a'. app_rerender (app_user a') (s\<lparr>sh_app := a'\<rparr>)) (app_step env (sh_app s) e))"
| "shell_step env s (ShLayout e) =
     (if sh_crashed s then None
      else case sh_layout s of
             None \<Rightarrow> None
           | Some l \<Rightarrow> map_option (\<lambda>l'. s\<lparr>sh_layout := Some l'\<rparr>) (layout_step l e))"

fun shell_run :: "vite_env \<Rightarrow> shell \<Rightarrow> shell_event list \<Rightarrow> shell option" where
  "shell_run env s [] = Some s"
| "shell_run env s (e # es) = (case shell_step env s e of None \<Rightarrow> None | Some s' \<Rightarrow> shell_run env s' es)"

inductive shell_reachable :: "vite_env \<Rightarrow> shell \<Rightarrow> bool" for env where
  start: "shell_reachable env initial_shell"
| step: "shell_reachable env s \<Longrightarrow> shell_step env s e = Some s' \<Longrightarrow> shell_reachable env s'"

text \<open>A mounted layout whatever its user: each page mounted exactly when shown, the
  tickets page's invariant and the settings page's theme.\<close>

definition layout_wf :: "layout_state \<Rightarrow> bool" where
  "layout_wf l \<longleftrightarrow>
     (tickets_page l \<noteq> None \<longleftrightarrow> currentPage l = PageTickets) \<and>
     (settings_page l \<noteq> None \<longleftrightarrow> currentPage l = PageSettings) \<and>
     pred_option tickets_inv (tickets_page l) \<and>
     pred_option (\<lambda>st. theme st \<in> set theme_options) (settings_page l)"

definition shows_user :: "app_state \<Rightarrow> layout_state \<Rightarrow> bool" where
  "shows_user a l \<longleftrightarrow>
     (\<exists>u. app_user a = Some u \<and> name u = JStr (lay_name l) \<and> email u = lay_email l)"

definition shell_inv :: "vite_env \<Rightarrow> shell \<Rightarrow> bool" where
  "shell_inv env s \<longleftrightarrow>
     app_inv env (sh_app s) \<and>
     (if sh_crashed s then sh_layout s = None
      else (sh_layout s = None \<longleftrightarrow> app_user (sh_app s) = None) \<and>
           pred_option (\<lambda>l. shows_user (sh_app s) l \<and> layout_wf l) (sh_layout s))"

declare initial_shell_def [eval_simps] layout_props_def [eval_simps] app_rerender_def [eval_simps]

section \<open>Invariant\<close>

lemma layout_wf_mount: "layout_mount u = Some l \<Longrightarrow> layout_wf l"
  by (auto simp: layout_mount_def layout_wf_def tickets_inv_initial split: json.splits)

lemma layout_wf_props: "layout_props u l = Some l' \<Longrightarrow> layout_wf l \<Longrightarrow> layout_wf l'"
  by (auto simp: layout_props_def layout_wf_def split: json.splits)

lemma layout_wf_setCurrentPage: "layout_wf l \<Longrightarrow> layout_wf (setCurrentPage p l)"
  by (auto simp: setCurrentPage_def layout_wf_def tickets_inv_initial initial_settings_def
                 theme_options_def)

lemma layout_wf_step: "layout_wf l \<Longrightarrow> layout_step l e = Some l' \<Longrightarrow> layout_wf l'"
proof (cases e)
  case (TicketsEvent pe)
  assume w: "layout_wf l" and st: "layout_step l e = Some l'"
  with TicketsEvent obtain ps ps' where ps: "tickets_page l = Some ps"
    and ps': "page_step (lay_name l) (lay_email l) ps pe = Some ps'"
    and l': "l' = l\<lparr>tickets_page := Some ps'\<rparr>"
    by (auto split: option.splits)
  have "tickets_inv ps" using w ps by (simp add: layout_wf_def)
  then have "tickets_inv ps'" using ps' by (rule tickets_inv_step)
  with w ps l' show ?thesis by (simp add: layout_wf_def)
next
  case (SettingsEvent se)
  assume w: "layout_wf l" and st: "layout_step l e = Some l'"
  with SettingsEvent obtain s s' a where s: "settings_page l = Some s"
    and s': "settings_step s se = Some (s', a)"
    and l': "l' = l\<lparr>settings_page := Some s', alerts := alerts l @ (case a of Some m \<Rightarrow> [m] | None \<Rightarrow> [])\<rparr>"
    by (auto split: option.splits)
  from w s have "theme s \<in> set theme_options" by (simp add: layout_wf_def)
  with s' have "theme s' \<in> set theme_options" by (rule settings_step_theme)
  with w s l' show ?thesis by (simp add: layout_wf_def)
qed (auto intro: layout_wf_setCurrentPage)

lemma shows_user_mount: "layout_mount u = Some l \<Longrightarrow> app_user a = Some u \<Longrightarrow> shows_user a l"
  by (auto simp: layout_mount_def shows_user_def split: json.splits)

lemma shows_user_props: "layout_props u l = Some l' \<Longrightarrow> app_user a = Some u \<Longrightarrow> shows_user a l'"
  by (auto simp: layout_props_def shows_user_def split: json.splits)

lemma shell_inv_initial: "shell_inv env initial_shell"
proof -
  have "app_user initial_app = None" by (simp add: initial_app_def)
  then show ?thesis using app_inv_initial [of env] by (simp add: shell_inv_def initial_shell_def)
qed

lemma shell_inv_rerender:
  assumes "app_inv env a" and "\<not> sh_crashed s"
    and "pred_option layout_wf (sh_layout s)"
  shows "shell_inv env (app_rerender (app_user a) (s\<lparr>sh_app := a\<rparr>))"
proof (cases "app_user a")
  case None
  with assms show ?thesis by (simp add: shell_inv_def app_rerender_def)
next
  case (Some u)
  show ?thesis
  proof (cases "sh_layout s")
    case None
    with Some assms show ?thesis
      by (auto simp: shell_inv_def app_rerender_def intro: shows_user_mount layout_wf_mount
               split: option.splits)
  next
    case (Some l)
    with \<open>app_user a = Some u\<close> assms show ?thesis
      by (auto simp: shell_inv_def app_rerender_def intro: shows_user_props layout_wf_props
               split: option.splits)
  qed
qed

lemma shows_user_layout_step:
  "layout_step l e = Some l' \<Longrightarrow> shows_user a l' = shows_user a l"
proof -
  assume "layout_step l e = Some l'"
  then have "lay_name l' = lay_name l \<and> lay_email l' = lay_email l"
    by (cases e) (auto simp: setCurrentPage_def split: option.splits)
  then show ?thesis by (simp add: shows_user_def)
qed

lemma shell_inv_step:
  assumes inv: "shell_inv env s" and st: "shell_step env s e = Some s'"
  shows "shell_inv env s'"
proof (cases e)
  case (ShApp ae)
  with st obtain a' where nc: "\<not> sh_crashed s" and a': "app_step env (sh_app s) ae = Some a'"
    and s': "s' = app_rerender (app_user a') (s\<lparr>sh_app := a'\<rparr>)"
    by (auto split: if_splits)
  have "app_inv env a'" using inv a' by (auto simp: shell_inv_def intro: app_inv_step)
  moreover have "pred_option layout_wf (sh_layout s)"
    using inv nc by (auto simp: shell_inv_def pred_option_def)
  ultimately show ?thesis using nc s' by (simp add: shell_inv_rerender)
next
  case (ShLayout le)
  with st obtain l l' where nc: "\<not> sh_crashed s" and l: "sh_layout s = Some l"
    and l': "layout_step l le = Some l'" and s': "s' = s\<lparr>sh_layout := Some l'\<rparr>"
    by (auto split: if_splits option.splits)
  with inv show ?thesis
    by (auto simp: shell_inv_def shows_user_layout_step [OF l'] intro: layout_wf_step)
qed

lemma shell_reachable_inv: "shell_reachable env s \<Longrightarrow> shell_inv env s"
  by (induction rule: shell_reachable.induct) (auto intro: shell_inv_initial shell_inv_step)

lemma shell_run_reachable:
  "shell_reachable env s \<Longrightarrow> shell_run env s es = Some s' \<Longrightarrow> shell_reachable env s'"
proof (induction es arbitrary: s)
  case (Cons e es)
  then show ?case by (auto split: option.splits intro: shell_reachable.step)
qed simp

text \<open>C14: the composition of the sign-in flow with the signed-in layout: whenever
  \<open>App\<close> shows \<open>MainLayout\<close>, the name and email in its header are those of \<open>App\<close>'s
  current user, that user was accepted by \<open>validateToken\<close>, so the email shown ends with
  the allowed domain, and the tickets page inside keeps its invariant.\<close>

theorem shell_layout_user_allowed:
  assumes "shell_reachable env s" and "sh_layout s = Some l"
  shows "\<exists>u. app_user (sh_app s) = Some u \<and> name u = JStr (lay_name l) \<and> email u = lay_email l \<and>
             js_endsWith (lay_email l) (ALLOWED_DOMAIN env) \<and> pred_option tickets_inv (tickets_page l)"
proof -
  have inv: "shell_inv env s" using assms(1) by (rule shell_reachable_inv)
  then have nc: "\<not> sh_crashed s" using assms(2) by (auto simp: shell_inv_def)
  with inv assms(2) obtain u where u: "app_user (sh_app s) = Some u"
    and nm: "name u = JStr (lay_name l)" and em: "email u = lay_email l" and w: "layout_wf l"
    by (auto simp: shell_inv_def shows_user_def)
  from inv u have "validated_by env (boot (sh_app s)) u" by (simp add: shell_inv_def app_inv_def)
  then have "js_endsWith (email u) (ALLOWED_DOMAIN env)"
    by (auto simp: validated_by_def intro: validateToken_Inr_domain)
  with u nm em w show ?thesis by (auto simp: layout_wf_def)
qed

text \<open>C30: the validator never checks the type of the \<open>name\<close> claim, and the layout's render
  calls \<open>user.name.split\<close>: in every reachable state in which \<open>App\<close> holds a user whose
  name is not a string, the whole tree has been unmounted by the render error, no layout
  is shown and no event is handled any more.\<close>

theorem name_not_string_crashes:
  assumes "shell_reachable env s" and "app_user (sh_app s) = Some u" and "\<forall>n. name u \<noteq> JStr n"
  shows "sh_crashed s \<and> sh_layout s = None \<and> (\<forall>e. shell_step env s e = None)"
proof -
  have inv: "shell_inv env s" by (rule shell_reachable_inv [OF assms(1)])
  have c: "sh_crashed s"
  proof (rule ccontr)
    assume "\<not> sh_crashed s"
    with inv assms(2) obtain l where "sh_layout s = Some l" and "shows_user (sh_app s) l"
      by (auto simp: shell_inv_def)
    with assms(2,3) show False by (auto simp: shows_user_def)
  qed
  moreover have "sh_layout s = None" using inv c by (simp add: shell_inv_def)
  moreover have "shell_step env s e = None" for e using c by (cases e) simp_all
  ultimately show ?thesis by blast
qed

end
