(* ===== verification/OldLogin.thy ===== *)
theory OldLogin
  imports Settings Validator
begin

text \<open>
  The legacy login page \<open>src/src/components/login-page-old.tsx\<close>, which simulates a
  Google sign-in with an email field: its state (\<open>email\<close>, \<open>error\<close>, \<open>isLoading\<close>,
  lines 14--16), the submit handler \<open>handleGoogleLogin\<close> (18--54), whose one-second
  \<open>setTimeout\<close> callback checks the domain with \<open>endsWith\<close>, then the format with
  \<open>/^[^\s@]+@[^\s@]+\.[^\s@]+$/\<close>, derives a display name from the local part and calls
  \<open>onLogin\<close> with an avatar URL built by \<open>encodeURIComponent\<close>. The callback closes over
  the \<open>email\<close> of the render in which the form was submitted, so a pending timer is
  modelled by the email it captured. \<open>\s\<close> is the ECMAScript white-space and
  line-terminator set; \<open>encodeURIComponent\<close> percent-encodes the UTF-8 bytes of every
  code point outside its unreserved set and throws a \<open>URIError\<close> on a lone surrogate,
  which inside the timer callback aborts it before \<open>onLogin\<close> and before
  \<open>setIsLoading(false)\<close>. The browser's own constraint validation of
  \<open>type="email"\<close> is not modelled beyond \<open>required\<close> (a non-empty value): the model
  lets more submissions through than a browser does, so what it proves of the callback
  holds a fortiori. \<open>App\<close> renders \<open>login-page.tsx\<close>, not this page.
\<close>

section \<open>Email checks and display name\<close>

text \<open>The class \<open>\s\<close> of ECMAScript regular expressions.\<close>

definition js_regex_space :: "code_unit \<Rightarrow> bool" where
  "js_regex_space c =
     (let n = unat c in
      (9 \<le> n \<and> n \<le> 13) \<or> n = 32 \<or> n = 160 \<or> n = 5760 \<or> (8192 \<le> n \<and> n \<le> 8202) \<or>
      n = 8232 \<or> n = 8233 \<or> n = 8239 \<or> n = 8287 \<or> n = 12288 \<or> n = 65279)"

text \<open>\<open>[^\s@]+\<close>.\<close>

definition email_part_ok :: "js_string \<Rightarrow> bool" where
  "email_part_ok p \<longleftrightarrow> p \<noteq> [] \<and> list_all (\<lambda>c. \<not> js_regex_space c \<and> c \<noteq> 64) p"

text \<open>\<open>emailRegex.test(email)\<close> (lines 33--34): exactly one \<open>@\<close>, a non-empty local part,
  and a domain with a dot neither first nor last, with no white space anywhere.\<close>

definition emailRegex_test :: "js_string \<Rightarrow> bool" where
  "emailRegex_test s =
     (case js_split 64 s of
        [l, d] \<Rightarrow> email_part_ok l \<and> list_all (\<lambda>c. \<not> js_regex_space c) d \<and> 46 \<in> set (butlast (tl d))
      | _ \<Rightarrow> False)"

text \<open>\<open>part.charAt(0).toUpperCase() + part.slice(1)\<close> and the name of lines 41--43.\<close>

definition capitalize :: "js_string \<Rightarrow> js_string" where
  "capitalize p = toUpperCase (take 1 p) @ drop 1 p"

definition old_display_name :: "js_string \<Rightarrow> js_string" where
  "old_display_name e = js_join 32 (map capitalize (js_split 46 (hd (js_split 64 e))))"

section \<open>encodeURIComponent\<close>

text \<open>The unreserved set: \<open>A\<close>--\<open>Z\<close>, \<open>a\<close>--\<open>z\<close>, \<open>0\<close>--\<open>9\<close> and \<open>- _ . ! ~ * ' ( )\<close>.\<close>

definition uri_unreserved :: "code_unit \<Rightarrow> bool" where
  "uri_unreserved c =
     (let n = unat c in
      (65 \<le> n \<and> n \<le> 90) \<or> (97 \<le> n \<and> n \<le> 122) \<or> (48 \<le> n \<and> n \<le> 57) \<or>
      n \<in> {45, 95, 46, 33, 126, 42, 39, 40, 41})"

definition hex_digit :: "nat \<Rightarrow> code_unit" where
  "hex_digit d = (if d < 10 then of_nat (48 + d) else of_nat (55 + d))"

definition pct :: "nat \<Rightarrow> js_string" where
  "pct b = [37, hex_digit (b div 16), hex_digit (b mod 16)]"

definition utf8_bytes :: "nat \<Rightarrow> nat list" where
  "utf8_bytes cp =
     (if cp < 128 then [cp]
      else if cp < 2048 then [192 + cp div 64, 128 + cp mod 64]
      else if cp < 65536 then [224 + cp div 4096, 128 + (cp div 64) mod 64, 128 + cp mod 64]
      else [240 + cp div 262144, 128 + (cp div 4096) mod 64, 128 + (cp div 64) mod 64, 128 + cp mod 64])"

definition pct_encode :: "nat \<Rightarrow> js_string" where
  "pct_encode cp = concat (map pct (utf8_bytes cp))"

fun encodeURIComponent :: "js_string \<Rightarrow> js_string option" where
  "encodeURIComponent [] = Some []"
| "encodeURIComponent (c # s) =
     (if uri_unreserved c then map_option (Cons c) (encodeURIComponent s)
      else
        (let n = unat c in
         if 56320 \<le> n \<and> n \<le> 57343 then None
         else if 55296 \<le> n \<and> n \<le> 56319 then
           (case s of
              [] \<Rightarrow> None
            | d # s' \<Rightarrow>
                (let m = unat d in
                 if 56320 \<le> m \<and> m \<le> 57343
                 then map_option (\<lambda>r. pct_encode (65536 + (n - 55296) * 1024 + (m - 56320)) @ r)
                        (encodeURIComponent s')
                 else None))
         else map_option (\<lambda>r. pct_encode n @ r) (encodeURIComponent s)))"

definition avatar_url :: "js_string \<Rightarrow> js_string option" where
  "avatar_url nm =
     map_option (\<lambda>enc. js ''https://ui-avatars.com/api/?name='' @ enc @ js ''&background=2563eb&color=fff'')
       (encodeURIComponent nm)"

section \<open>The page\<close>

record old_login =
  ol_email :: js_string
  ol_error :: js_string
  ol_isLoading :: bool
  ol_timers :: "js_string list"
  ol_logins :: "user list"

definition initial_old_login :: old_login where
  "initial_old_login = \<lparr>ol_email = [], ol_error = [], ol_isLoading = False, ol_timers = [], ol_logins = []\<rparr>"

definition old_domain :: js_string where
  "old_domain = js ''@grupolgh.com.br''"

definition old_domain_msg :: js_string where
  "old_domain_msg =
     js ''Apenas emails do dom'' @ [237] @ js ''nio @grupolgh.com.br s'' @ [227] @ js ''o permitidos.''"

definition old_format_msg :: js_string where
  "old_format_msg = js ''Por favor, insira um email v'' @ [225] @ js ''lido.''"

text \<open>The \<open>setTimeout\<close> callback of lines 24--53 on the email it captured. A
  \<open>URIError\<close> of \<open>encodeURIComponent\<close> leaves the state as it is.\<close>

definition old_login_timeout :: "js_string \<Rightarrow> old_login \<Rightarrow> old_login" where
  "old_login_timeout em l =
     (if \<not> js_endsWith em old_domain then l\<lparr>ol_error := old_domain_msg, ol_isLoading := False\<rparr>
      else if \<not> emailRegex_test em then l\<lparr>ol_error := old_format_msg, ol_isLoading := False\<rparr>
      else
        (let nm = old_display_name em in
         case avatar_url nm of
           None \<Rightarrow> l
         | Some url \<Rightarrow>
             l\<lparr>ol_logins := ol_logins l @ [\<lparr>email = em, name = JStr nm, picture = Some (JStr url)\<rparr>],
               ol_isLoading := False\<rparr>))"

datatype old_login_event = OL_Type js_string | OL_Submit | OL_TimerFires

text \<open>Typing and submitting need the input and the button enabled (\<open>disabled={isLoading}\<close>)
  and, for the submit, a non-empty email (\<open>required\<close>); the submit clears the error, sets
  \<open>isLoading\<close> and schedules the callback.\<close>

fun old_login_step :: "old_login \<Rightarrow> old_login_event \<Rightarrow> old_login option" where
  "old_login_step l (OL_Type s) = (if ol_isLoading l then None else Some (l\<lparr>ol_email := s\<rparr>))"
| "old_login_step l OL_Submit =
     (if ol_isLoading l \<or> ol_email l = [] then None
      else Some (l\<lparr>ol_error := [], ol_isLoading := True, ol_timers := ol_timers l @ [ol_email l]\<rparr>))"
| "old_login_step l OL_TimerFires =
     (case ol_timers l of
        [] \<Rightarrow> None
      | em # rest \<Rightarrow> Some (old_login_timeout em (l\<lparr>ol_timers := rest\<rparr>)))"

fun old_login_run :: "old_login \<Rightarrow> old_login_event list \<Rightarrow> old_login option" where
  "old_login_run l [] = Some l"
| "old_login_run l (e # es) = (case old_login_step l e of None \<Rightarrow> None | Some l' \<Rightarrow> old_login_run l' es)"

inductive old_login_reachable :: "old_login \<Rightarrow> bool" where
  start: "old_login_reachable initial_old_login"
| step: "old_login_reachable l \<Longrightarrow> old_login_step l e = Some l' \<Longrightarrow> old_login_reachable l'"

text \<open>What the page shows: the alert (\<open>{error && ...}\<close>), the button's text and whether
  the input and the button are disabled.\<close>

record old_login_view =
  olv_alert :: "js_string option"
  olv_button :: js_string
  olv_disabled :: bool

definition old_login_render :: "old_login \<Rightarrow> old_login_view" where
  "old_login_render l =
     \<lparr>olv_alert = (if ol_error l = [] then None else Some (ol_error l)),
      olv_button = (if ol_isLoading l then js ''Autenticando...'' else js ''Entrar com Google''),
      olv_disabled = ol_isLoading l\<rparr>"

text \<open>The language of the regular expression, written as it reads: a local part, an
  \<open>@\<close>, and two non-empty parts around a dot, none of them holding white space or
  \<open>@\<close>. It is the reference the executable \<open>emailRegex_test\<close> is proved equal to.\<close>

definition emailRegex_lang :: "js_string \<Rightarrow> bool" where
  "emailRegex_lang s \<longleftrightarrow>
     (\<exists>l a b. s = l @ 64 # a @ 46 # b \<and> email_part_ok l \<and> email_part_ok a \<and> email_part_ok b)"

definition old_user_ok :: "user \<Rightarrow> bool" where
  "old_user_ok u \<longleftrightarrow>
     js_endsWith (email u) old_domain \<and> emailRegex_test (email u) \<and>
     name u = JStr (old_display_name (email u)) \<and> avatar_url (old_display_name (email u)) \<noteq> None"

definition old_login_inv :: "old_login \<Rightarrow> bool" where
  "old_login_inv l \<longleftrightarrow>
     length (ol_timers l) \<le> 1 \<and> (ol_timers l \<noteq> [] \<longrightarrow> ol_isLoading l) \<and>
     list_all old_user_ok (ol_logins l)"

declare js_regex_space_def [eval_simps] email_part_ok_def [eval_simps] emailRegex_test_def [eval_simps]
  capitalize_def [eval_simps] old_display_name_def [eval_simps] uri_unreserved_def [eval_simps]
  hex_digit_def [eval_simps] pct_def [eval_simps] utf8_bytes_def [eval_simps] pct_encode_def [eval_simps]
  avatar_url_def [eval_simps] initial_old_login_def [eval_simps] old_domain_def [eval_simps]
  old_login_timeout_def [eval_simps] old_login_render_def [eval_simps]

section \<open>The format check\<close>

lemma butlast_tl_decomp:
  assumes "x \<in> set (butlast (tl d))"
  obtains a b where "d = a @ x # b" "a \<noteq> []" "b \<noteq> []"
proof -
  obtain u v where uv: "butlast (tl d) = u @ x # v" using assms by (metis split_list)
  have "tl d \<noteq> []" using assms by auto
  then have d: "d = hd d # butlast (tl d) @ [last (tl d)]"
    by (metis append_butlast_last_id list.collapse list.sel(2))
  show ?thesis
    by (rule that [of "hd d # u" "v @ [last (tl d)]"]) (use d uv in auto)
qed

lemma email_part_ok_append:
  "email_part_ok (a @ b) \<longleftrightarrow> (a \<noteq> [] \<or> b \<noteq> []) \<and>
     list_all (\<lambda>c. \<not> js_regex_space c \<and> c \<noteq> 64) a \<and> list_all (\<lambda>c. \<not> js_regex_space c \<and> c \<noteq> 64) b"
  by (auto simp: email_part_ok_def)

lemma regex_space_46 [simp]: "\<not> js_regex_space 46"
  by (simp add: js_regex_space_def)

lemma emailRegex_test_lang_mp: "emailRegex_test s \<Longrightarrow> emailRegex_lang s"
proof -
  assume t: "emailRegex_test s"
  then obtain l d where sp: "js_split 64 s = [l, d]"
    by (auto simp: emailRegex_test_def split: list.splits)
  with t have l: "email_part_ok l" and dws: "list_all (\<lambda>c. \<not> js_regex_space c) d"
    and dot: "46 \<in> set (butlast (tl d))"
    by (simp_all add: emailRegex_test_def)
  have s: "s = l @ 64 # d" using js_join_split [of 64 s] sp by simp
  have d64: "64 \<notin> set d" using js_split_no_sep [of d 64 s] sp by simp
  obtain a b where d: "d = a @ 46 # b" "a \<noteq> []" "b \<noteq> []" using dot by (rule butlast_tl_decomp)
  have "email_part_ok a" "email_part_ok b" using d dws d64 by (auto simp: email_part_ok_def list_all_iff)
  with s d l show ?thesis unfolding emailRegex_lang_def by blast
qed

lemma emailRegex_lang_test_mp: "emailRegex_lang s \<Longrightarrow> emailRegex_test s"
proof -
  assume "emailRegex_lang s"
  then obtain l a b where s: "s = l @ 64 # a @ 46 # b" and ok: "email_part_ok l" "email_part_ok a" "email_part_ok b"
    unfolding emailRegex_lang_def by blast
  have nl: "64 \<notin> set l" and nd: "64 \<notin> set (a @ 46 # b)"
    using ok by (auto simp: email_part_ok_def list_all_iff)
  have "js_split 64 s = [l, a @ 46 # b]"
    using s nl nd by (simp add: js_split_append_sep js_split_no_sep_single)
  moreover have "46 \<in> set (butlast (tl (a @ 46 # b)))"
    using ok by (cases a; cases b rule: rev_cases) (auto simp: email_part_ok_def butlast_append)
  ultimately show ?thesis using ok by (auto simp: emailRegex_test_def email_part_ok_def list_all_iff)
qed

text \<open>The executable check of the page is the regular expression: it accepts a string
  exactly when the string is a non-empty local part, an \<open>@\<close>, and a domain made of
  two non-empty parts around a dot, none of them containing white space or \<open>@\<close>.\<close>

lemma emailRegex_test_iff: "emailRegex_test s \<longleftrightarrow> emailRegex_lang s"
  using emailRegex_test_lang_mp emailRegex_lang_test_mp by blast

section \<open>encodeURIComponent\<close>

lemma unat_hex_digit: "d < 16 \<Longrightarrow> unat (hex_digit d) = (if d < 10 then 48 + d else 55 + d)"
  unfolding hex_digit_def by (simp only: unat_of_nat split: if_splits) simp

lemma hex_digit_unreserved: "d < 16 \<Longrightarrow> uri_unreserved (hex_digit d)"
  by (simp add: unat_hex_digit uri_unreserved_def Let_def)

lemma utf8_bytes_bound: "cp < 1114112 \<Longrightarrow> b \<in> set (utf8_bytes cp) \<Longrightarrow> b < 256"
  by (auto simp: utf8_bytes_def split: if_splits)

lemma pct_encode_safe:
  "cp < 1114112 \<Longrightarrow> list_all (\<lambda>c. uri_unreserved c \<or> c = 37) (pct_encode cp)"
  using utf8_bytes_bound [of cp]
  by (fastforce simp: pct_encode_def pct_def list_all_iff intro!: hex_digit_unreserved)

lemma unat_code_unit_bound: "unat (c :: code_unit) < 65536"
  using unsigned_less [of c] by simp

lemma encodeURIComponent_safe:
  "encodeURIComponent s = Some r \<Longrightarrow> list_all (\<lambda>c. uri_unreserved c \<or> c = 37) r"
proof (induction s arbitrary: r rule: encodeURIComponent.induct)
  case (2 c s)
  have "unat c < 65536" by (rule unat_code_unit_bound)
  with 2 show ?case
    by (auto simp: Let_def split: if_splits list.splits intro!: pct_encode_safe)
qed simp

section \<open>The page\<close>

lemma old_login_inv_initial: "old_login_inv initial_old_login"
  by (simp add: old_login_inv_def initial_old_login_def)

lemma old_login_timeout_logins:
  "ol_logins (old_login_timeout em l) = ol_logins l \<or>
   (js_endsWith em old_domain \<and> emailRegex_test em \<and>
    (\<exists>url. avatar_url (old_display_name em) = Some url \<and>
       ol_logins (old_login_timeout em l) =
         ol_logins l @ [\<lparr>email = em, name = JStr (old_display_name em), picture = Some (JStr url)\<rparr>]))"
  by (auto simp: old_login_timeout_def Let_def split: option.splits)

lemma old_login_timeout_timers [simp]: "ol_timers (old_login_timeout em l) = ol_timers l"
  by (simp add: old_login_timeout_def Let_def split: option.splits)

lemma old_login_inv_step:
  assumes inv: "old_login_inv l" and st: "old_login_step l e = Some l'"
  shows "old_login_inv l'"
proof (cases e)
  case OL_TimerFires
  with st obtain em rest where t: "ol_timers l = em # rest"
    and l': "l' = old_login_timeout em (l\<lparr>ol_timers := rest\<rparr>)"
    by (auto split: list.splits)
  have "rest = []" using inv t by (simp add: old_login_inv_def)
  moreover have "list_all old_user_ok (ol_logins l')"
    using old_login_timeout_logins [of em "l\<lparr>ol_timers := rest\<rparr>"] inv l'
    by (auto simp: old_login_inv_def old_user_ok_def)
  ultimately show ?thesis using l' by (simp add: old_login_inv_def)
qed (use inv st in \<open>auto simp: old_login_inv_def split: if_splits\<close>)

lemma old_login_reachable_inv: "old_login_reachable l \<Longrightarrow> old_login_inv l"
  by (induction rule: old_login_reachable.induct) (auto intro: old_login_inv_initial old_login_inv_step)

lemma old_login_run_reachable:
  "old_login_reachable l \<Longrightarrow> old_login_run l es = Some l' \<Longrightarrow> old_login_reachable l'"
proof (induction es arbitrary: l)
  case (Cons e es)
  then show ?case by (auto split: option.splits intro: old_login_reachable.step)
qed simp

text \<open>C24: every user the legacy page hands to \<open>onLogin\<close> has an email that ends with
  \<open>@grupolgh.com.br\<close> and passes the format check, the display name derived from it,
  and an avatar URL; and at most one callback is ever pending.\<close>

theorem old_login_users_ok:
  assumes "old_login_reachable l" and "u \<in> set (ol_logins l)"
  shows "js_endsWith (email u) old_domain \<and> emailRegex_lang (email u) \<and>
         name u = JStr (old_display_name (email u)) \<and> length (ol_timers l) \<le> 1"
  using old_login_reachable_inv [OF assms(1)] assms(2) emailRegex_test_lang_mp
  by (auto simp: old_login_inv_def old_user_ok_def list_all_iff)

lemma old_login_stuck:
  "ol_isLoading l \<Longrightarrow> ol_timers l = [] \<Longrightarrow> old_login_step l e = None"
  by (cases e) simp_all

text \<open>C32: an email that passes both checks but holds a lone UTF-16 surrogate (which
  the regular expression's \<open>[^\s@]\<close> lets through) makes \<open>encodeURIComponent\<close>
  throw inside the timer callback: \<open>onLogin\<close> is never called and \<open>isLoading\<close> stays
  set, and since the input and the button are disabled while loading, no event is
  possible any more: the page hangs on \<open>Autenticando...\<close>.\<close>

theorem old_login_uri_error_hangs:
  assumes "old_login_reachable l" and "ol_timers l = [em]"
    and "js_endsWith em old_domain" and "emailRegex_test em"
    and "avatar_url (old_display_name em) = None"
  shows "\<exists>l'. old_login_step l OL_TimerFires = Some l' \<and> ol_logins l' = ol_logins l \<and>
              olv_button (old_login_render l') = js ''Autenticando...'' \<and>
              (\<forall>e. old_login_step l' e = None)"
proof -
  have "ol_isLoading l" using old_login_reachable_inv [OF assms(1)] assms(2) by (simp add: old_login_inv_def)
  then show ?thesis
    using assms(2-5) by (simp add: old_login_timeout_def old_login_render_def old_login_stuck)
qed

end
