(* ===== verification/TicketRender.thy ===== *)
theory TicketRender
  imports TicketsPage
begin

text \<open>
  What the ticket components show: a card of \<open>src/src/components/ticket-card.tsx\<close>
  (lines 24--69), the list of \<open>ticket-list.tsx\<close> with its empty message and the selected
  card (74--98), the details panel of \<open>ticket-details.tsx\<close> in its viewing and editing
  forms, with the creation and update dates written by
  \<open>new Date(t).toLocaleDateString('pt-BR')\<close> (68--217), and the tickets page's counters
  and right-hand panel (\<open>tickets-page.tsx\<close>, 86--157). \<open>toLocaleDateString\<close> formats the
  calendar date of the instant in the browser's time zone as \<open>dd/mm/yyyy\<close>; the zone is
  the parameter \<open>tz\<close>, its offset from UTC in minutes (\<open>-180\<close> for Bras\<acute>ilia, which has
  had no daylight-saving time since 2019), and the calendar date of a day number is
  computed with the usual proleptic Gregorian conversion \<open>civil_from_days\<close>. The
  new-ticket form's view is \<open>form_render\<close>; the page shows only the active tab's content. Years
  before year 1 are not formatted as the browser would.
\<close>

section \<open>Cards and list\<close>

record card_view =
  cv_title :: js_string
  cv_description :: js_string
  cv_priority :: js_string
  cv_status :: js_string
  cv_requester :: js_string
  cv_time_ago :: js_string
  cv_category :: js_string
  cv_selected :: bool

definition card_render :: "int \<Rightarrow> bool \<Rightarrow> ticket \<Rightarrow> card_view" where
  "card_render now sel t =
     \<lparr>cv_title = title t, cv_description = description t,
      cv_priority = card_priority_label (priority t), cv_status = card_status_label (status t),
      cv_requester = requesterName t, cv_time_ago = getTimeAgo now (createdAt t),
      cv_category = category t, cv_selected = sel\<rparr>"

text \<open>The list's controls (\<open>ticket-list.tsx\<close>, lines 29--73): the search input bound to
  \<open>searchTerm\<close> and the status and priority selects, which show the label of their value.\<close>

definition status_filter_items :: "(js_string \<times> js_string) list" where
  "status_filter_items =
     [(js ''all'', js ''Todos''), (status_str St_open, js ''Aberto''),
      (status_str St_in_progress, js ''Em Andamento''), (status_str St_resolved, js ''Resolvido''),
      (status_str St_closed, js ''Fechado'')]"

definition priority_filter_items :: "(js_string \<times> js_string) list" where
  "priority_filter_items =
     [(js ''all'', js ''Todas''), (priority_str Pr_low, js ''Baixa''),
      (priority_str Pr_medium, js ''M'' @ [233] @ js ''dia''), (priority_str Pr_high, js ''Alta''),
      (priority_str Pr_urgent, js ''Urgente'')]"

record list_controls =
  lc_search :: js_string
  lc_status :: js_string
  lc_priority :: js_string

definition list_controls_render :: "list_filter \<Rightarrow> list_controls" where
  "list_controls_render f =
     \<lparr>lc_search = searchTerm f, lc_status = select_label status_filter_items (statusFilter f),
      lc_priority = select_label priority_filter_items (priorityFilter f)\<rparr>"

datatype list_view = ListEmpty js_string | ListCards "card_view list"

definition empty_list_text :: js_string where
  "empty_list_text = js ''Nenhum chamado encontrado''"

definition list_render :: "int \<Rightarrow> list_filter \<Rightarrow> ticket list \<Rightarrow> js_string option \<Rightarrow> list_view" where
  "list_render now f ts sel =
     (let shown = filteredTickets f ts in
      if shown = [] then ListEmpty empty_list_text
      else ListCards (map (\<lambda>t. card_render now (sel = Some (ticket_id t)) t) shown))"

section \<open>Dates\<close>

text \<open>The calendar date (year, month, day) of a day number counted from 1970-01-01.\<close>

definition civil_from_days :: "int \<Rightarrow> int \<times> int \<times> int" where
  "civil_from_days z0 =
     (let z = z0 + 719468;
          era = z div 146097;
          doe = z - era * 146097;
          yoe = (doe - doe div 1460 + doe div 36524 - doe div 146096) div 365;
          doy = doe - (365 * yoe + yoe div 4 - yoe div 100);
          mp = (5 * doy + 2) div 153;
          d = doy - (153 * mp + 2) div 5 + 1;
          m = (if mp < 10 then mp + 3 else mp - 9);
          y = yoe + era * 400 + (if m \<le> 2 then 1 else 0)
      in (y, m, d))"

definition pad2 :: "int \<Rightarrow> js_string" where
  "pad2 n = (if n < 10 then [48] @ num_toString (nat n) else num_toString (nat n))"

definition toLocaleDateString_ptBR :: "int \<Rightarrow> int \<Rightarrow> js_string" where
  "toLocaleDateString_ptBR tz ms =
     (case civil_from_days ((ms + tz * 60000) div 86400000) of
        (y, m, d) \<Rightarrow> pad2 d @ [47] @ pad2 m @ [47] @ num_toString (nat y))"

section \<open>Details panel\<close>

text \<open>The middle block: the three selects and the input while editing (they show
  \<open>editedTicket\<close>, with \<open>assignedTo || ''\<close>), or the status, priority and category
  badges of the ticket and the assignee row, shown only when \<open>ticket.assignedTo\<close> is a
  non-empty string.\<close>

datatype details_fields =
    EditFields ticket_status ticket_priority js_string
  | ShowFields js_string js_string js_string "js_string option"

record details_view =
  dv_title :: js_string
  dv_description :: js_string
  dv_fields :: details_fields
  dv_requester :: js_string
  dv_requester_email :: js_string
  dv_created :: js_string
  dv_updated :: js_string
  dv_buttons :: "js_string list"

definition details_render :: "int \<Rightarrow> details_state \<Rightarrow> ticket \<Rightarrow> details_view" where
  "details_render tz d t =
     \<lparr>dv_title = title t, dv_description = description t,
      dv_fields =
        (if isEditing d
         then EditFields (status (editedTicket d)) (priority (editedTicket d))
                (case assignedTo (editedTicket d) of Some a \<Rightarrow> a | None \<Rightarrow> [])
         else ShowFields (statusLabels (status t)) (priorityLabels (priority t)) (category t)
                (case assignedTo t of Some a \<Rightarrow> if a = [] then None else Some a | None \<Rightarrow> None)),
      dv_requester = requesterName t, dv_requester_email = requesterEmail t,
      dv_created = toLocaleDateString_ptBR tz (createdAt t),
      dv_updated = toLocaleDateString_ptBR tz (updatedAt t),
      dv_buttons =
        (if isEditing d then [js ''Salvar'', js ''Cancelar''] else [js ''Editar Chamado'']) @
        [js ''Excluir Chamado'']\<rparr>"

section \<open>The new-ticket form\<close>

text \<open>What \<open>TicketForm\<close> shows (\<open>ticket-form.tsx\<close>, lines 45--157): the success banner
  while \<open>submitted\<close> (54--59), the four text fields with their values, the category and
  priority selects, which show the label of the item whose value is selected (the
  category's placeholder while it is empty), and the submit button, disabled while the
  form is not valid (151).\<close>

definition category_items :: "(js_string \<times> js_string) list" where
  "category_items =
     [(js ''Hardware'', js ''Hardware''), (js ''Software'', js ''Software''), (js ''Rede'', js ''Rede''),
      (js ''Email'', js ''Email''), (js ''Acesso'', js ''Acesso e Permiss'' @ [245] @ js ''es''),
      (js ''Telefonia'', js ''Telefonia''), (js ''Outro'', js ''Outro'')]"

definition category_placeholder :: js_string where
  "category_placeholder = js ''Selecione a categoria''"

definition priority_items :: "(ticket_priority \<times> js_string) list" where
  "priority_items =
     [(Pr_low, js ''Baixa''), (Pr_medium, js ''M'' @ [233] @ js ''dia''), (Pr_high, js ''Alta''),
      (Pr_urgent, js ''Urgente'')]"

definition submitted_banner :: js_string where
  "submitted_banner = js ''Chamado criado com sucesso!''"

record form_view =
  fv_banner :: "js_string option"
  fv_requesterName :: js_string
  fv_requesterEmail :: js_string
  fv_title :: js_string
  fv_description :: js_string
  fv_category :: js_string
  fv_priority :: js_string
  fv_submit_enabled :: bool

definition form_render :: "form_state \<Rightarrow> form_view" where
  "form_render fs =
     (let d = formData fs in
      \<lparr>fv_banner = (if submitted fs then Some submitted_banner else None),
       fv_requesterName = d_requesterName d, fv_requesterEmail = d_requesterEmail d,
       fv_title = d_title d, fv_description = d_description d,
       fv_category = (case map_of category_items (d_category d) of Some l \<Rightarrow> l | None \<Rightarrow> category_placeholder),
       fv_priority = (case map_of priority_items (d_priority d) of Some l \<Rightarrow> l | None \<Rightarrow> []),
       fv_submit_enabled = isFormValid d\<rparr>)"

section \<open>The tickets page\<close>

text \<open>The page shows its four counters (lines 89--105), the two tab triggers (109--118)
  and the content of the active tab only (120--153): the list beside the details panel
  or the prompt, or the form.\<close>

definition page_tabs :: "(tab \<times> js_string) list" where
  "page_tabs = [(TabList, js ''Chamados''), (TabNew, js ''Novo Chamado'')]"

datatype side_panel = DetailsPanel details_view | SelectPrompt js_string

datatype tab_view = ListTabView list_controls list_view side_panel | NewTabView form_view

record page_view =
  pv_stats :: ticket_stats
  pv_tabs :: "(js_string \<times> bool) list"
  pv_content :: tab_view

definition select_prompt :: js_string where
  "select_prompt = js ''Selecione um chamado para ver os detalhes''"

definition page_render :: "int \<Rightarrow> int \<Rightarrow> page_state \<Rightarrow> page_view" where
  "page_render now tz ps =
     \<lparr>pv_stats = stats (tickets (store ps)),
      pv_tabs = map (\<lambda>(t, l). (l, active_tab ps = t)) page_tabs,
      pv_content =
        (case active_tab ps of
           TabList \<Rightarrow>
             ListTabView (list_controls_render (list_state ps))
               (list_render now (list_state ps) (tickets (store ps))
                  (map_option ticket_id (selectedTicket (store ps))))
               (case (selectedTicket (store ps), details ps) of
                  (Some t, Some d) \<Rightarrow> DetailsPanel (details_render tz d t)
                | _ \<Rightarrow> SelectPrompt select_prompt)
         | TabNew \<Rightarrow> NewTabView (form_render (form ps)))\<rparr>"

declare card_render_def [eval_simps] empty_list_text_def [eval_simps] list_render_def [eval_simps]
  civil_from_days_def [eval_simps] pad2_def [eval_simps] toLocaleDateString_ptBR_def [eval_simps]
  details_render_def [eval_simps] select_prompt_def [eval_simps] page_render_def [eval_simps]
  category_items_def [eval_simps] category_placeholder_def [eval_simps] priority_items_def [eval_simps]
  submitted_banner_def [eval_simps] form_render_def [eval_simps] page_tabs_def [eval_simps]
  status_filter_items_def [eval_simps] priority_filter_items_def [eval_simps]
  list_controls_render_def [eval_simps]

section \<open>Properties\<close>

lemma list_render_empty_iff:
  "(\<exists>m. list_render now f ts sel = ListEmpty m) \<longleftrightarrow> filteredTickets f ts = []"
  by (simp add: list_render_def Let_def)

lemma filter_selected_distinct:
  "distinct (map g xs) \<Longrightarrow> length (filter (\<lambda>x. sel = Some (g x)) xs) \<le> 1"
proof (induction xs)
  case (Cons x xs)
  then show ?case
    by (cases "sel = Some (g x)") (auto simp: filter_empty_conv le_Suc_eq length_0_conv)
qed simp

lemma distinct_filteredTickets:
  "distinct (map ticket_id ts) \<Longrightarrow> distinct (map ticket_id (filteredTickets f ts))"
  by (simp add: filteredTickets_def distinct_map_filter)

text \<open>C36: the list shows one card per ticket that passes the filters, in order, each with
  its ticket's title and requester, and a card is highlighted exactly when its ticket is
  the selected one; when the identifiers are distinct, exactly one card is highlighted if
  the selected ticket passes the filters, and none otherwise.\<close>

theorem list_render_one_selected:
  assumes "distinct (map ticket_id ts)" and "list_render now f ts sel = ListCards cs"
  shows "length cs = length (filteredTickets f ts) \<and>
         (\<forall>n < length cs.
            cv_title (cs ! n) = title (filteredTickets f ts ! n) \<and>
            cv_requester (cs ! n) = requesterName (filteredTickets f ts ! n) \<and>
            (cv_selected (cs ! n) \<longleftrightarrow> sel = Some (ticket_id (filteredTickets f ts ! n)))) \<and>
         length (filter cv_selected cs) =
           (if \<exists>t \<in> set (filteredTickets f ts). sel = Some (ticket_id t) then 1 else 0)"
proof -
  let ?sh = "filteredTickets f ts"
  have cs: "cs = map (\<lambda>t. card_render now (sel = Some (ticket_id t)) t) ?sh"
    using assms(2) by (simp add: list_render_def Let_def split: if_splits)
  have len: "length (filter cv_selected cs) = length (filter (\<lambda>t. sel = Some (ticket_id t)) ?sh)"
    by (simp add: cs filter_map comp_def card_render_def)
  have le: "length (filter (\<lambda>t. sel = Some (ticket_id t)) ?sh) \<le> 1"
    by (rule filter_selected_distinct [OF distinct_filteredTickets [OF assms(1)]])
  have "length (filter (\<lambda>t. sel = Some (ticket_id t)) ?sh) =
          (if \<exists>t \<in> set ?sh. sel = Some (ticket_id t) then 1 else 0)"
  proof (cases "\<exists>t \<in> set ?sh. sel = Some (ticket_id t)")
    case True
    then have "filter (\<lambda>t. sel = Some (ticket_id t)) ?sh \<noteq> []" by (simp add: filter_empty_conv)
    with le True show ?thesis by (simp add: le_Suc_eq length_0_conv)
  next
    case False
    then show ?thesis by (simp add: filter_empty_conv)
  qed
  with len show ?thesis by (simp add: cs card_render_def)
qed

text \<open>The seed tickets are dated \<open>new Date('2025-11-19')\<close>, midnight UTC; in
  Bras\<acute>ilia (UTC-3) the details panel shows the day before.\<close>

lemma seed_date_shown:
  "toLocaleDateString_ptBR 0 1763510400000 = js ''19/11/2025'' \<and>
   toLocaleDateString_ptBR (-180) 1763510400000 = js ''18/11/2025''"
  by code_simp

lemma category_items_values: "map fst category_items = category_options"
  by (simp add: category_items_def category_options_def)

lemma filter_items_values:
  "map fst status_filter_items = status_filter_options \<and>
   map fst priority_filter_items = priority_filter_options"
  by (simp add: status_filter_items_def status_filter_options_def priority_filter_items_def
                priority_filter_options_def)

lemma initial_filter_ok:
  "statusFilter initial_filter \<in> set status_filter_options \<and>
   priorityFilter initial_filter \<in> set priority_filter_options"
  by (simp add: initial_filter_def status_filter_options_def priority_filter_options_def)

lemma page_filter_inv_step:
  assumes "page_step un ue ps e = Some ps'"
    and "statusFilter (list_state ps) \<in> set status_filter_options"
    and "priorityFilter (list_state ps) \<in> set priority_filter_options"
  shows "statusFilter (list_state ps') \<in> set status_filter_options \<and>
         priorityFilter (list_state ps') \<in> set priority_filter_options"
  using assms initial_filter_ok
  by (cases e)
     (auto simp: edit_details_def edit_form_def select_ticket_def Let_def
           split: if_splits option.splits prod.splits)

lemma page_filter_inv:
  "page_reachable un ue ps \<Longrightarrow>
   statusFilter (list_state ps) \<in> set status_filter_options \<and>
   priorityFilter (list_state ps) \<in> set priority_filter_options"
proof (induction rule: page_reachable.induct)
  case start
  then show ?case by (simp add: initial_page_state_def initial_filter_ok)
next
  case (step ps e ps')
  then show ?case using page_filter_inv_step by blast
qed

text \<open>On the list tab, the search box shows the search term and each filter select shows
  one of its items' labels.\<close>

theorem list_controls_shown:
  assumes "page_reachable un ue ps"
    and "pv_content (page_render now tz ps) = ListTabView c lv p"
  shows "lc_search c = searchTerm (list_state ps) \<and>
         lc_status c \<in> set (map snd status_filter_items) \<and>
         lc_priority c \<in> set (map snd priority_filter_items)"
proof -
  have c: "c = list_controls_render (list_state ps)"
    using assms(2) by (auto simp: page_render_def split: tab.splits)
  have "statusFilter (list_state ps) \<in> fst ` set status_filter_items"
    "priorityFilter (list_state ps) \<in> fst ` set priority_filter_items"
    using page_filter_inv [OF assms(1)] filter_items_values by (metis list.set_map)+
  then show ?thesis
    by (simp add: c list_controls_render_def select_label_mem)
qed

lemma page_form_inv_step:
  assumes "page_step un ue ps e = Some ps'"
    and "submitted (form ps) \<longrightarrow> 0 < form_timers ps"
    and "d_category (formData (form ps)) \<in> insert [] (set category_options)"
  shows "(submitted (form ps') \<longrightarrow> 0 < form_timers ps') \<and>
         d_category (formData (form ps')) \<in> insert [] (set category_options)"
  using assms
  by (cases e)
     (auto simp: edit_details_def edit_form_def set_field_def select_ticket_def Let_def
                 initial_form_def blank_form_def handleSubmit_def handleCancel_def
           split: if_splits option.splits prod.splits form_field.splits)

lemma page_form_inv:
  "page_reachable un ue ps \<Longrightarrow>
   (submitted (form ps) \<longrightarrow> 0 < form_timers ps) \<and>
   d_category (formData (form ps)) \<in> insert [] (set category_options)"
proof (induction rule: page_reachable.induct)
  case start
  then show ?case by (simp add: initial_page_state_def initial_form_def blank_form_def)
next
  case (step ps e ps')
  then show ?case using page_form_inv_step by blast
qed

lemma category_label_placeholder:
  "c \<in> insert [] (set category_options) \<Longrightarrow>
   (case map_of category_items c of Some l \<Rightarrow> l | None \<Rightarrow> category_placeholder) = category_placeholder
   \<longleftrightarrow> c = []"
  by (auto simp: category_items_def category_options_def category_placeholder_def)

text \<open>C15: on the new-ticket tab, in every reachable state of the tickets page, the form shows the success banner only while a hide timer is
  pending, the category placeholder exactly while no category is chosen, and an enabled
  submit button exactly when the page accepts a submission.\<close>

theorem form_view_consistent:
  assumes "page_reachable un ue ps"
    and "pv_content (page_render now tz ps) = NewTabView fv"
  shows "(fv_banner fv \<noteq> None \<longrightarrow> 0 < form_timers ps) \<and>
         (fv_category fv = category_placeholder \<longleftrightarrow> d_category (formData (form ps)) = []) \<and>
         (fv_submit_enabled fv \<longleftrightarrow> page_step un ue ps (SubmitForm n) \<noteq> None)"
proof -
  have tab: "active_tab ps = TabNew" and fv: "fv = form_render (form ps)"
    using assms(2) by (auto simp: page_render_def split: tab.splits)
  show ?thesis
    using page_form_inv [OF assms(1)] category_label_placeholder tab
    by (simp add: fv form_render_def Let_def split: prod.split)
qed

text \<open>Each submission arms its own three-second timer to hide the banner, and the first to
  fire hides it: after two submissions two seconds apart, the banner of the second
  disappears one second after it appeared, with the second timer still pending.\<close>

lemma banner_hidden_by_first_timer:
  "\<exists>ps. page_run (js ''Ana'') (js ''ana@grupolgh.com.br'') (initial_page_state (js ''Ana'') (js ''ana@grupolgh.com.br''))
          [SwitchTab TabNew, FormInput FTitle (js ''Impressora''), FormInput FDescription (js ''Sem papel''),
           FormCategory (js ''Hardware''), SubmitForm 1763600000000,
           FormInput FTitle (js ''Rede lenta''), FormInput FDescription (js ''Wi-Fi''),
           FormCategory (js ''Rede''), SubmitForm 1763600002000, SubmittedTimeout] = Some ps \<and>
        form_timers ps = 1 \<and>
        pv_content (page_render 1763600003000 0 ps) =
          NewTabView (form_render (form ps)) \<and>
        fv_banner (form_render (form ps)) = None"
  by (simp add: initial_page_state_def initial_form_def blank_form_def edit_form_def set_field_def
                category_options_def handleSubmit_def isFormValid_def page_render_def form_render_def)

end
