(* ===== verification/DeleteDialog.thy ===== *)
theory DeleteDialog
  imports TicketsPage
begin

text \<open>
  The confirmation dialog of the details panel's delete button
  (\<open>src/src/components/ticket-details.tsx\<close>, lines 238--259). The \<open>AlertDialog\<close> is
  uncontrolled: its trigger, the \<open>Excluir Chamado\<close> button, opens it; \<open>Cancelar\<close>
  (or Escape) closes it; the action \<open>Excluir\<close> calls \<open>onDeleteTicket(ticket.id)\<close> and
  closes it. It is modal, so while it is open no other control of the page can be used,
  and it is part of \<open>TicketDetails\<close>, so it is closed whenever the panel is unmounted.
  \<open>TicketsPage\<close> models the opening and the confirmation as the one event
  \<open>ConfirmDelete\<close>; \<open>panel_step\<close> composes the page with the dialog's open state, and the
  lemmas show that a ticket is removed only by a confirmation of an opened dialog.
\<close>

record panel_state =
  pnl_page :: page_state
  pnl_dialog :: bool

definition initial_panel :: "js_string \<Rightarrow> js_string \<Rightarrow> panel_state" where
  "initial_panel un ue = \<lparr>pnl_page = initial_page_state un ue, pnl_dialog = False\<rparr>"

datatype panel_event =
    PanelPage page_event
  | OpenDeleteDialog
  | CancelDeleteDialog
  | ConfirmDeleteDialog

fun panel_step :: "js_string \<Rightarrow> js_string \<Rightarrow> panel_state \<Rightarrow> panel_event \<Rightarrow> panel_state option" where
  "panel_step un ue s (PanelPage e) =
     (if pnl_dialog s \<or> e = ConfirmDelete then None
      else map_option (\<lambda>ps'. s\<lparr>pnl_page := ps'\<rparr>) (page_step un ue (pnl_page s) e))"
| "panel_step un ue s OpenDeleteDialog =
     (if \<not> pnl_dialog s \<and> details (pnl_page s) \<noteq> None then Some (s\<lparr>pnl_dialog := True\<rparr>) else None)"
| "panel_step un ue s CancelDeleteDialog =
     (if pnl_dialog s then Some (s\<lparr>pnl_dialog := False\<rparr>) else None)"
| "panel_step un ue s ConfirmDeleteDialog =
     (if pnl_dialog s
      then map_option (\<lambda>ps'. \<lparr>pnl_page = ps', pnl_dialog = False\<rparr>) (page_step un ue (pnl_page s) ConfirmDelete)
      else None)"

fun panel_run :: "js_string \<Rightarrow> js_string \<Rightarrow> panel_state \<Rightarrow> panel_event list \<Rightarrow> panel_state option" where
  "panel_run un ue s [] = Some s"
| "panel_run un ue s (e # es) =
     (case panel_step un ue s e of None \<Rightarrow> None | Some s' \<Rightarrow> panel_run un ue s' es)"

inductive panel_reachable :: "js_string \<Rightarrow> js_string \<Rightarrow> panel_state \<Rightarrow> bool" for un ue where
  start: "panel_reachable un ue (initial_panel un ue)"
| step: "panel_reachable un ue s \<Longrightarrow> panel_step un ue s e = Some s' \<Longrightarrow> panel_reachable un ue s'"

declare initial_panel_def [eval_simps]

lemma ticket_ids_select [simp]: "ticket_ids (st\<lparr>selectedTicket := x\<rparr>) = ticket_ids st"
  by (simp add: ticket_ids_def)

lemma page_step_keeps_ids:
  assumes "page_step un ue ps e = Some ps'" and "e \<noteq> ConfirmDelete"
  shows "set (ticket_ids (store ps)) \<subseteq> set (ticket_ids (store ps'))"
  using assms
  by (cases e) (auto simp: select_ticket_def edit_details_def edit_form_def Let_def
                    handleSubmit_def handleSave_def split: if_splits option.splits prod.splits)

lemma panel_step_keeps_ids:
  assumes "panel_step un ue s e = Some s'" and "e \<noteq> ConfirmDeleteDialog"
  shows "set (ticket_ids (store (pnl_page s))) \<subseteq> set (ticket_ids (store (pnl_page s')))"
  using assms
  by (cases e) (auto split: if_splits intro: page_step_keeps_ids [THEN subsetD])

lemma panel_inv_step:
  assumes "panel_step un ue s e = Some s'" and "pnl_dialog s \<longrightarrow> details (pnl_page s) \<noteq> None"
  shows "pnl_dialog s' \<longrightarrow> details (pnl_page s') \<noteq> None"
  using assms by (cases e) (auto split: if_splits)

lemma panel_step_page:
  "panel_step un ue s e = Some s' \<Longrightarrow>
   pnl_page s' = pnl_page s \<or> (\<exists>e'. page_step un ue (pnl_page s) e' = Some (pnl_page s'))"
  by (cases e) (auto split: if_splits simp del: page_step.simps)

lemma panel_reachable_page:
  "panel_reachable un ue s \<Longrightarrow>
   page_reachable un ue (pnl_page s) \<and> (pnl_dialog s \<longrightarrow> details (pnl_page s) \<noteq> None)"
proof (induction rule: panel_reachable.induct)
  case start
  then show ?case by (simp add: initial_panel_def page_reachable.start)
next
  case (step s e s')
  then have "page_reachable un ue (pnl_page s')"
    using panel_step_page [OF step.hyps(2)] by (auto intro: page_reachable.step)
  with step panel_inv_step show ?case by blast
qed

text \<open>C12: a run of the page with its dialog removes a ticket only through a confirmation:
  every identifier present before a run without \<open>ConfirmDeleteDialog\<close> is still there
  after it, and a confirmation is accepted only while the dialog is open, which needs an
  \<open>OpenDeleteDialog\<close> on a shown panel since it was last closed.\<close>

theorem panel_run_keeps_ids:
  assumes "panel_run un ue s es = Some s'" and "ConfirmDeleteDialog \<notin> set es"
  shows "set (ticket_ids (store (pnl_page s))) \<subseteq> set (ticket_ids (store (pnl_page s')))"
  using assms
proof (induction es arbitrary: s)
  case (Cons e es)
  then obtain s1 where s1: "panel_step un ue s e = Some s1" and r: "panel_run un ue s1 es = Some s'"
    by (auto split: option.splits)
  have "e \<noteq> ConfirmDeleteDialog" using Cons.prems(2) by auto
  then have "set (ticket_ids (store (pnl_page s))) \<subseteq> set (ticket_ids (store (pnl_page s1)))"
    by (rule panel_step_keeps_ids [OF s1])
  also have "\<dots> \<subseteq> set (ticket_ids (store (pnl_page s')))"
    using Cons.IH [OF r] Cons.prems(2) by simp
  finally show ?case .
qed simp

lemma confirm_needs_open:
  "panel_step un ue s ConfirmDeleteDialog = Some s' \<Longrightarrow> pnl_dialog s \<and> \<not> pnl_dialog s'"
  by (auto split: if_splits)

end
