(* ===== verification/Spec2Isabelle.thy ===== *)
theory Spec2Isabelle
  imports ValidatorSpec Bootstrap Shell OldLogin TicketRender DeleteDialog
begin

text \<open>
  \<^bold>\<open>A verification development of the helpdesk client's Google sign-in flow.\<close>

  \<^bold>\<open>The program.\<close> The repository is a single-page React application
  (\<open>src/src/App.tsx\<close>, \<open>src/src/components/*.tsx\<close>) whose only non-trivial logic is
  the authentication service \<open>src/src/services/auth-service.ts\<close>. That service has two
  collaborating parts. The bootstrapper (\<open>initializeGoogle\<close>, \<open>setupGoogleClient\<close>,
  \<open>renderLoginButton\<close>, \<open>handleCredentialResponse\<close>, \<open>logout\<close>) loads the Google
  Identity SDK once, registers a credential callback and relays each credential as a
  \<open>googleSignInSuccess\<close> window event. The validator (\<open>decodeJwt\<close>,
  \<open>validateToken\<close>) splits the JWT, decodes its payload with \<open>atob\<close> and
  \<open>JSON.parse\<close>, and accepts the user only if the email ends with the configured domain
  and is verified. The configuration (\<open>GOOGLE_CLIENT_ID\<close>, \<open>ALLOWED_DOMAIN\<close>,
  \<open>validateEnvironment\<close>, \<open>getConfig\<close>) is read once from the Vite environment. The
  \<open>useAuth\<close> hook wraps both parts for \<open>login-page.tsx\<close>, which listens for the
  event, validates the credential and hands the user to \<open>App\<close>. Once signed in,
  \<open>App\<close> renders \<open>MainLayout\<close> (\<open>main-layout-old.tsx\<close>), which mounts one of three
  pages: the tickets page keeps a list of tickets in component state (create, update,
  delete, filter, statistics), the reports page shows fixed figures, and the settings page
  keeps a few preferences.

  \<^bold>\<open>The library.\<close>
  \<^item> \<open>Prelude\<close>: JavaScript strings as lists of UTF-16 code units (\<open>16 word list\<close>),
    literals \<open>js ''...''\<close>, the collection \<open>eval_simps\<close> and shared list lemmas.
  \<^item> \<open>JsString\<close>: the ECMAScript built-ins the service calls (\<open>split\<close>, \<open>join\<close>,
    \<open>endsWith\<close>, \<open>startsWith\<close>, global one-character \<open>replace\<close>), related to the
    list library; split/join round trips.
  \<^item> \<open>Base64\<close>: \<open>atob\<close> as the WHATWG forgiving-base64 decoder, the issuer's encoder
    and the round trip \<open>atob (b64_encode bs) = Some bs\<close>.
  \<^item> \<open>Json\<close>: JSON values, \<open>JSON.parse\<close> as a recursive-descent parser with fuel,
    property access (last duplicate wins) and JavaScript truthiness.
  \<^item> \<open>Config\<close>: the environment record and the module constants of lines 14--18,
    \<open>validateEnvironment\<close> and \<open>getConfig\<close>.
  \<^item> \<open>Validator\<close>: \<open>decodeJwt\<close>, \<open>validateToken\<close> (split into the payload checks
    \<open>check_payload\<close>, the user builder \<open>user_of_claims\<close>, the issuer warning and the
    \<open>catch\<close> block \<open>reject\<close>) and the hook's \<open>validateToken\<close>.
  \<^item> \<open>Bootstrap\<close>: the bootstrapper as a state machine. The record \<open>page\<close> is what
    the service changes in the browser (\<open>window.google\<close>, appended script elements, calls
    of \<open>google.accounts.id.initialize\<close>, dispatched \<open>googleSignInSuccess\<close> events); the
    record \<open>init_call\<close> is one call of \<open>initializeGoogle\<close> (its promise, its script
    element, its timer). \<open>initializeGoogle\<close>, \<open>setupGoogleClient\<close>, the callbacks
    \<open>script_onload\<close> (the second assignment, lines 124--135, the one in force),
    \<open>script_onerror\<close> and \<open>load_timeout\<close>, \<open>handleCredentialResponse\<close>,
    \<open>logout\<close>, \<open>setTokenCallback\<close> and \<open>renderLoginButton\<close> are functions on them.
    \<open>boot_step\<close> dispatches the browser's events (a call, a script load or error, a
    timer, a credential) in any order the browser may deliver them, \<open>boot_run\<close> runs a
    sequence and \<open>boot_reachable\<close> is the set of reachable states, with the invariant
    \<open>boot_inv\<close> proved by rule induction.
  \<^item> \<open>ValidatorSpec\<close>: the validator's contract as section 4.2 of the specification
    states it (\<open>spec_validate\<close> on the decoded claims, with the four error kinds), the
    abstraction \<open>outcome_abs\<close> of the code's outcome and the refinement lemma.
  \<^item> \<open>Login\<close>: the \<open>useAuth\<close> hook's state (\<open>isLoading\<close>, \<open>error\<close>,
    \<open>isInitialized\<close>) with its \<open>initializeGoogle\<close> split at the \<open>await\<close>
    (\<open>hook_init_begin\<close>, \<open>hook_init_settle\<close>), \<open>LoginPage\<close> of \<open>login-page.tsx\<close>
    (the 500 ms mount timer, the button effect, the \<open>googleSignInSuccess\<close> listener
    \<open>handleGoogleSignIn\<close> and its delayed \<open>onLogin\<close>, the conditional panels
    \<open>view_of\<close>) and \<open>App\<close>'s user state, composed with the bootstrapper: the step
    function \<open>app_step\<close> runs a \<open>boot_step\<close> and then the awaiting continuation
    (\<open>flush\<close>, a microtask), and \<open>app_reachable\<close> has the invariant \<open>app_inv\<close>.
  \<^item> \<open>Tickets\<close>: the \<open>Ticket\<close> interface of \<open>App.tsx\<close> as a record (a \<open>Date\<close> is its
    time value in milliseconds), the seed list and the handlers \<open>handleCreateTicket\<close>,
    \<open>handleUpdateTicket\<close>, \<open>handleDeleteTicket\<close> and the statistics of
    \<open>tickets-page.tsx\<close>; identifiers are \<open>Date.now().toString()\<close> (\<open>num_toString\<close>).
  \<^item> \<open>TicketViews\<close>: the search and filters of \<open>ticket-list.tsx\<close>, the labels and
    \<open>getTimeAgo\<close> of \<open>ticket-card.tsx\<close>, the labels of \<open>ticket-details.tsx\<close> and the
    form state, validity and \<open>handleSubmit\<close> of \<open>ticket-form.tsx\<close>.
  \<^item> \<open>TicketsPage\<close>: the page with its tabs and mounted children (list filter state,
    the details editor's \<open>isEditing\<close>/\<open>editedTicket\<close>, the form) as the step function
    \<open>page_step\<close> on user actions, the runs \<open>page_run\<close> and the reachable set
    \<open>page_reachable\<close> with its invariant \<open>tickets_inv\<close>.
  \<^item> \<open>Settings\<close>: the settings page's state, its setters and alert-only save
    handlers (\<open>settings_step\<close>, \<open>settings_run\<close>), \<open>toUpperCase\<close> and the fields derived
    from the user's name (initials, first and last name), and the render; its tabs and
    the uncontrolled department, language and time-zone selects (\<open>settings_widgets\<close>,
    \<open>widgets_step\<close>), which start again from their default whenever their tab is
    mounted anew, and the system tab's render.
  \<^item> \<open>Reports\<close>: the reports page's data series, key figures, status breakdown, pie
    labels and category bars; the rendered page (\<open>reports_render\<close>: the period select,
    the four key-figure cards, the tabs and the active tab's content) over the state of
    its uncontrolled period select and tabs (\<open>reports_step\<close>, \<open>reports_reachable\<close>).
  \<^item> \<open>Layout\<close>: \<open>MainLayout\<close>: \<open>currentPage\<close>, the navigation handlers, the mounting
    and unmounting of the pages (the state of the mounted tickets page is a
    \<open>page_state\<close> stepped by \<open>page_step\<close>, that of the settings page a
    \<open>settings_state\<close> stepped by \<open>settings_step\<close>), the header render, and the
    reachable set \<open>layout_reachable\<close> with its invariant \<open>layout_inv\<close>.
  \<^item> \<open>Shell\<close>: \<open>App\<close> with both children: the login flow's \<open>app_state\<close> and the
    mounted layout, \<open>app_rerender\<close> after every event of the login flow (mount, new
    \<open>user\<close> prop, unmount, crash of the tree when the layout's render throws),
    \<open>shell_step\<close>, \<open>shell_reachable\<close> and the invariant \<open>shell_inv\<close>.
  \<^item> \<open>TicketRender\<close>: what the cards, the list and its search and filter controls,
    the details panel, the new-ticket form and the tickets page show (only the active
    tab's content), with \<open>toLocaleDateString('pt-BR')\<close> over \<open>civil_from_days\<close> in a
    time zone given as a parameter.
  \<^item> \<open>DeleteDialog\<close>: the details panel's delete confirmation (\<open>AlertDialog\<close> of
    \<open>ticket-details.tsx\<close>) composed with the tickets page: \<open>panel_step\<close> over the page
    state and the dialog's open flag, with the modal dialog blocking the page.
  \<^item> \<open>OldLogin\<close>: the legacy \<open>login-page-old.tsx\<close> (not rendered by \<open>App\<close>): its email
    field and timer callback with the domain check, the format regular expression
    (\<open>emailRegex_test\<close>, proved equal to its language \<open>emailRegex_lang\<close>), the display name
    and the avatar URL built with \<open>encodeURIComponent\<close>.
  \<^item> this theory: the scenarios of the specification run end to end on concrete tokens,
    and the witnesses of the conditional theorems.

  \<^bold>\<open>What the theorems show.\<close> Malformed tokens are rejected (C1); the domain rule
  and the verified-email rule reject exactly as specified (C2, C4); \<open>validateToken\<close>
  accepts exactly the tokens whose payload passes every rule, and builds the user from
  those claims (C5), defaulting the name to the local part of the email (C6); the decoder
  inverts a JWT issuer's encoding (C7, through the Base64 round trip
  \<open>atob_b64_encode\<close>); a payload without an email is rejected (C3); a non-string email
  is a \<open>TypeError\<close> rejection (C8); the issuer check is advisory (C9); the header and
  the signature are never looked at, so a forged signature goes unnoticed (C10);
  \<open>validateEnvironment\<close> only ever reports a missing client identifier (lemma
  \<open>validateEnvironment_eq\<close>), because the allowed domain always starts with \<open>@\<close>
  (lemma \<open>ALLOWED_DOMAIN_starts_with_at\<close>). On every payload that fits the
  specification's data model \<open>validateToken\<close> refines the specification's
  \<open>validate\<close>: same error kind, same order of checks, same accepted email (C31). The
  specification's scenarios hold (lemmas \<open>scenario_ana_accepted\<close>,
  \<open>scenario_bob_rejected\<close>); a name with a non-ASCII letter comes out as its UTF-8 bytes
  read as Latin-1 (lemma \<open>validateToken_utf8_name_garbled\<close>); the \<open>JSON.parse\<close> inside
  \<open>decodeJwt\<close> always terminates (lemma \<open>decodeJwt_parse_total\<close>).
  For the bootstrapper: a configuration error rejects without touching
  the page (C17); in every reachable state a pending call is loading with its timer armed
  (C18), so the timer can always settle it (C19); once configured, credential callbacks
  are relayed in order, each non-empty credential exactly once (C20); once the SDK is on
  the page no event appends another script (C21); a credential is relayed only after the
  client was configured (C22); a load after the timeout leaves the call rejected but
  still configures the client (C23); two early calls inject two scripts (lemma
  \<open>boot_double_initialize\<close>), and the button is rendered exactly when the SDK and the
  mount point are there (lemma \<open>renderLoginButton_rendered\<close>).
  For the tickets: every stored ticket keeps non-empty required fields (C26); the details
  panel is shown exactly for a selection the store holds (C27); a submission is accepted
  exactly on the new tab with a valid form and puts the new ticket in front (C25); the
  identifier, texts, category, requester and creation time of the tickets, in order,
  change only by creation and deletion (C28); the identifiers stay distinct as long as
  the clock readings are (C29); the list shows one card per filtered ticket and
  highlights exactly the selected one (C36); the details editor keeps the ticket it was
  opened with, so saving after another selection writes that ticket and not the one
  clicked (C37); the form's banner, category placeholder and submit button agree with
  the page's state (C15); and with the delete dialog, a ticket leaves the store only
  through a confirmation of an opened dialog (C12). The first of two banner timers hides
  the second submission's banner early (lemma \<open>banner_hidden_by_first_timer\<close>).
  For the login flow: whoever \<open>App\<close> holds as signed in was accepted by
  \<open>validateToken\<close> for a relayed credential, so has an email in the allowed domain
  (C38); a rejected credential changes nothing on screen (C39); and the page never stays
  loading: at most the mount timer and the service's timeout end it (C40). Lemmas of
  \<open>Login\<close> show that the amber fallback panel is never shown, that the setup
  instructions appear exactly for a configuration error and that following them clears
  it (\<open>apply_setup_valid\<close>), while the footer names \<open>@grupolgh.com.br\<close> whatever domain
  is configured (\<open>footer_domain_not_configured\<close>).
  For the signed-in shell: every page mounted in a reachable layout state is a reachable
  state of its own model, so the tickets page's invariant holds inside the layout (C11);
  leaving the tickets page and coming back discards every change made to the tickets
  (C13), and leaving the settings page resets its switches and theme (C33); the settings
  page's theme stays one of its select's values (C34), its profile fields give the name
  back (C35), and the language and time zone chosen in its system tab are lost on a tab
  change (C16). Composed with the sign-in flow, a mounted layout always shows
  \<open>App\<close>'s current user, who was accepted by \<open>validateToken\<close> (C14); a user whose name
  is not a string, which the validator lets in, unmounts the whole tree (C30). The
  reports page's figures are checked against its series (lemmas
  \<open>reports_figures_consistent\<close>, \<open>reports_render_consistent\<close>,
  \<open>kpi_change_not_series\<close>). The details panel dates a ticket created at midnight UTC one
  day earlier in Bras\<acute>ilia (lemma \<open>seed_date_shown\<close>); the card's relative time is
  the direct floor by day, hour and minute (lemma \<open>getTimeAgo_eq_ref\<close>).
  For the legacy login page: every user it hands to \<open>onLogin\<close> passed both checks
  (C24), its format check being exactly its regular expression (lemma
  \<open>emailRegex_test_iff\<close>); and an email with a lone surrogate makes
  \<open>encodeURIComponent\<close> throw inside the timer, so the page hangs on
  \<open>Autenticando...\<close> with every control disabled (C32).

  \<^bold>\<open>Bounds and fuel.\<close> \<open>JSON.parse\<close> runs \<open>parse_value\<close> with fuel
  \<open>2 * length s + 1\<close>: a nesting level spends two units (the value and its element or
  member loop) for at least one code unit, so the fuel never runs out
  (\<open>parse_fuel_enough\<close>), and more fuel never changes the answer (\<open>parse_fuel_mono\<close>);
  the lemma \<open>decodeJwt_parse_total\<close> states it for the parse inside \<open>decodeJwt\<close>. The bootstrapper needs no fuel: its time is
  the sequence of events, and the 10-second timeout is the event \<open>TimerFires i\<close>, enabled
  while call \<open>i\<close>'s timer is armed (C19 shows it always is while the call is pending).
  Code units are 16-bit words as in JavaScript;
  \<open>atob\<close> produces units below 256.

  \<^bold>\<open>Plan.\<close> Modelled first, because it decides who gets in: the configuration and the
  validator, then the bootstrapper, then the tickets page and the login flow, then the
  signed-in shell and its pages, their rendering and \<open>App\<close>'s composition of the login
  flow with the layout, and the legacy login page; last, the rendered content of every
  page with the state of its uncontrolled widgets (reports, settings, the delete dialog).
  Left open: a printer/parser round trip for \<open>JSON.parse\<close>, the calendar conversion's
  round trip, and the widgets' state inside \<open>MainLayout\<close>.

  \<^bold>\<open>Not modelled.\<close> Rendering beyond the values a page shows (JSX, CSS classes,
  icons, chart drawing, static headings), the delete dialog, reports widgets and
  settings widgets inside \<open>MainLayout\<close> (each is composed with its page alone; the layout
  steps the tickets page by \<open>page_step\<close>, where opening and confirming the dialog is the
  one event \<open>ConfirmDelete\<close>), the browser's
  \<open>type="email"\<close> constraint validation, time zones with daylight-saving rules (the zone
  is a fixed offset), the SDK's own behaviour beyond what the service observes, and
  the rounding of JSON numbers to IEEE doubles.
\<close>

section \<open>Example environments and tokens\<close>

definition example_env :: vite_env where
  "example_env =
     \<lparr>VITE_GOOGLE_CLIENT_ID = Some (js ''helpdesk-client.apps.googleusercontent.com''),
      VITE_GOOGLE_WORKSPACE_DOMAIN = Some (js ''@example-corp.example''),
      MODE = js ''development''\<rparr>"

definition default_env :: vite_env where
  "default_env =
     \<lparr>VITE_GOOGLE_CLIENT_ID = Some (js ''helpdesk-client.apps.googleusercontent.com''),
      VITE_GOOGLE_WORKSPACE_DOMAIN = None, MODE = js ''production''\<rparr>"

text \<open>Header \<open>{"alg":"RS256","typ":"JWT"}\<close>, signature \<open>sig\<close>, and the payloads:\<close>

definition token_ana :: js_string where
  \<comment> \<open>\<open>{"email":"ana@example-corp.example","email_verified":true,"name":"Ana Lima"}\<close>\<close>
  "token_ana = js ''eyJhbGciOiJSUzI1NiIsInR5cCI6IkpXVCJ9.eyJlbWFpbCI6ImFuYUBleGFtcGxlLWNvcnAuZXhhbXBsZSIsImVtYWlsX3ZlcmlmaWVkIjp0cnVlLCJuYW1lIjoiQW5hIExpbWEifQ.c2ln''"

definition token_bob :: js_string where
  \<comment> \<open>\<open>{"email":"bob@other.example","email_verified":true}\<close>\<close>
  "token_bob = js ''eyJhbGciOiJSUzI1NiIsInR5cCI6IkpXVCJ9.eyJlbWFpbCI6ImJvYkBvdGhlci5leGFtcGxlIiwiZW1haWxfdmVyaWZpZWQiOnRydWV9.c2ln''"

definition token_joao :: js_string where
  \<comment> \<open>\<open>{"email":"joao@grupolgh.com.br","email_verified":true,"name":"Jo\<dots>o"}\<close>, the name
      with U+00E3 encoded in UTF-8 as the bytes 0xC3 0xA3\<close>
  "token_joao = js ''eyJhbGciOiJSUzI1NiIsInR5cCI6IkpXVCJ9.eyJlbWFpbCI6ImpvYW9AZ3J1cG9sZ2guY29tLmJyIiwiZW1haWxfdmVyaWZpZWQiOnRydWUsIm5hbWUiOiJKb8OjbyJ9.c2ln''"

definition token_unverified :: js_string where
  \<comment> \<open>\<open>{"email":"ana@example-corp.example","email_verified":false}\<close>\<close>
  "token_unverified = js ''eyJhbGciOiJSUzI1NiIsInR5cCI6IkpXVCJ9.eyJlbWFpbCI6ImFuYUBleGFtcGxlLWNvcnAuZXhhbXBsZSIsImVtYWlsX3ZlcmlmaWVkIjpmYWxzZX0.c2ln''"

definition token_evil_iss :: js_string where
  \<comment> \<open>\<open>{"email":"ana@example-corp.example","email_verified":true,"iss":"evil"}\<close>\<close>
  "token_evil_iss = js ''eyJhbGciOiJSUzI1NiIsInR5cCI6IkpXVCJ9.eyJlbWFpbCI6ImFuYUBleGFtcGxlLWNvcnAuZXhhbXBsZSIsImVtYWlsX3ZlcmlmaWVkIjp0cnVlLCJpc3MiOiJldmlsIn0.c2ln''"

definition token_no_name :: js_string where
  \<comment> \<open>\<open>{"email":"ana@example-corp.example","email_verified":true}\<close>\<close>
  "token_no_name = js ''eyJhbGciOiJSUzI1NiIsInR5cCI6IkpXVCJ9.eyJlbWFpbCI6ImFuYUBleGFtcGxlLWNvcnAuZXhhbXBsZSIsImVtYWlsX3ZlcmlmaWVkIjp0cnVlfQ.c2ln''"

definition token_numeric_email :: js_string where
  \<comment> \<open>\<open>{"email":5,"email_verified":true}\<close>\<close>
  "token_numeric_email = js ''eyJhbGciOiJSUzI1NiIsInR5cCI6IkpXVCJ9.eyJlbWFpbCI6NSwiZW1haWxfdmVyaWZpZWQiOnRydWV9.c2ln''"

definition token_numeric_name :: js_string where
  \<comment> \<open>\<open>{"email":"ana@example-corp.example","email_verified":true,"name":7}\<close>\<close>
  "token_numeric_name = js ''eyJhbGciOiJSUzI1NiIsInR5cCI6IkpXVCJ9.eyJlbWFpbCI6ImFuYUBleGFtcGxlLWNvcnAuZXhhbXBsZSIsImVtYWlsX3ZlcmlmaWVkIjp0cnVlLCJuYW1lIjo3fQ.c2ln''"

definition no_client_env :: vite_env where
  "no_client_env =
     \<lparr>VITE_GOOGLE_CLIENT_ID = None, VITE_GOOGLE_WORKSPACE_DOMAIN = None, MODE = js ''development''\<rparr>"

text \<open>The bootstrapper after one \<open>initializeGoogle\<close> on a page without the SDK: the
  script is loading and its timer is armed.\<close>

definition boot_loading :: boot_state where
  "boot_loading =
     \<lparr>pg = initial_page\<lparr>appended_scripts := 1\<rparr>,
      calls = [\<lparr>promise = Pending, script = Loading, script_attached = True, timer_armed = True\<rparr>]\<rparr>"

text \<open>The signed-in user the tickets page is shown to.\<close>

definition demo_name :: js_string where "demo_name = js ''Ana Lima''"

definition demo_email :: js_string where "demo_email = js ''ana@example-corp.example''"

definition ana_user :: user where
  "ana_user = \<lparr>email = js ''ana@example-corp.example'', name = JStr (js ''Ana Lima''), picture = None\<rparr>"

definition ana_claims :: "(js_string \<times> json) list" where
  "ana_claims = [(js ''email'', JStr (js ''ana@example-corp.example'')),
                 (js ''email_verified'', JBool True)]"

text \<open>Emails typed into the legacy login page: an ordinary one, and one whose local part
  holds a lone high surrogate (U+D83D without its low half).\<close>

definition maria_email :: js_string where
  "maria_email = js ''maria.silva@grupolgh.com.br''"

definition surrogate_email :: js_string where
  "surrogate_email = js ''jo'' @ [55357] @ js ''o@grupolgh.com.br''"

section \<open>The specification's scenarios\<close>

text \<open>The specification's first scenario: a verified token of
  \<open>ana@example-corp.example\<close> named \<open>Ana Lima\<close> is accepted under the domain
  \<open>@example-corp.example\<close>, with no console output.\<close>

lemma scenario_ana_accepted:
  "validateToken example_env token_ana =
     (Inr \<lparr>email = js ''ana@example-corp.example'', name = JStr (js ''Ana Lima''),
           picture = None\<rparr>, [])"
  by code_simp

text \<open>The second scenario: \<open>bob@other.example\<close> is rejected with
  \<open>DomainNotAllowed\<close>, and the rejection is logged.\<close>

theorem scenario_bob_rejected:
  "validateToken example_env token_bob =
     reject (DomainNotAllowed (js ''@example-corp.example'') (js ''bob@other.example''))"
  by code_simp

text \<open>A display name with a non-ASCII letter is garbled: the payload's UTF-8 bytes
  0xC3 0xA3 for U+00E3 become two code units, so the name is not the four units
  \<open>J o U+00E3 o\<close> the token carries.\<close>

lemma validateToken_utf8_name_garbled:
  "validateToken default_env token_joao =
     (Inr \<lparr>email = js ''joao@grupolgh.com.br'', name = JStr (js ''Jo'' @ [195, 163] @ js ''o''),
           picture = None\<rparr>, [])"
  by code_simp

text \<open>A token whose \<open>name\<close> claim is a number is accepted: the validator checks
  the email and its verification, not the type of the name, and the user it returns
  carries the number as its name. The first render of the signed-in layout then calls
  \<open>user.name.split(' ')\<close> on it and throws, so the user is let in and shown no page.\<close>

lemma numeric_name_crashes_layout:
  "validateToken example_env token_numeric_name =
     (Inr \<lparr>email = js ''ana@example-corp.example'', name = JNum 7 0, picture = None\<rparr>, []) \<and>
   layout_mount \<lparr>email = js ''ana@example-corp.example'', name = JNum 7 0, picture = None\<rparr> = None"
proof
  show "validateToken example_env token_numeric_name =
     (Inr \<lparr>email = js ''ana@example-corp.example'', name = JNum 7 0, picture = None\<rparr>, [])"
    by code_simp
qed (simp add: layout_mount_def)

section \<open>Witnesses\<close>

theorem validateToken_segment_count_witness:
  "js ''a.b'' \<noteq> [] \<and> length (js_split 46 (js ''a.b'')) \<noteq> 3 \<and>
   fst (validateToken example_env (js ''a.b'')) = Inl (TokenInvalid TokenFormatInvalid)"
proof -
  have h1: "js ''a.b'' \<noteq> []" by simp
  have h2: "length (js_split 46 (js ''a.b'')) \<noteq> 3" by code_simp
  show ?thesis using validateToken_segment_count [OF h1 h2] h1 h2 by simp
qed

theorem validateToken_email_missing_witness:
  "fst (validateToken example_env (js ''eyJhbGciOiJub25lIn0.e30.c2ln'')) = Inl EmailMissing"
proof -
  have h1: "decodeJwt (js ''eyJhbGciOiJub25lIn0.e30.c2ln'') = Inr (JObj [])" by code_simp
  have h2: "js_truthy (JObj [])" by simp
  have h3: "\<not> truthy_opt (get_prop (JObj []) (js ''email''))" by simp
  show ?thesis by (rule validateToken_email_missing [OF h1 h2 h3])
qed

theorem validateToken_domain_not_allowed_witness:
  "fst (validateToken example_env token_bob) =
     Inl (DomainNotAllowed (ALLOWED_DOMAIN example_env) (js ''bob@other.example''))"
proof -
  have h1: "decodeJwt token_bob =
    Inr (JObj [(js ''email'', JStr (js ''bob@other.example'')), (js ''email_verified'', JBool True)])"
    by code_simp
  have h2: "\<not> js_endsWith (js ''bob@other.example'') (ALLOWED_DOMAIN example_env)"
    by code_simp
  show ?thesis by (rule validateToken_domain_not_allowed [OF h1 _ _ h2]) simp_all
qed

theorem validateToken_not_verified_witness:
  "fst (validateToken example_env token_unverified) = Inl EmailNotVerified"
proof -
  have h1: "decodeJwt token_unverified =
    Inr (JObj [(js ''email'', JStr (js ''ana@example-corp.example'')), (js ''email_verified'', JBool False)])"
    by code_simp
  have h2: "js_endsWith (js ''ana@example-corp.example'') (ALLOWED_DOMAIN example_env)"
    by code_simp
  show ?thesis by (rule validateToken_not_verified [OF h1 _ h2]) simp_all
qed

theorem validateToken_name_default_witness:
  "fst (validateToken example_env token_no_name) =
     Inr \<lparr>email = js ''ana@example-corp.example'', name = JStr (js ''ana''), picture = None\<rparr>"
proof -
  have h0: "fst (validateToken example_env token_no_name) =
     Inr \<lparr>email = js ''ana@example-corp.example'', name = JStr (js ''ana''), picture = None\<rparr>"
    by code_simp
  have h1: "decodeJwt token_no_name = Inr (JObj ana_claims)"
    by code_simp
  have h2: "\<not> truthy_opt (get_prop (JObj ana_claims) (js ''name''))"
    by (simp add: ana_claims_def)
  note validateToken_name_default [OF h0 h1 h2]
  with h0 show ?thesis by simp
qed

theorem validateToken_email_not_string_witness:
  "fst (validateToken example_env token_numeric_email) = Inl EmailNotString"
proof -
  have h1: "decodeJwt token_numeric_email =
    Inr (JObj [(js ''email'', JNum 5 0), (js ''email_verified'', JBool True)])"
    by code_simp
  have h2: "get_prop (JObj [(js ''email'', JNum 5 0), (js ''email_verified'', JBool True)])
             (js ''email'') = Some (JNum 5 0)" by simp
  have h3: "js_truthy (JNum 5 0)" by simp
  have h4: "\<forall>s. JNum 5 0 \<noteq> JStr s" by simp
  show ?thesis by (rule validateToken_email_not_string [OF h1 h2 h3 h4])
qed

theorem decodeJwt_base64url_witness:
  "decodeJwt (js ''eyJhbGciOiJub25lIn0'' @ 46 # base64url_encode [123, 125] @ 46 # js ''c2ln'') =
     Inr (JObj [])"
proof -
  have h1: "46 \<notin> set (js ''eyJhbGciOiJub25lIn0'')" by code_simp
  have h2: "46 \<notin> set (js ''c2ln'')" by code_simp
  have h3: "JSON_parse (map ucast [123, 125 :: byte]) = Some (JObj [])" by code_simp
  show ?thesis using decodeJwt_base64url [OF h1 h2, of "[123, 125]"] h3 by simp
qed

theorem validateToken_issuer_advisory_witness:
  "fst (validateToken example_env token_no_name) = fst (validateToken example_env token_evil_iss)"
proof -
  have h1: "decodeJwt token_no_name = Inr (JObj ana_claims)"
    by code_simp
  have h2: "decodeJwt token_evil_iss = Inr (JObj (ana_claims @ [(js ''iss'', JStr (js ''evil''))]))"
    by code_simp
  show ?thesis by (rule validateToken_issuer_advisory [OF h1 h2])
qed


subsection \<open>Witnesses of the bootstrapper's properties\<close>

lemma example_env_valid: "validateEnvironment example_env = None"
  by (simp add: example_env_def eval_simps)

lemma boot_loading_run: "boot_run example_env initial_boot [Initialize] = Some boot_loading"
  using example_env_valid
  by (simp add: boot_loading_def initial_boot_def initial_page_def initializeGoogle_def)

lemma boot_loading_reachable: "boot_reachable example_env boot_loading"
  by (rule boot_run_reachable [OF boot_reachable.start boot_loading_run])

theorem initializeGoogle_sdk_present_witness:
  "initializeGoogle example_env (initial_page\<lparr>window_google := True\<rparr>) =
     (initial_page\<lparr>window_google := True, client_initializations := 1,
                   sdk_callback_registered := True\<rparr>, settled_call Resolved)"
proof -
  have h1: "window_google (initial_page\<lparr>window_google := True\<rparr>)" by simp
  show ?thesis
    using initializeGoogle_sdk_present [OF h1 example_env_valid] by (simp add: initial_page_def)
qed

theorem initializeGoogle_env_invalid_witness:
  "initializeGoogle no_client_env initial_page =
     (initial_page, settled_call (Rejected (EnvInvalid ClientIdNotConfigured)))"
proof -
  have h1: "validateEnvironment no_client_env = Some ClientIdNotConfigured"
    by (simp add: no_client_env_def eval_simps)
  show ?thesis by (rule initializeGoogle_env_invalid [OF h1])
qed

theorem boot_pending_waits_witness:
  "promise (calls boot_loading ! 0) = Pending \<and>
   script (calls boot_loading ! 0) = Loading \<and> timer_armed (calls boot_loading ! 0)"
proof -
  have h2: "0 < length (calls boot_loading)" and h3: "promise (calls boot_loading ! 0) = Pending"
    by (simp_all add: boot_loading_def)
  show ?thesis using boot_pending_waits [OF boot_loading_reachable h2 h3] h3 by simp
qed

theorem boot_pending_settles_witness:
  "\<exists>s'. boot_step example_env boot_loading (TimerFires 0) = Some s' \<and>
        promise (calls s' ! 0) = Rejected SdkLoadTimeout"
proof -
  have h2: "0 < length (calls boot_loading)" and h3: "promise (calls boot_loading ! 0) = Pending"
    by (simp_all add: boot_loading_def)
  show ?thesis by (rule boot_pending_settles [OF boot_loading_reachable h2 h3])
qed

theorem boot_no_script_after_load_witness:
  "\<exists>s'. boot_run example_env (initial_boot\<lparr>pg := initial_page\<lparr>window_google := True\<rparr>\<rparr>)
          [Initialize, Initialize] = Some s' \<and> appended_scripts (pg s') = 0"
proof -
  let ?s = "initial_boot\<lparr>pg := initial_page\<lparr>window_google := True\<rparr>\<rparr>"
  obtain s' where r: "boot_run example_env ?s [Initialize, Initialize] = Some s'"
    using example_env_valid
    by (simp add: initial_boot_def initial_page_def initializeGoogle_def setupGoogleClient_def)
  have "window_google (pg ?s)" by simp
  from boot_no_script_after_load [OF this r] r show ?thesis
    by (simp add: initial_boot_def initial_page_def)
qed

theorem boot_relay_run_witness:
  "\<exists>s'. boot_run example_env (initial_boot\<lparr>pg := initial_page\<lparr>sdk_callback_registered := True\<rparr>\<rparr>)
          (map CredentialCallback [Some (js ''a''), None, Some [], Some (js ''b'')]) = Some s' \<and>
        dispatched (pg s') = [js ''a'', js ''b'']"
proof -
  have "sdk_callback_registered (pg (initial_boot\<lparr>pg := initial_page\<lparr>sdk_callback_registered := True\<rparr>\<rparr>))"
    by simp
  then obtain s' where r: "boot_run example_env (initial_boot\<lparr>pg := initial_page\<lparr>sdk_callback_registered := True\<rparr>\<rparr>)
          (map CredentialCallback [Some (js ''a''), None, Some [], Some (js ''b'')]) = Some s'"
    and d: "dispatched (pg s') = dispatched (pg (initial_boot\<lparr>pg := initial_page\<lparr>sdk_callback_registered := True\<rparr>\<rparr>)) @
                                   relayed [Some (js ''a''), None, Some [], Some (js ''b'')]"
    using boot_relay_run [of "initial_boot\<lparr>pg := initial_page\<lparr>sdk_callback_registered := True\<rparr>\<rparr>" example_env
                             "[Some (js ''a''), None, Some [], Some (js ''b'')]"]
    by blast
  have "dispatched (pg s') = [js ''a'', js ''b'']"
    using d by (simp add: relayed_def initial_page_def)
  with r show ?thesis by blast
qed

theorem boot_relay_after_setup_witness:
  "\<exists>s. boot_run example_env initial_boot
          [Initialize, ScriptLoad 0 True, CredentialCallback (Some (js ''credential''))] = Some s \<and>
       js ''credential'' \<in> set (dispatched (pg s)) \<and> 0 < client_initializations (pg s)"
proof -
  obtain s where run: "boot_run example_env initial_boot
          [Initialize, ScriptLoad 0 True, CredentialCallback (Some (js ''credential''))] = Some s"
    and d: "js ''credential'' \<in> set (dispatched (pg s))"
    using example_env_valid
    by (simp add: initial_boot_def initial_page_def initializeGoogle_def on_call_def
                  script_onload_def setupGoogleClient_def settle_def handleCredentialResponse_def)
  have "boot_reachable example_env s"
    by (rule boot_run_reachable [OF boot_reachable.start run])
  with d have "0 < client_initializations (pg s)"
    using boot_relay_after_setup by blast
  with run d show ?thesis by blast
qed

theorem boot_late_load_configures_witness:
  "\<exists>s'. boot_step example_env (on_call load_timeout 0 boot_loading) (ScriptLoad 0 True) = Some s' \<and>
        promise (calls s' ! 0) = Rejected SdkLoadTimeout \<and> client_initializations (pg s') = 1 \<and>
        sdk_callback_registered (pg s')"
proof -
  let ?s = "on_call load_timeout 0 boot_loading"
  have h: "0 < length (calls ?s)" "script (calls ?s ! 0) = Loading"
    "promise (calls ?s ! 0) = Rejected SdkLoadTimeout"
    by (simp_all add: boot_loading_def on_call_def load_timeout_def settle_def)
  have ci: "client_initializations (pg ?s) = 0"
    by (simp add: boot_loading_def on_call_def load_timeout_def initial_page_def)
  obtain s' where "boot_step example_env ?s (ScriptLoad 0 True) = Some s'"
    and "promise (calls s' ! 0) = Rejected SdkLoadTimeout"
    and "client_initializations (pg s') = Suc (client_initializations (pg ?s))"
    and "sdk_callback_registered (pg s')"
    using boot_late_load_configures [OF h] by blast
  with ci show ?thesis by auto
qed

theorem boot_double_initialize_witness:
  "\<exists>s. boot_run example_env initial_boot [Initialize, Initialize] = Some s \<and>
       appended_scripts (pg s) = 2 \<and> promise (calls s ! 0) = Pending \<and>
       promise (calls s ! 1) = Pending"
  by (rule boot_double_initialize [OF example_env_valid])


subsection \<open>The tickets page\<close>

text \<open>The details editor keeps the ticket it was opened with: after selecting the
  first ticket and then the second, editing the status to \<open>closed\<close> and saving closes
  the first ticket, leaves the second (the one on screen) in progress, and selects the
  first again.\<close>

lemma stale_editor_saves_previous_ticket:
  "\<exists>ps. page_run demo_name demo_email (initial_page_state demo_name demo_email)
          [ClickCard 0, ClickCard 1, StartEdit, EditStatus St_closed, SaveEdit 1763600000000] = Some ps \<and>
        map status (tickets (store ps)) = [St_closed, St_in_progress, St_resolved] \<and>
        map_option ticket_id (selectedTicket (store ps)) = Some (js ''1'')"
  by (simp add: initial_page_state_def initial_store_def seed_tickets_def initial_filter_def
                filteredTickets_def ticket_matches_def matchesSearch_def toLowerCase_def
                select_ticket_def fresh_details_def edit_details_def handleUpdateTicket_def
                handleSave_def initial_form_def)

theorem page_tickets_wf_witness:
  "ticket_wf (hd (tickets (store (initial_page_state demo_name demo_email))))"
proof -
  have t: "hd (tickets (store (initial_page_state demo_name demo_email))) \<in>
             set (tickets (store (initial_page_state demo_name demo_email)))"
    by (simp add: initial_page_state_def initial_store_def seed_tickets_def)
  show ?thesis by (rule page_tickets_wf [OF page_reachable.start t])
qed

theorem page_ids_distinct_witness:
  "\<exists>ps. page_run demo_name demo_email (initial_page_state demo_name demo_email)
          [SwitchTab TabNew, FormInput FTitle (js ''Impressora''), FormInput FDescription (js ''Sem papel''),
           FormCategory (js ''Hardware''), SubmitForm 1763600000000] = Some ps \<and>
        distinct (ticket_ids (store ps))"
proof -
  let ?es = "[SwitchTab TabNew, FormInput FTitle (js ''Impressora''), FormInput FDescription (js ''Sem papel''),
              FormCategory (js ''Hardware''), SubmitForm 1763600000000]"
  obtain ps where run: "page_run demo_name demo_email (initial_page_state demo_name demo_email) ?es = Some ps"
    by (simp add: initial_page_state_def initial_form_def blank_form_def edit_form_def set_field_def
                  category_options_def isFormValid_def handleSubmit_def demo_name_def demo_email_def)
  have "distinct (ticket_ids (store ps))"
    by (rule page_ids_distinct [OF run]) simp_all
  with run show ?thesis by blast
qed


theorem page_selection_consistent_witness:
  "(details (initial_page_state demo_name demo_email) \<noteq> None \<longleftrightarrow>
      active_tab (initial_page_state demo_name demo_email) = TabList \<and>
      selectedTicket (store (initial_page_state demo_name demo_email)) \<noteq> None) \<and>
   details (initial_page_state demo_name demo_email) = None"
  using page_selection_consistent [OF page_reachable.start, of demo_name demo_email]
  by (simp add: initial_page_state_def)

theorem page_frozen_fields_witness:
  "\<exists>ps'. page_step demo_name demo_email (initial_page_state demo_name demo_email) ConfirmDelete = None \<and>
         page_step demo_name demo_email (initial_page_state demo_name demo_email) (ClickCard 0) = Some ps' \<and>
         map frozen (tickets (store ps')) =
           map frozen (tickets (store (initial_page_state demo_name demo_email)))"
proof -
  obtain ps' where st: "page_step demo_name demo_email (initial_page_state demo_name demo_email) (ClickCard 0) = Some ps'"
    by (simp add: initial_page_state_def initial_store_def seed_tickets_def initial_filter_def
                  filteredTickets_def ticket_matches_def matchesSearch_def toLowerCase_def)
  have d: "distinct (ticket_ids (store (initial_page_state demo_name demo_email)))"
    by (simp add: initial_page_state_def seed_ids)
  have "map frozen (tickets (store ps')) =
          map frozen (tickets (store (initial_page_state demo_name demo_email)))"
    using page_frozen_fields [OF page_reachable.start d st] by simp
  moreover have "page_step demo_name demo_email (initial_page_state demo_name demo_email) ConfirmDelete = None"
    by (simp add: initial_page_state_def)
  ultimately show ?thesis using st by blast
qed

theorem stale_editor_saves_edited_witness:
  "\<exists>ps3. page_run demo_name demo_email (initial_page_state demo_name demo_email)
           [ClickCard 0, ClickCard 1, StartEdit, SaveEdit 1763600000000] = Some ps3 \<and>
         map_option ticket_id (selectedTicket (store ps3)) = Some (js ''1'')"
proof -
  let ?init = "initial_page_state demo_name demo_email"
  let ?first = "select_ticket (hd seed_tickets) ?init"
  let ?second = "select_ticket (seed_tickets ! 1) ?first"
  have p: "page_step demo_name demo_email ?init (ClickCard 0) = Some ?first"
    by (simp add: initial_page_state_def initial_store_def seed_tickets_def initial_filter_def
                  filteredTickets_def ticket_matches_def matchesSearch_def toLowerCase_def
                  select_ticket_def)
  have d: "details ?first = Some (fresh_details (hd seed_tickets))"
    by (simp add: select_ticket_def initial_page_state_def)
  have p1: "page_step demo_name demo_email ?first (ClickCard 1) = Some ?second"
    by (simp add: initial_page_state_def initial_store_def seed_tickets_def initial_filter_def
                  filteredTickets_def ticket_matches_def matchesSearch_def toLowerCase_def
                  select_ticket_def)
  have ne: "\<not> isEditing (fresh_details (hd seed_tickets))" by (simp add: fresh_details_def)
  obtain ps3 where r: "page_run demo_name demo_email ?second [StartEdit, SaveEdit 1763600000000] = Some ps3"
    and sel: "selectedTicket (store ps3) = Some (editedTicket (fresh_details (hd seed_tickets)))"
    using stale_editor_saves_edited [OF d ne p1] by blast
  have "page_run demo_name demo_email ?init [ClickCard 0, ClickCard 1, StartEdit, SaveEdit 1763600000000] = Some ps3"
    using p p1 r by simp
  moreover have "map_option ticket_id (selectedTicket (store ps3)) = Some (js ''1'')"
    using sel by (simp add: fresh_details_def seed_tickets_def)
  ultimately show ?thesis by blast
qed

theorem submit_creates_ticket_witness:
  "\<exists>ps'. page_run demo_name demo_email (initial_page_state demo_name demo_email)
          [SwitchTab TabNew, FormInput FTitle (js ''Impressora''), FormInput FDescription (js ''Sem papel''),
           FormCategory (js ''Hardware''), SubmitForm 1763600000000] = Some ps' \<and>
        length (tickets (store ps')) = 4 \<and> status (hd (tickets (store ps'))) = St_open"
proof -
  let ?es = "[SwitchTab TabNew, FormInput FTitle (js ''Impressora''), FormInput FDescription (js ''Sem papel''),
              FormCategory (js ''Hardware'')]"
  obtain ps where r: "page_run demo_name demo_email (initial_page_state demo_name demo_email) ?es = Some ps"
    and t: "active_tab ps = TabNew" and v: "isFormValid (formData (form ps))"
    and n: "length (tickets (store ps)) = 3"
    by (simp add: initial_page_state_def initial_form_def blank_form_def edit_form_def set_field_def
                  category_options_def isFormValid_def demo_name_def demo_email_def initial_store_def
                  seed_tickets_def)
  obtain ps' where st: "page_step demo_name demo_email ps (SubmitForm 1763600000000) = Some ps'"
    and tk: "tickets (store ps') = new_ticket 1763600000000 (formData (form ps)) # tickets (store ps)"
    using submit_creates_ticket [of demo_name demo_email ps 1763600000000] t v by blast
  have "page_run demo_name demo_email (initial_page_state demo_name demo_email)
          (?es @ [SubmitForm 1763600000000]) = Some ps'"
    unfolding page_run_append r using st by simp
  then have run: "page_run demo_name demo_email (initial_page_state demo_name demo_email)
          [SwitchTab TabNew, FormInput FTitle (js ''Impressora''), FormInput FDescription (js ''Sem papel''),
           FormCategory (js ''Hardware''), SubmitForm 1763600000000] = Some ps'"
    by (simp only: append.simps)
  have "length (tickets (store ps')) = 4" using tk n by simp
  moreover have "status (hd (tickets (store ps'))) = St_open" using tk by (simp add: new_ticket_def)
  ultimately show ?thesis using run by blast
qed

theorem getTimeAgo_days_witness:
  "getTimeAgo 1763683200000 1763510400000 = js ''h'' @ [225] @ js '' 2 dias''"
proof -
  have "86400000 \<le> (1763683200000 :: int) - 1763510400000" by simp
  from getTimeAgo_days [OF this] show ?thesis
    by (simp add: plural_def num_toString.simps digit_unit_def)
qed


subsection \<open>Witnesses of the login flow\<close>

lemma ana_validated: "fst (validateToken example_env token_ana) = Inr ana_user"
  unfolding ana_user_def by code_simp

lemma bob_rejected:
  "fst (validateToken example_env token_bob) =
     Inl (DomainNotAllowed (js ''@example-corp.example'') (js ''bob@other.example''))"
  by code_simp

lemma token_ana_not_Nil: "token_ana \<noteq> []" by (simp add: token_ana_def)
lemma token_bob_not_Nil: "token_bob \<noteq> []" by (simp add: token_bob_def)

text \<open>The page after the SDK loaded: the button is shown.\<close>

lemma app_ready_run:
  "\<exists>s. app_run example_env initial_app [MountTimerFires, BootEvent (ScriptLoad 0 True)] = Some s \<and>
       sdk_callback_registered (pg (boot s)) \<and> login s \<noteq> None"
  using example_env_valid
  by (simp add: initial_app_def initial_boot_def initial_page_def initial_login_page_def initial_hook_def
                mount_timer_fires_def hook_init_begin_def initializeGoogle_def flush_def
                on_call_def script_onload_def setupGoogleClient_def settle_def Let_def)

theorem app_user_allowed_witness:
  "\<exists>s. app_run example_env initial_app
          [MountTimerFires, BootEvent (ScriptLoad 0 True), BootEvent (CredentialCallback (Some token_ana)),
           LoginTimerFires] = Some s \<and>
       app_user s = Some ana_user \<and> js_endsWith (email ana_user) (ALLOWED_DOMAIN example_env)"
proof -
  obtain s where run: "app_run example_env initial_app
          [MountTimerFires, BootEvent (ScriptLoad 0 True), BootEvent (CredentialCallback (Some token_ana)),
           LoginTimerFires] = Some s" and u: "app_user s = Some ana_user"
    using example_env_valid ana_validated token_ana_not_Nil
    by (simp add: initial_app_def initial_boot_def initial_page_def initial_login_page_def initial_hook_def
                  mount_timer_fires_def hook_init_begin_def initializeGoogle_def flush_def
                  on_call_def script_onload_def setupGoogleClient_def settle_def Let_def
                  credential_event_def handleCredentialResponse_def handleGoogleSignIn_def
                  hook_validateToken_def)
  have "app_reachable example_env s"
    by (rule app_run_reachable [OF app_reachable.start run])
  with u have "js_endsWith (email ana_user) (ALLOWED_DOMAIN example_env)"
    using app_user_allowed by blast
  with run u show ?thesis by blast
qed


theorem rejected_credential_silent_witness:
  "\<exists>s s'. app_run example_env initial_app [MountTimerFires, BootEvent (ScriptLoad 0 True)] = Some s \<and>
          app_step example_env s (BootEvent (CredentialCallback (Some token_bob))) = Some s' \<and>
          login s' = login s \<and> login_timers s' = [] \<and> app_user s' = None"
proof -
  obtain s where run: "app_run example_env initial_app [MountTimerFires, BootEvent (ScriptLoad 0 True)] = Some s"
    and reg: "sdk_callback_registered (pg (boot s))" and l: "login s \<noteq> None"
    using app_ready_run by blast
  have r: "app_reachable example_env s" by (rule app_run_reachable [OF app_reachable.start run])
  have t: "login_timers s = [] \<and> app_user s = None"
    using run example_env_valid
    by (auto simp: initial_app_def initial_boot_def initial_page_def initial_login_page_def initial_hook_def
                  mount_timer_fires_def hook_init_begin_def initializeGoogle_def flush_def
                  on_call_def script_onload_def setupGoogleClient_def settle_def Let_def)
  obtain s' where st: "app_step example_env s (BootEvent (CredentialCallback (Some token_bob))) = Some s'"
    using reg l token_bob_not_Nil bob_rejected
    by (auto simp: credential_event_def handleGoogleSignIn_def hook_validateToken_def Let_def)
  have "login s' = login s \<and> login_timers s' = login_timers s \<and> app_user s' = app_user s"
    by (rule rejected_credential_silent [OF r st bob_rejected])
  with run st t show ?thesis by auto
qed

theorem login_loading_ends_witness:
  "\<exists>es s' l'. length es \<le> 2 \<and> app_run example_env initial_app es = Some s' \<and>
              login s' = Some l' \<and> \<not> isLoading (hook l')"
proof -
  have l: "login initial_app = Some initial_login_page" by (simp add: initial_app_def)
  have "isLoading (hook initial_login_page)" by (simp add: initial_login_page_def initial_hook_def)
  from login_loading_ends [OF app_reachable.start l this] show ?thesis .
qed


subsection \<open>Witnesses of the decoder\<close>

theorem validateToken_refines_spec_witness:
  "outcome_abs (fst (validateToken example_env token_unverified)) = Inl EmailNotVerifiedError"
proof -
  have f: "fits_data_model token_unverified" by code_simp
  have s: "spec_validate (ALLOWED_DOMAIN example_env) token_unverified (spec_decode token_unverified) =
             Inl EmailNotVerifiedError" by code_simp
  from validateToken_refines_spec [OF f, of example_env] s show ?thesis by simp
qed

lemma ana_layout_reachable: "layout_reachable ana_user (the (layout_mount ana_user))"
  by (rule layout_reachable.start) (simp add: ana_user_def layout_mount_def)

theorem layout_tickets_reachable_witness:
  "layout_reachable ana_user (the (layout_mount ana_user)) \<and>
   currentPage (the (layout_mount ana_user)) = PageTickets \<and>
   pred_option tickets_inv (tickets_page (the (layout_mount ana_user)))"
  using layout_tickets_reachable [OF ana_layout_reachable] ana_layout_reachable
  by (simp add: ana_user_def layout_mount_def)

theorem navigation_resets_tickets_witness:
  "PageReports \<noteq> PageTickets \<and>
   (\<exists>l'. layout_run (the (layout_mount ana_user)) [NavClick PageReports, NavClick PageTickets] = Some l' \<and>
         currentPage l' = PageTickets \<and>
         tickets_page l' = Some (initial_page_state (js ''Ana Lima'') (js ''ana@example-corp.example'')))"
  using navigation_resets_tickets [of PageReports "the (layout_mount ana_user)"]
  by (simp add: ana_user_def layout_mount_def)

theorem settings_theme_type_witness:
  "settings_run initial_settings [SetTheme (js ''dark''), SaveNotifications] =
     Some (initial_settings\<lparr>theme := js ''dark''\<rparr>, [notifications_alert]) \<and>
   theme (initial_settings\<lparr>theme := js ''dark''\<rparr>) \<in> set theme_options"
proof -
  have r: "settings_run initial_settings [SetTheme (js ''dark''), SaveNotifications] =
     Some (initial_settings\<lparr>theme := js ''dark''\<rparr>, [notifications_alert])"
    by (simp add: theme_options_def)
  show ?thesis using settings_theme_type [OF r] r by simp
qed

lemma maria_run:
  "old_login_run initial_old_login [OL_Type maria_email, OL_Submit, OL_TimerFires] =
     Some \<lparr>ol_email = maria_email, ol_error = [], ol_isLoading = False, ol_timers = [],
           ol_logins = [\<lparr>email = maria_email, name = JStr (js ''Maria Silva''),
                         picture = Some (JStr (js ''https://ui-avatars.com/api/?name=Maria%20Silva&background=2563eb&color=fff''))\<rparr>]\<rparr>"
  by (simp del: js_split_Cons add: js_split.simps(2) eval_simps maria_email_def surrogate_email_def Let_def
        cong: if_weak_cong list.case_cong_weak option.case_cong_weak)

theorem old_login_users_ok_witness:
  "old_login_reachable \<lparr>ol_email = maria_email, ol_error = [], ol_isLoading = False, ol_timers = [],
           ol_logins = [\<lparr>email = maria_email, name = JStr (js ''Maria Silva''),
                         picture = Some (JStr (js ''https://ui-avatars.com/api/?name=Maria%20Silva&background=2563eb&color=fff''))\<rparr>]\<rparr> \<and>
   js_endsWith maria_email old_domain \<and> emailRegex_lang maria_email"
proof -
  let ?l = "\<lparr>ol_email = maria_email, ol_error = [], ol_isLoading = False, ol_timers = [],
           ol_logins = [\<lparr>email = maria_email, name = JStr (js ''Maria Silva''),
                         picture = Some (JStr (js ''https://ui-avatars.com/api/?name=Maria%20Silva&background=2563eb&color=fff''))\<rparr>]\<rparr>"
  have r: "old_login_reachable ?l"
    by (rule old_login_run_reachable [OF old_login_reachable.start maria_run])
  show ?thesis using old_login_users_ok [OF r, of "hd (ol_logins ?l)"] r by simp
qed

lemma surrogate_run:
  "old_login_run initial_old_login [OL_Type surrogate_email, OL_Submit] =
     Some \<lparr>ol_email = surrogate_email, ol_error = [], ol_isLoading = True, ol_timers = [surrogate_email],
           ol_logins = []\<rparr>"
  by (simp del: js_split_Cons add: js_split.simps(2) eval_simps maria_email_def surrogate_email_def Let_def
        cong: if_weak_cong list.case_cong_weak option.case_cong_weak)

theorem old_login_uri_error_hangs_witness:
  "old_login_reachable \<lparr>ol_email = surrogate_email, ol_error = [], ol_isLoading = True,
                         ol_timers = [surrogate_email], ol_logins = []\<rparr> \<and>
   js_endsWith surrogate_email old_domain \<and> emailRegex_test surrogate_email \<and>
   avatar_url (old_display_name surrogate_email) = None \<and>
   (\<exists>l'. old_login_step \<lparr>ol_email = surrogate_email, ol_error = [], ol_isLoading = True,
                         ol_timers = [surrogate_email], ol_logins = []\<rparr> OL_TimerFires = Some l' \<and>
         ol_logins l' = [] \<and> olv_button (old_login_render l') = js ''Autenticando...'' \<and>
         (\<forall>e. old_login_step l' e = None))"
proof -
  let ?l = "\<lparr>ol_email = surrogate_email, ol_error = [], ol_isLoading = True,
                         ol_timers = [surrogate_email], ol_logins = []\<rparr>"
  have r: "old_login_reachable ?l"
    by (rule old_login_run_reachable [OF old_login_reachable.start surrogate_run])
  have e1: "js_endsWith surrogate_email old_domain"
    by (simp del: js_split_Cons add: js_split.simps(2) eval_simps maria_email_def surrogate_email_def Let_def
        cong: if_weak_cong list.case_cong_weak option.case_cong_weak)
  have e2: "emailRegex_test surrogate_email"
    by (simp del: js_split_Cons add: js_split.simps(2) eval_simps maria_email_def surrogate_email_def Let_def
        cong: if_weak_cong list.case_cong_weak option.case_cong_weak)
  have e3: "avatar_url (old_display_name surrogate_email) = None"
    by (simp del: js_split_Cons add: js_split.simps(2) eval_simps maria_email_def surrogate_email_def Let_def
        cong: if_weak_cong list.case_cong_weak option.case_cong_weak)
  note e = e1 e2 e3
  show ?thesis using old_login_uri_error_hangs [OF r _ e] r e by simp
qed

theorem list_render_one_selected_witness:
  "length (filter cv_selected
     (map (\<lambda>t. card_render 0 (Some (js ''2'') = Some (ticket_id t)) t) seed_tickets)) = 1"
proof -
  have d: "distinct (map ticket_id seed_tickets)" by (simp add: seed_tickets_def)
  have l: "list_render 0 initial_filter seed_tickets (Some (js ''2'')) =
     ListCards (map (\<lambda>t. card_render 0 (Some (js ''2'') = Some (ticket_id t)) t) seed_tickets)"
    by (simp add: list_render_def filteredTickets_initial seed_tickets_def)
  have "\<exists>t \<in> set (filteredTickets initial_filter seed_tickets). Some (js ''2'') = Some (ticket_id t)"
    by (simp add: filteredTickets_initial seed_tickets_def)
  then show ?thesis using list_render_one_selected [OF d l] by simp
qed

theorem shell_layout_user_allowed_witness:
  "\<exists>s l. shell_run example_env initial_shell
          (map ShApp [MountTimerFires, BootEvent (ScriptLoad 0 True),
                      BootEvent (CredentialCallback (Some token_ana)), LoginTimerFires]) = Some s \<and>
       sh_layout s = Some l \<and> lay_email l = js ''ana@example-corp.example'' \<and>
       js_endsWith (lay_email l) (ALLOWED_DOMAIN example_env)"
proof -
  obtain s l where run: "shell_run example_env initial_shell
          (map ShApp [MountTimerFires, BootEvent (ScriptLoad 0 True),
                      BootEvent (CredentialCallback (Some token_ana)), LoginTimerFires]) = Some s"
    and l: "sh_layout s = Some l" and e: "lay_email l = js ''ana@example-corp.example''"
    using example_env_valid ana_validated token_ana_not_Nil
    by (simp add: initial_shell_def initial_app_def initial_boot_def initial_page_def initial_login_page_def
                  initial_hook_def mount_timer_fires_def hook_init_begin_def initializeGoogle_def flush_def
                  on_call_def script_onload_def setupGoogleClient_def settle_def Let_def
                  credential_event_def handleCredentialResponse_def handleGoogleSignIn_def
                  hook_validateToken_def app_rerender_def layout_mount_def ana_user_def)
  have r: "shell_reachable example_env s"
    by (rule shell_run_reachable [OF shell_reachable.start run])
  from shell_layout_user_allowed [OF r l] have "js_endsWith (lay_email l) (ALLOWED_DOMAIN example_env)"
    by blast
  with run l e show ?thesis by blast
qed


theorem validateToken_signature_ignored_witness:
  "validateToken example_env (js ''hdr'' @ 46 # js ''e30'' @ 46 # js ''sig'') =
   validateToken example_env (js ''forged'' @ 46 # js ''e30'' @ 46 # [])"
  by (rule validateToken_signature_ignored) simp_all

theorem panel_run_keeps_ids_witness:
  "\<exists>s'. panel_run demo_name demo_email (initial_panel demo_name demo_email)
          [PanelPage (ClickCard 0), OpenDeleteDialog, CancelDeleteDialog] = Some s' \<and>
        set (ticket_ids (store (pnl_page (initial_panel demo_name demo_email)))) \<subseteq>
          set (ticket_ids (store (pnl_page s')))"
proof -
  obtain s' where r: "panel_run demo_name demo_email (initial_panel demo_name demo_email)
          [PanelPage (ClickCard 0), OpenDeleteDialog, CancelDeleteDialog] = Some s'"
    by (simp add: initial_panel_def initial_page_state_def initial_store_def seed_tickets_def
                  initial_filter_def filteredTickets_def ticket_matches_def matchesSearch_def
                  toLowerCase_def select_ticket_def)
  have "ConfirmDeleteDialog \<notin> set [PanelPage (ClickCard 0), OpenDeleteDialog, CancelDeleteDialog]"
    by simp
  from panel_run_keeps_ids [OF r this] r show ?thesis by blast
qed

theorem form_view_consistent_witness:
  "fv_category (form_render (initial_form demo_name demo_email)) = category_placeholder"
proof -
  let ?ps = "(initial_page_state demo_name demo_email)\<lparr>active_tab := TabNew, details := None,
               form := initial_form demo_name demo_email, form_timers := 0\<rparr>"
  have st: "page_step demo_name demo_email (initial_page_state demo_name demo_email) (SwitchTab TabNew) = Some ?ps"
    by (simp add: initial_page_state_def)
  have r: "page_reachable demo_name demo_email ?ps"
    by (rule page_reachable.step [OF page_reachable.start st])
  have c: "pv_content (page_render 0 0 ?ps) = NewTabView (form_render (form ?ps))"
    by (simp add: page_render_def)
  from form_view_consistent [OF r c] show ?thesis
    by (simp add: initial_form_def blank_form_def)
qed

theorem system_choices_reset_witness:
  "\<exists>w'. widgets_run initial_widgets [SelectSettingsTab TabTeam, SelectSettingsTab TabSystem] = Some w' \<and>
        sw_language w' = Some (js ''pt-br'')"
  using system_choices_reset [of TabTeam initial_widgets] by auto

theorem navigation_resets_settings_witness:
  "\<exists>l'. layout_run (the (layout_mount ana_user)) [NavClick PageReports, MenuSettings] = Some l' \<and>
        settings_page l' = Some initial_settings"
  using navigation_resets_settings [of PageReports "the (layout_mount ana_user)"] by auto

theorem name_not_string_crashes_witness:
  "\<exists>s. shell_run example_env initial_shell
          (map ShApp [MountTimerFires, BootEvent (ScriptLoad 0 True),
                      BootEvent (CredentialCallback (Some token_numeric_name)), LoginTimerFires]) = Some s \<and>
       sh_crashed s \<and> sh_layout s = None"
proof -
  let ?u = "\<lparr>email = js ''ana@example-corp.example'', name = JNum 7 0, picture = None\<rparr>"
  have nv: "fst (validateToken example_env token_numeric_name) = Inr ?u"
    using numeric_name_crashes_layout by simp
  have nn: "token_numeric_name \<noteq> []" by (simp add: token_numeric_name_def)
  obtain s where run: "shell_run example_env initial_shell
          (map ShApp [MountTimerFires, BootEvent (ScriptLoad 0 True),
                      BootEvent (CredentialCallback (Some token_numeric_name)), LoginTimerFires]) = Some s"
    and u: "app_user (sh_app s) = Some ?u"
    using example_env_valid nv nn
    by (simp add: initial_shell_def initial_app_def initial_boot_def initial_page_def initial_login_page_def
                  initial_hook_def mount_timer_fires_def hook_init_begin_def initializeGoogle_def flush_def
                  on_call_def script_onload_def setupGoogleClient_def settle_def Let_def
                  credential_event_def handleCredentialResponse_def handleGoogleSignIn_def
                  hook_validateToken_def app_rerender_def layout_mount_def)
  have r: "shell_reachable example_env s"
    by (rule shell_run_reachable [OF shell_reachable.start run])
  have "\<forall>n. name ?u \<noteq> JStr n" by simp
  from name_not_string_crashes [OF r u this] run show ?thesis by blast
qed

end
